theory Spec2Isabelle
  imports Main "HOL-Library.Word" "HOL-Library.Sublist"
begin

section \<open>The RISC-V instruction decoder of rvcodec.js\<close>

text \<open>
  The decoder works on the instruction as a text of binary digits, most significant bit
  first, and cuts it into fields by position. The model keeps that representation: an
  instruction is a \<open>string\<close>, a field is a substring, and every \<open>throw\<close> of the
  source is a value of the type \<open>error\<close>.
\<close>

subsection \<open>Errors\<close>

text \<open>
  One constructor per kind of \<open>throw\<close> in the decoder; the arguments are the parts of
  the message that vary.
  \<^item> \<open>PositionError\<close>: "getBits: position error".
  \<^item> \<open>InvalidOpcode opcode\<close>: "Invalid opcode: ...".
  \<^item> \<open>InvalidFunct what fields\<close>: "Detected ... instruction but invalid ... field(s)".
  \<^item> \<open>NonZeroReserved\<close>: "Registers rd and rs1 should be 0".
  \<^item> \<open>ShiftOutOfRange opcodeName shamt\<close>: "Detected ... but invalid shamt field for
    RV32I (out of range): ...".
  \<^item> \<open>BadShtyp opcodeName\<close>: "Detected ... shift instruction but invalid shtyp field".
  \<^item> \<open>InvalidFence\<close>: "Invalid IO/Mem field".
  \<^item> \<open>IsaMismatch isa\<close>: "Detected ... instruction but configuration ISA set to RV32I".
  \<^item> \<open>TypeError\<close>: the exception of the JavaScript runtime when a property of
    \<open>undefined\<close> is read.
\<close>

datatype error =
    PositionError
  | InvalidOpcode string
  | InvalidFunct string string
  | NonZeroReserved
  | ShiftOutOfRange string "int option"
  | BadShtyp string
  | InvalidFence
  | IsaMismatch string
  | TypeError

definition bind_err :: "error + 'a \<Rightarrow> ('a \<Rightarrow> error + 'b) \<Rightarrow> error + 'b" where
  "bind_err m f = (case m of Inl e \<Rightarrow> Inl e | Inr x \<Rightarrow> f x)"

subsection \<open>JavaScript strings and numbers\<close>

text \<open>\<open>String.prototype.substring\<close>: both indices are clamped to the string and swapped
  when they come in the wrong order.\<close>

definition substring :: "string \<Rightarrow> int \<Rightarrow> int \<Rightarrow> string" where
  "substring s a b =
     (let n = int (length s);
          a' = max 0 (min a n);
          b' = max 0 (min b n);
          lo = min a' b';
          hi = max a' b'
      in take (nat (hi - lo)) (drop (nat lo) s))"

definition is_space :: "char \<Rightarrow> bool" where
  "is_space c = (c \<in> set [CHR '' '', CHR 0x09, CHR 0x0A, CHR 0x0B, CHR 0x0C, CHR 0x0D])"

definition trim :: "string \<Rightarrow> string" where
  "trim s = rev (dropWhile is_space (rev (dropWhile is_space s)))"

definition is_bit :: "char \<Rightarrow> bool" where
  "is_bit c = (c = CHR ''0'' \<or> c = CHR ''1'')"

text \<open>The value of a text of binary digits, most significant first.\<close>

fun bin_value :: "string \<Rightarrow> int \<Rightarrow> int" where
  "bin_value [] acc = acc"
| "bin_value (c # cs) acc = bin_value cs (2 * acc + (if c = CHR ''1'' then 1 else 0))"

text \<open>\<open>parseInt(s, BASE.bin)\<close>, the base being 2: leading white space and one sign are
  skipped, then the longest run of binary digits is read; \<open>None\<close> is \<open>NaN\<close>, the result
  when there is no digit.\<close>

definition parseInt2 :: "string \<Rightarrow> int option" where
  "parseInt2 s =
     (let t = dropWhile is_space s;
          neg = (t \<noteq> [] \<and> hd t = CHR ''-'');
          u = (if t \<noteq> [] \<and> (hd t = CHR ''-'' \<or> hd t = CHR ''+'') then tl t else t);
          ds = takeWhile is_bit u
      in if ds = [] then None
         else Some (if neg then - bin_value ds 0 else bin_value ds 0))"

definition digit_char :: "int \<Rightarrow> char" where
  "digit_char d = (''0123456789abcdef'' ! nat d)"

text \<open>The digits of a number that is not negative, in a base from 2 to 16, as
  \<open>Number.prototype.toString\<close> writes them.\<close>

function digits :: "int \<Rightarrow> int \<Rightarrow> string" where
  "digits b n =
     (if b < 2 \<or> n < b then [digit_char n] else digits b (n div b) @ [digit_char (n mod b)])"
  by pat_completeness auto
termination
  by (relation "measure (\<lambda>(b, n). nat n)") (auto intro: int_div_less_self)

declare digits.simps [simp del]

definition toString :: "int \<Rightarrow> int \<Rightarrow> string" where
  "toString b n = (if n < 0 then CHR ''-'' # digits b (- n) else digits b n)"

text \<open>A number as JavaScript prints it when it is appended to a string.\<close>

definition num_str :: "int option \<Rightarrow> string" where
  "num_str v = (case v of None \<Rightarrow> ''NaN'' | Some n \<Rightarrow> toString 10 n)"

definition padStart :: "string \<Rightarrow> nat \<Rightarrow> char \<Rightarrow> string" where
  "padStart s n c = replicate (n - length s) c @ s"

text \<open>\<open>1 << n\<close> on JavaScript numbers: the shift count is taken modulo 32 and the result
  is a signed 32-bit integer.\<close>

definition shl1 :: "nat \<Rightarrow> int" where
  "shl1 n = sint (push_bit (n mod 32) (1 :: 32 word))"

subsection \<open>Bit primitives\<close>

text \<open>\<open>getBits(binary, pos)\<close> with \<open>pos = [high, width]\<close>.\<close>

definition getBits :: "string \<Rightarrow> int \<times> int \<Rightarrow> error + string" where
  "getBits binary pos =
     (let end' = fst pos + 1;
          start = end' - snd pos
      in if start > end' \<or> int (length binary) < end' then Inl PositionError
         else Inr (substring binary (int (length binary) - end') (int (length binary) - start)))"

text \<open>\<open>decImm(immediate, signExtend = true)\<close>.\<close>

definition decImm :: "string \<Rightarrow> bool \<Rightarrow> int option" where
  "decImm immediate signExtend =
     (if signExtend \<and> immediate \<noteq> [] \<and> hd immediate = CHR ''1''
      then (case parseInt2 immediate of
              None \<Rightarrow> None
            | Some v \<Rightarrow> Some (v - shl1 (length immediate)))
      else parseInt2 immediate)"

text \<open>\<open>decReg(reg, floatReg = false)\<close>.\<close>

definition decReg :: "string \<Rightarrow> bool \<Rightarrow> string" where
  "decReg reg floatReg = (if floatReg then ''f'' else ''x'') @ num_str (parseInt2 reg)"

text \<open>\<open>decMem(bits)\<close>: the loop runs over the bits and the letters side by side; a bit
  beyond the fourth would append the text of \<open>undefined\<close>.\<close>

fun decMem_loop :: "string \<Rightarrow> string list \<Rightarrow> string" where
  "decMem_loop [] access = []"
| "decMem_loop (b # bs) access =
     (if b = CHR ''1'' then (case access of [] \<Rightarrow> ''undefined'' | a # _ \<Rightarrow> a) else [])
     @ decMem_loop bs (tl access)"

definition decMem :: "string \<Rightarrow> error + string" where
  "decMem bs =
     (let output = decMem_loop bs [''i'', ''o'', ''r'', ''w'']
      in if output = [] then Inl InvalidFence else Inr output)"

text \<open>\<open>decCSR(binStr)\<close>, over the table of names and addresses in its order of entry.\<close>

definition decCSR :: "(string \<times> int) list \<Rightarrow> string \<Rightarrow> string" where
  "decCSR CSR binStr =
     (let val = parseInt2 binStr;
          entry = find (\<lambda>e. Some (snd e) = val) CSR
      in case entry of
           Some e \<Rightarrow> fst e
         | None \<Rightarrow> ''0x'' @ padStart (case val of None \<Rightarrow> ''NaN'' | Some v \<Rightarrow> toString 16 v) 3 CHR ''0'')"

subsection \<open>Constants of the instruction set\<close>

text \<open>
  Modelled from the spec: the file Constants.js, which holds \<open>FIELDS\<close> and \<open>OPCODE\<close>,
  is not among the sources. The positions \<open>[high, width]\<close> follow the bit layouts of
  the spec (section 6, per-format bit fields); the opcodes are those of the RISC-V base
  encoding that the spec's scenarios use. The names of the immediate fields begin with
  \<open>imm\<close>, which is what \<open>renderAsm\<close> tests to print \<open>offset(base)\<close>.
\<close>

datatype FIELDS =
    F_opcode | F_rd | F_funct3 | F_rs1 | F_rs2
  | F_r_funct5 | F_r_funct7 | F_r_aq | F_r_rl | F_r_fp_fmt
  | F_i_imm_11_0 | F_i_shtyp_11_5 | F_i_shtyp_11_6 | F_i_shtyp
  | F_i_shamt_5 | F_i_shamt_5_0 | F_i_shamt
  | F_i_funct12 | F_i_csr | F_i_imm_4_0 | F_i_fm | F_i_pred | F_i_succ
  | F_s_imm_4_0 | F_s_imm_11_5
  | F_b_imm_4_1 | F_b_imm_11 | F_b_imm_10_5 | F_b_imm_12
  | F_u_imm_31_12
  | F_j_imm_20 | F_j_imm_10_1 | F_j_imm_11 | F_j_imm_19_12

fun pos :: "FIELDS \<Rightarrow> int \<times> int" where
  "pos F_opcode = (6, 7)"
| "pos F_rd = (11, 5)"
| "pos F_funct3 = (14, 3)"
| "pos F_rs1 = (19, 5)"
| "pos F_rs2 = (24, 5)"
| "pos F_r_funct5 = (31, 5)"
| "pos F_r_funct7 = (31, 7)"
| "pos F_r_aq = (26, 1)"
| "pos F_r_rl = (25, 1)"
| "pos F_r_fp_fmt = (26, 2)"
| "pos F_i_imm_11_0 = (31, 12)"
| "pos F_i_shtyp_11_5 = (31, 7)"
| "pos F_i_shtyp_11_6 = (31, 6)"
| "pos F_i_shtyp = (30, 1)"
| "pos F_i_shamt_5 = (25, 1)"
| "pos F_i_shamt_5_0 = (25, 6)"
| "pos F_i_shamt = (24, 5)"
| "pos F_i_funct12 = (31, 12)"
| "pos F_i_csr = (31, 12)"
| "pos F_i_imm_4_0 = (19, 5)"
| "pos F_i_fm = (31, 4)"
| "pos F_i_pred = (27, 4)"
| "pos F_i_succ = (23, 4)"
| "pos F_s_imm_4_0 = (11, 5)"
| "pos F_s_imm_11_5 = (31, 7)"
| "pos F_b_imm_4_1 = (11, 4)"
| "pos F_b_imm_11 = (7, 1)"
| "pos F_b_imm_10_5 = (30, 6)"
| "pos F_b_imm_12 = (31, 1)"
| "pos F_u_imm_31_12 = (31, 20)"
| "pos F_j_imm_20 = (31, 1)"
| "pos F_j_imm_10_1 = (30, 10)"
| "pos F_j_imm_11 = (20, 1)"
| "pos F_j_imm_19_12 = (19, 8)"

fun fname :: "FIELDS \<Rightarrow> string" where
  "fname F_opcode = ''opcode''"
| "fname F_rd = ''rd''"
| "fname F_funct3 = ''funct3''"
| "fname F_rs1 = ''rs1''"
| "fname F_rs2 = ''rs2''"
| "fname F_r_funct5 = ''funct5''"
| "fname F_r_funct7 = ''funct7''"
| "fname F_r_aq = ''aq''"
| "fname F_r_rl = ''rl''"
| "fname F_r_fp_fmt = ''fmt''"
| "fname F_i_imm_11_0 = ''imm[11:0]''"
| "fname F_i_shtyp_11_5 = ''shtyp[11:5]''"
| "fname F_i_shtyp_11_6 = ''shtyp[11:6]''"
| "fname F_i_shtyp = ''shtyp''"
| "fname F_i_shamt_5 = ''shamt[5]''"
| "fname F_i_shamt_5_0 = ''shamt[5:0]''"
| "fname F_i_shamt = ''shamt[4:0]''"
| "fname F_i_funct12 = ''funct12''"
| "fname F_i_csr = ''csr''"
| "fname F_i_imm_4_0 = ''imm[4:0]''"
| "fname F_i_fm = ''fm''"
| "fname F_i_pred = ''pred''"
| "fname F_i_succ = ''succ''"
| "fname F_s_imm_4_0 = ''imm[4:0]''"
| "fname F_s_imm_11_5 = ''imm[11:5]''"
| "fname F_b_imm_4_1 = ''imm[4:1]''"
| "fname F_b_imm_11 = ''imm[11]''"
| "fname F_b_imm_10_5 = ''imm[10:5]''"
| "fname F_b_imm_12 = ''imm[12]''"
| "fname F_u_imm_31_12 = ''imm[31:12]''"
| "fname F_j_imm_20 = ''imm[20]''"
| "fname F_j_imm_10_1 = ''imm[10:1]''"
| "fname F_j_imm_11 = ''imm[11]''"
| "fname F_j_imm_19_12 = ''imm[19:12]''"

definition OPCODE_LOAD :: string where "OPCODE_LOAD = ''0000011''"
definition OPCODE_LOAD_FP :: string where "OPCODE_LOAD_FP = ''0000111''"
definition OPCODE_MISC_MEM :: string where "OPCODE_MISC_MEM = ''0001111''"
definition OPCODE_OP_IMM :: string where "OPCODE_OP_IMM = ''0010011''"
definition OPCODE_AUIPC :: string where "OPCODE_AUIPC = ''0010111''"
definition OPCODE_OP_IMM_32 :: string where "OPCODE_OP_IMM_32 = ''0011011''"
definition OPCODE_STORE :: string where "OPCODE_STORE = ''0100011''"
definition OPCODE_STORE_FP :: string where "OPCODE_STORE_FP = ''0100111''"
definition OPCODE_AMO :: string where "OPCODE_AMO = ''0101111''"
definition OPCODE_OP :: string where "OPCODE_OP = ''0110011''"
definition OPCODE_LUI :: string where "OPCODE_LUI = ''0110111''"
definition OPCODE_OP_32 :: string where "OPCODE_OP_32 = ''0111011''"
definition OPCODE_MADD :: string where "OPCODE_MADD = ''1000011''"
definition OPCODE_MSUB :: string where "OPCODE_MSUB = ''1000111''"
definition OPCODE_NMSUB :: string where "OPCODE_NMSUB = ''1001011''"
definition OPCODE_NMADD :: string where "OPCODE_NMADD = ''1001111''"
definition OPCODE_OP_FP :: string where "OPCODE_OP_FP = ''1010011''"
definition OPCODE_BRANCH :: string where "OPCODE_BRANCH = ''1100011''"
definition OPCODE_JALR :: string where "OPCODE_JALR = ''1100111''"
definition OPCODE_JAL :: string where "OPCODE_JAL = ''1101111''"
definition OPCODE_SYSTEM :: string where "OPCODE_SYSTEM = ''1110011''"

text \<open>
  The dispatch tables of Constants.js are a parameter of the decoder: an entry of a table
  is a mnemonic or a further table (\<open>typeof entry !== 'string'\<close>), and a key without
  an entry is \<open>undefined\<close>, here \<open>None\<close>. \<open>ISA\<close> gives, for a mnemonic, its format
  and instruction set and the fields \<open>funct3\<close> and \<open>rs2\<close> when its encoding fixes
  them. \<open>CSR\<close> lists the names of the control and status registers with their addresses.
  \<open>convertRegToAbi\<close>, of Instruction.js, replaces a register token by its ABI name.
\<close>

datatype entry = Mne string | Sub "string \<Rightarrow> string option"

record inst =
  inst_fmt :: string
  inst_isa :: string
  inst_funct3 :: "string option"
  inst_rs2 :: "string option"

datatype tok = Str string | Num int | NaN | Undef

record tables =
  ISA_OP :: "string \<Rightarrow> string option"
  ISA_OP_32 :: "string \<Rightarrow> string option"
  ISA_LOAD :: "string \<Rightarrow> string option"
  ISA_STORE :: "string \<Rightarrow> string option"
  ISA_OP_IMM :: "string \<Rightarrow> entry option"
  ISA_OP_IMM_32 :: "string \<Rightarrow> entry option"
  ISA_BRANCH :: "string \<Rightarrow> string option"
  ISA_MISC_MEM :: "string \<Rightarrow> string option"
  ISA_SYSTEM :: "string \<Rightarrow> entry option"
  ISA_AMO :: "string \<Rightarrow> string option"
  ISA_LOAD_FP :: "string \<Rightarrow> string option"
  ISA_STORE_FP :: "string \<Rightarrow> string option"
  ISA_OP_FP :: "string \<Rightarrow> (string \<Rightarrow> entry option) option"
  ISA_MADD :: "string \<Rightarrow> string option"
  ISA_MSUB :: "string \<Rightarrow> string option"
  ISA_NMADD :: "string \<Rightarrow> string option"
  ISA_NMSUB :: "string \<Rightarrow> string option"
  ISA :: "string \<Rightarrow> inst option"
  CSR :: "(string \<times> int) list"
  convertRegToAbi :: "tok \<Rightarrow> tok"

text \<open>Modelled from the spec: Config.js is not among the sources; the spec gives the two
  instruction-set profiles and the switch for ABI names.\<close>

datatype COPTS_ISA = RV32I | RV64I

record config =
  cfg_ISA :: COPTS_ISA
  cfg_ABI :: bool

subsection \<open>Fragments\<close>

text \<open>Modelled from the spec: the class \<open>Frag\<close> of Instruction.js is not among the
  sources. A fragment carries its assembly token, its bits, the name of its field and
  whether it is the base register of a memory operand. The token is whatever value the
  decoder passes: a text, a number (\<open>NaN\<close> included) or \<open>undefined\<close>.\<close>

record frag =
  asm :: tok
  bits :: string
  field :: string
  mem :: bool

definition Frag :: "tok \<Rightarrow> string \<Rightarrow> string \<Rightarrow> bool \<Rightarrow> frag" where
  "Frag a b f m = \<lparr>asm = a, bits = b, field = f, mem = m\<rparr>"

definition num_tok :: "int option \<Rightarrow> tok" where
  "num_tok v = (case v of None \<Rightarrow> NaN | Some n \<Rightarrow> Num n)"

definition mne_tok :: "string option \<Rightarrow> tok" where
  "mne_tok m = (case m of None \<Rightarrow> Undef | Some s \<Rightarrow> Str s)"

text \<open>The text of a token when it is appended to a string.\<close>

definition tok_str :: "tok \<Rightarrow> string" where
  "tok_str t = (case t of Str s \<Rightarrow> s | Num n \<Rightarrow> toString 10 n | NaN \<Rightarrow> ''NaN''
                | Undef \<Rightarrow> ''undefined'')"

text \<open>\<open>s[i] === c\<close> on a string: false beyond its end.\<close>

definition char_is :: "string \<Rightarrow> nat \<Rightarrow> char \<Rightarrow> bool" where
  "char_is s i c = (i < length s \<and> s ! i = c)"

subsection \<open>Field extraction\<close>

record RFields =
  r_rs2 :: string
  r_rs1 :: string
  r_funct3 :: string
  r_rd :: string
  r_funct5 :: string
  r_funct7 :: string
  r_aq :: string
  r_rl :: string
  r_fmt :: string

record IFields =
  i_imm :: string
  i_rs1 :: string
  i_funct3 :: string
  i_rd :: string
  i_shtyp :: string
  i_shamt :: string
  i_shamt_5 :: string
  i_funct12 :: string
  i_fm :: string
  i_pred :: string
  i_succ :: string

record SFields =
  s_imm_11_5 :: string
  s_rs2 :: string
  s_rs1 :: string
  s_funct3 :: string
  s_imm_4_0 :: string

record BFields =
  b_imm_12 :: string
  b_imm_10_5 :: string
  b_rs2 :: string
  b_rs1 :: string
  b_funct3 :: string
  b_imm_4_1 :: string
  b_imm_11 :: string

definition extractRFields :: "string \<Rightarrow> error + RFields" where
  "extractRFields binary =
     bind_err (getBits binary (pos F_rs2)) (\<lambda>rs2.
     bind_err (getBits binary (pos F_rs1)) (\<lambda>rs1.
     bind_err (getBits binary (pos F_funct3)) (\<lambda>funct3.
     bind_err (getBits binary (pos F_rd)) (\<lambda>rd.
     bind_err (getBits binary (pos F_r_funct5)) (\<lambda>funct5.
     bind_err (getBits binary (pos F_r_funct7)) (\<lambda>funct7.
     bind_err (getBits binary (pos F_r_aq)) (\<lambda>aq.
     bind_err (getBits binary (pos F_r_rl)) (\<lambda>rl.
     bind_err (getBits binary (pos F_r_fp_fmt)) (\<lambda>fmt.
     Inr \<lparr>r_rs2 = rs2, r_rs1 = rs1, r_funct3 = funct3, r_rd = rd, r_funct5 = funct5,
          r_funct7 = funct7, r_aq = aq, r_rl = rl, r_fmt = fmt\<rparr>)))))))))"

definition extractIFields :: "string \<Rightarrow> error + IFields" where
  "extractIFields binary =
     bind_err (getBits binary (pos F_i_imm_11_0)) (\<lambda>imm.
     bind_err (getBits binary (pos F_rs1)) (\<lambda>rs1.
     bind_err (getBits binary (pos F_funct3)) (\<lambda>funct3.
     bind_err (getBits binary (pos F_rd)) (\<lambda>rd.
     bind_err (getBits binary (pos F_i_shtyp)) (\<lambda>shtyp.
     bind_err (getBits binary (pos F_i_shamt)) (\<lambda>shamt.
     bind_err (getBits binary (pos F_i_shamt_5)) (\<lambda>shamt_5.
     bind_err (getBits binary (pos F_i_funct12)) (\<lambda>funct12.
     bind_err (getBits binary (pos F_i_fm)) (\<lambda>fm.
     bind_err (getBits binary (pos F_i_pred)) (\<lambda>pred.
     bind_err (getBits binary (pos F_i_succ)) (\<lambda>succ.
     Inr \<lparr>i_imm = imm, i_rs1 = rs1, i_funct3 = funct3, i_rd = rd, i_shtyp = shtyp,
          i_shamt = shamt, i_shamt_5 = shamt_5, i_funct12 = funct12, i_fm = fm,
          i_pred = pred, i_succ = succ\<rparr>)))))))))))"

definition extractSFields :: "string \<Rightarrow> error + SFields" where
  "extractSFields binary =
     bind_err (getBits binary (pos F_s_imm_11_5)) (\<lambda>imm_11_5.
     bind_err (getBits binary (pos F_rs2)) (\<lambda>rs2.
     bind_err (getBits binary (pos F_rs1)) (\<lambda>rs1.
     bind_err (getBits binary (pos F_funct3)) (\<lambda>funct3.
     bind_err (getBits binary (pos F_s_imm_4_0)) (\<lambda>imm_4_0.
     Inr \<lparr>s_imm_11_5 = imm_11_5, s_rs2 = rs2, s_rs1 = rs1, s_funct3 = funct3,
          s_imm_4_0 = imm_4_0\<rparr>)))))"

definition extractBFields :: "string \<Rightarrow> error + BFields" where
  "extractBFields binary =
     bind_err (getBits binary (pos F_b_imm_12)) (\<lambda>imm_12.
     bind_err (getBits binary (pos F_b_imm_10_5)) (\<lambda>imm_10_5.
     bind_err (getBits binary (pos F_rs2)) (\<lambda>rs2.
     bind_err (getBits binary (pos F_rs1)) (\<lambda>rs1.
     bind_err (getBits binary (pos F_funct3)) (\<lambda>funct3.
     bind_err (getBits binary (pos F_b_imm_4_1)) (\<lambda>imm_4_1.
     bind_err (getBits binary (pos F_b_imm_11)) (\<lambda>imm_11.
     Inr \<lparr>b_imm_12 = imm_12, b_imm_10_5 = imm_10_5, b_rs2 = rs2, b_rs1 = rs1,
          b_funct3 = funct3, b_imm_4_1 = imm_4_1, b_imm_11 = imm_11\<rparr>)))))))"

subsection \<open>The handlers of the decoder\<close>

text \<open>
  A handler sets the mnemonic, pushes the fragments on the two lists of the decoder and,
  for a shift by six bits, sets the instruction set. The model returns these four values;
  \<open>h_mne = None\<close> is a mnemonic left \<open>undefined\<close>.
\<close>

record handled =
  h_mne :: "string option"
  h_isa :: "string option"
  h_asmFrags :: "frag list"
  h_binFrags :: "frag list"

definition decodeOP :: "tables \<Rightarrow> string \<Rightarrow> string \<Rightarrow> error + handled" where
  "decodeOP T opcode bin =
     bind_err (extractRFields bin) (\<lambda>fields.
       let funct7 = r_funct7 fields;
           funct3 = r_funct3 fields;
           rs2 = r_rs2 fields;
           rs1 = r_rs1 fields;
           rd = r_rd fields;
           op_32 = (opcode = OPCODE_OP_32);
           mne = (if op_32 then ISA_OP_32 T (funct7 @ funct3) else ISA_OP T (funct7 @ funct3));
           opcodeName = (if op_32 then ''OP-32'' else ''OP'')
       in case mne of
            None \<Rightarrow> Inl (InvalidFunct opcodeName ''funct7 and funct3'')
          | Some m \<Rightarrow>
              let src1 = decReg rs1 False;
                  src2 = decReg rs2 False;
                  dest = decReg rd False;
                  f_opcode = Frag (Str m) opcode (fname F_opcode) False;
                  f_funct3 = Frag (Str m) funct3 (fname F_funct3) False;
                  f_funct7 = Frag (Str m) funct7 (fname F_r_funct7) False;
                  f_rd = Frag (Str dest) rd (fname F_rd) False;
                  f_rs1 = Frag (Str src1) rs1 (fname F_rs1) False;
                  f_rs2 = Frag (Str src2) rs2 (fname F_rs2) False
              in Inr \<lparr>h_mne = Some m, h_isa = None,
                      h_asmFrags = [f_opcode, f_rd, f_rs1, f_rs2],
                      h_binFrags = [f_funct7, f_rs2, f_rs1, f_funct3, f_rd, f_opcode]\<rparr>)"

definition decodeOP_FP :: "tables \<Rightarrow> string \<Rightarrow> string \<Rightarrow> error + handled" where
  "decodeOP_FP T opcode bin =
     bind_err (extractRFields bin) (\<lambda>fields.
       let funct5 = r_funct5 fields;
           funct3 = r_funct3 fields;
           fmt = r_fmt fields;
           rs2 = r_rs2 fields;
           rs1 = r_rs1 fields;
           rd = r_rd fields;
           found = (case ISA_OP_FP T funct5 of None \<Rightarrow> None | Some t \<Rightarrow> t fmt);
           mne = (case found of
                    None \<Rightarrow> None
                  | Some (Mne m) \<Rightarrow> Some m
                  | Some (Sub t) \<Rightarrow> (if t rs2 \<noteq> None then t rs2 else t funct3))
       in case mne of
            None \<Rightarrow> Inl (InvalidFunct ''OP-FP'' ''funct and fmt'')
          | Some m \<Rightarrow>
             (case ISA T m of
                None \<Rightarrow> Inl TypeError
              | Some inst \<Rightarrow>
                  let useRs2 = (inst_rs2 inst = None);
                      floatRd = \<not> (char_is funct5 0 CHR ''1'' \<and> \<not> char_is funct5 3 CHR ''1'');
                      floatRs1 = \<not> (char_is funct5 0 CHR ''1'' \<and> char_is funct5 3 CHR ''1'');
                      src1 = decReg rs1 floatRs1;
                      src2 = decReg rs2 True;
                      dest = decReg rd floatRd;
                      useRm = (inst_funct3 inst = None);
                      f_opcode = Frag (Str m) opcode (fname F_opcode) False;
                      f_funct3 = Frag (Str m) funct3 (if useRm then ''rm'' else fname F_funct3) False;
                      f_funct5 = Frag (Str m) funct5 (fname F_r_funct5) False;
                      f_fmt = Frag (Str m) fmt (fname F_r_fp_fmt) False;
                      f_rd = Frag (Str dest) rd (fname F_rd) False;
                      f_rs1 = Frag (Str src1) rs1 (fname F_rs1) False;
                      f_rs2 = Frag (Str src2) rs2 (fname F_rs2) False
                  in Inr \<lparr>h_mne = Some m, h_isa = None,
                          h_asmFrags = [f_opcode, f_rd, f_rs1] @ (if useRs2 then [f_rs2] else []),
                          h_binFrags = [f_funct5, f_fmt, f_rs2, f_rs1, f_funct3, f_rd, f_opcode]\<rparr>))"

definition decodeJALR :: "tables \<Rightarrow> string \<Rightarrow> string \<Rightarrow> error + handled" where
  "decodeJALR T opcode bin =
     bind_err (extractIFields bin) (\<lambda>fields.
       let imm = i_imm fields;
           rs1 = i_rs1 fields;
           funct3 = i_funct3 fields;
           rd = i_rd fields;
           m = ''jalr'';
           base = decReg rs1 False;
           dest = decReg rd False;
           offset = decImm imm True;
           f_opcode = Frag (Str m) opcode (fname F_opcode) False;
           f_funct3 = Frag (Str m) funct3 (fname F_funct3) False;
           f_rd = Frag (Str dest) rd (fname F_rd) False;
           f_rs1 = Frag (Str base) rs1 (fname F_rs1) False;
           f_imm = Frag (num_tok offset) imm (fname F_i_imm_11_0) False
       in Inr \<lparr>h_mne = Some m, h_isa = None,
               h_asmFrags = [f_opcode, f_rd, f_rs1, f_imm],
               h_binFrags = [f_imm, f_rs1, f_funct3, f_rd, f_opcode]\<rparr>)"

definition decodeLOAD :: "tables \<Rightarrow> string \<Rightarrow> string \<Rightarrow> error + handled" where
  "decodeLOAD T opcode bin =
     bind_err (extractIFields bin) (\<lambda>fields.
       let imm = i_imm fields;
           rs1 = i_rs1 fields;
           funct3 = i_funct3 fields;
           rd = i_rd fields;
           floatInst = (opcode = OPCODE_LOAD_FP);
           mne = (if floatInst then ISA_LOAD_FP T funct3 else ISA_LOAD T funct3)
       in case mne of
            None \<Rightarrow> Inl (InvalidFunct (if floatInst then ''LOAD-FP'' else ''LOAD'') ''funct3'')
          | Some m \<Rightarrow>
              let base = decReg rs1 False;
                  dest = decReg rd floatInst;
                  offset = decImm imm True;
                  f_opcode = Frag (Str m) opcode (fname F_opcode) False;
                  f_funct3 = Frag (Str m) funct3 (fname F_funct3) False;
                  f_rd = Frag (Str dest) rd (fname F_rd) False;
                  f_rs1 = Frag (Str base) rs1 (fname F_rs1) True;
                  f_imm = Frag (num_tok offset) imm (fname F_i_imm_11_0) False
              in Inr \<lparr>h_mne = Some m, h_isa = None,
                      h_asmFrags = [f_opcode, f_rd, f_imm, f_rs1],
                      h_binFrags = [f_imm, f_rs1, f_funct3, f_rd, f_opcode]\<rparr>)"

text \<open>The first part of \<open>decodeOP_IMM\<close>: the mnemonic, which stays \<open>undefined\<close> when
  the table of a right shift has no entry for \<open>shtyp\<close>, and whether the instruction is
  a shift.\<close>

definition lookupOP_IMM ::
  "tables \<Rightarrow> bool \<Rightarrow> string \<Rightarrow> string \<Rightarrow> error + (string option \<times> bool)" where
  "lookupOP_IMM T op_imm_32 funct3 shtyp =
     (case (if op_imm_32 then ISA_OP_IMM_32 T funct3 else ISA_OP_IMM T funct3) of
        None \<Rightarrow> Inl (InvalidFunct (if op_imm_32 then ''OP-IMM-32'' else ''OP-IMM'') ''funct3'')
      | Some (Sub t) \<Rightarrow> Inr (t shtyp, True)
      | Some (Mne m) \<Rightarrow>
          (case ISA T ''slli'' of
             None \<Rightarrow> Inl TypeError
           | Some slli \<Rightarrow> Inr (Some m, inst_funct3 slli = Some funct3)))"

definition decodeOP_IMM :: "tables \<Rightarrow> config \<Rightarrow> string \<Rightarrow> string \<Rightarrow> error + handled" where
  "decodeOP_IMM T config opcode bin =
     bind_err (extractIFields bin) (\<lambda>fields.
       let imm = i_imm fields;
           rs1 = i_rs1 fields;
           funct3 = i_funct3 fields;
           rd = i_rd fields;
           op_imm_32 = (opcode = OPCODE_OP_IMM_32);
           opcodeName = (if op_imm_32 then ''OP-IMM-32'' else ''OP-IMM'')
       in bind_err (lookupOP_IMM T op_imm_32 funct3 (i_shtyp fields)) (\<lambda>(mne, shift).
       let src = decReg rs1 False;
           dest = decReg rd False;
           f_opcode = Frag (mne_tok mne) opcode (fname F_opcode) False;
           f_funct3 = Frag (mne_tok mne) funct3 (fname F_funct3) False;
           f_rd = Frag (Str dest) rd (fname F_rd) False;
           f_rs1 = Frag (Str src) rs1 (fname F_rs1) False
       in if shift then
            let shtyp = i_shtyp fields;
                shamt_4_0 = i_shamt fields;
                shamt_5 = i_shamt_5 fields;
                imm_11_6 = ''0'' @ shtyp @ ''0000'';
                imm_11_5 = imm_11_6 @ ''0'';
                shamt_64 = (\<not> op_imm_32 \<and> (cfg_ISA config = RV64I \<or> shamt_5 = ''1''))
            in bind_err
                 (if shamt_64 then
                    let shamt_5_0 = shamt_5 @ shamt_4_0;
                        shamt = decImm shamt_5_0 False
                    in if cfg_ISA config = RV32I then Inl (ShiftOutOfRange opcodeName shamt)
                       else Inr (Frag (num_tok shamt) shamt_5_0 (fname F_i_shamt_5_0) False,
                                 Frag (mne_tok mne) imm_11_6 (fname F_i_shtyp_11_6) False,
                                 Some ''RV64I'')
                  else
                    let shamt = decImm shamt_4_0 False
                    in Inr (Frag (num_tok shamt) shamt_4_0 (fname F_i_shamt) False,
                            Frag (mne_tok mne) imm_11_5 (fname F_i_shtyp_11_5) False,
                            None))
                 (\<lambda>(f_imm, f_shift, isa).
                    if (\<not> shamt_64 \<and> imm_11_5 \<noteq> substring imm 0 7)
                       \<or> (shamt_64 \<and> imm_11_6 \<noteq> substring imm 0 6)
                    then Inl (BadShtyp opcodeName)
                    else Inr \<lparr>h_mne = mne, h_isa = isa,
                              h_asmFrags = [f_opcode, f_rd, f_rs1, f_imm],
                              h_binFrags = [f_shift, f_imm, f_rs1, f_funct3, f_rd, f_opcode]\<rparr>)
          else
            let immediate = decImm imm True;
                f_imm = Frag (num_tok immediate) imm (fname F_i_imm_11_0) False
            in Inr \<lparr>h_mne = mne, h_isa = None,
                    h_asmFrags = [f_opcode, f_rd, f_rs1, f_imm],
                    h_binFrags = [f_imm, f_rs1, f_funct3, f_rd, f_opcode]\<rparr>))"

definition decodeMISC_MEM :: "tables \<Rightarrow> string \<Rightarrow> string \<Rightarrow> error + handled" where
  "decodeMISC_MEM T opcode bin =
     bind_err (extractIFields bin) (\<lambda>fields.
       let imm = i_imm fields;
           fm = i_fm fields;
           pred = i_pred fields;
           succ = i_succ fields;
           rs1 = i_rs1 fields;
           funct3 = i_funct3 fields;
           rd = i_rd fields
       in case ISA_MISC_MEM T funct3 of
            None \<Rightarrow> Inl (InvalidFunct ''LOAD'' ''funct3'')
          | Some m \<Rightarrow>
              if rd \<noteq> ''00000'' \<or> rs1 \<noteq> ''00000'' then Inl NonZeroReserved
              else
                let f_opcode = Frag (Str m) opcode (fname F_opcode) False;
                    f_funct3 = Frag (Str m) funct3 (fname F_funct3) False;
                    f_rd = Frag (Str m) rd (fname F_rd) False;
                    f_rs1 = Frag (Str m) rs1 (fname F_rs1) False
                in if m = ''fence'' then
                     bind_err (decMem pred) (\<lambda>predecessor.
                     bind_err (decMem succ) (\<lambda>successor.
                       let f_fm = Frag (Str m) fm (fname F_i_fm) False;
                           f_pred = Frag (Str predecessor) pred (fname F_i_pred) False;
                           f_succ = Frag (Str successor) succ (fname F_i_succ) False
                       in Inr \<lparr>h_mne = Some m, h_isa = None,
                               h_asmFrags = [f_opcode, f_pred, f_succ],
                               h_binFrags = [f_fm, f_pred, f_succ, f_rs1, f_funct3, f_rd,
                                             f_opcode]\<rparr>))
                   else
                     let f_imm = Frag (Str m) imm (fname F_i_imm_11_0) False
                     in Inr \<lparr>h_mne = Some m, h_isa = None,
                             h_asmFrags = [f_opcode],
                             h_binFrags = [f_imm, f_rs1, f_funct3, f_rd, f_opcode]\<rparr>)"

definition decodeSYSTEM :: "tables \<Rightarrow> string \<Rightarrow> string \<Rightarrow> error + handled" where
  "decodeSYSTEM T opcode bin =
     bind_err (extractIFields bin) (\<lambda>fields.
       let funct12 = i_imm fields;
           rs1 = i_rs1 fields;
           funct3 = i_funct3 fields;
           rd = i_rd fields
       in case ISA_SYSTEM T funct3 of
            None \<Rightarrow> Inl (InvalidFunct ''SYSTEM'' ''funct3'')
          | Some e \<Rightarrow>
              let trap = (case e of Sub t \<Rightarrow> True | Mne s \<Rightarrow> False)
              in bind_err
                   (case e of
                      Mne s \<Rightarrow> Inr s
                    | Sub t \<Rightarrow>
                        (case t funct12 of
                           None \<Rightarrow> Inl (InvalidFunct ''SYSTEM'' ''funct12'')
                         | Some s \<Rightarrow>
                             if rd \<noteq> ''00000'' \<or> rs1 \<noteq> ''00000'' then Inl NonZeroReserved
                             else Inr s))
                   (\<lambda>m.
                      let f_opcode = Frag (Str m) opcode (fname F_opcode) False;
                          f_funct3 = Frag (Str m) funct3 (fname F_funct3) False
                      in if trap then
                           let f_rd = Frag (Str m) rd (fname F_rd) False;
                               f_rs1 = Frag (Str m) rs1 (fname F_rs1) False;
                               f_funct12 = Frag (Str m) funct12 (fname F_i_funct12) False
                           in Inr \<lparr>h_mne = Some m, h_isa = None,
                                   h_asmFrags = [f_opcode],
                                   h_binFrags = [f_funct12, f_rs1, f_funct3, f_rd, f_opcode]\<rparr>
                         else
                           let csrBin = funct12;
                               dest = decReg rd False;
                               csr = decCSR (CSR T) csrBin;
                               src = (if char_is funct3 0 CHR ''0'' then Str (decReg rs1 False)
                                      else num_tok (decImm rs1 False));
                               srcFieldName = (if char_is funct3 0 CHR ''0'' then fname F_rs1
                                               else fname F_i_imm_4_0);
                               f_rd = Frag (Str dest) rd (fname F_rd) False;
                               f_csr = Frag (Str csr) csrBin (fname F_i_csr) False;
                               f_rs1 = Frag src rs1 srcFieldName False
                           in Inr \<lparr>h_mne = Some m, h_isa = None,
                                   h_asmFrags = [f_opcode, f_rd, f_csr, f_rs1],
                                   h_binFrags = [f_csr, f_rs1, f_funct3, f_rd, f_opcode]\<rparr>))"

definition decodeSTORE :: "tables \<Rightarrow> string \<Rightarrow> string \<Rightarrow> error + handled" where
  "decodeSTORE T opcode bin =
     bind_err (extractSFields bin) (\<lambda>fields.
       let imm_11_5 = s_imm_11_5 fields;
           rs2 = s_rs2 fields;
           rs1 = s_rs1 fields;
           funct3 = s_funct3 fields;
           imm_4_0 = s_imm_4_0 fields;
           imm = imm_11_5 @ imm_4_0;
           floatInst = (opcode = OPCODE_STORE_FP);
           mne = (if floatInst then ISA_STORE_FP T funct3 else ISA_STORE T funct3)
       in case mne of
            None \<Rightarrow> Inl (InvalidFunct (if floatInst then ''STORE-FP'' else ''STORE'') ''funct3'')
          | Some m \<Rightarrow>
              let offset = decImm imm True;
                  base = decReg rs1 False;
                  src = decReg rs2 floatInst;
                  f_opcode = Frag (Str m) opcode (fname F_opcode) False;
                  f_funct3 = Frag (Str m) funct3 (fname F_funct3) False;
                  f_rs1 = Frag (Str base) rs1 (fname F_rs1) True;
                  f_rs2 = Frag (Str src) rs2 (fname F_rs2) False;
                  f_imm_4_0 = Frag (num_tok offset) imm_4_0 (fname F_s_imm_4_0) False;
                  f_imm_11_5 = Frag (num_tok offset) imm_11_5 (fname F_s_imm_11_5) False;
                  f_imm = Frag (num_tok offset) imm ''imm'' False
              in Inr \<lparr>h_mne = Some m, h_isa = None,
                      h_asmFrags = [f_opcode, f_rs2, f_imm, f_rs1],
                      h_binFrags = [f_imm_11_5, f_rs2, f_rs1, f_funct3, f_imm_4_0, f_opcode]\<rparr>)"

definition decodeBRANCH :: "tables \<Rightarrow> string \<Rightarrow> string \<Rightarrow> error + handled" where
  "decodeBRANCH T opcode bin =
     bind_err (extractBFields bin) (\<lambda>fields.
       let imm_12 = b_imm_12 fields;
           imm_10_5 = b_imm_10_5 fields;
           rs2 = b_rs2 fields;
           rs1 = b_rs1 fields;
           funct3 = b_funct3 fields;
           imm_4_1 = b_imm_4_1 fields;
           imm_11 = b_imm_11 fields;
           imm = imm_12 @ imm_11 @ imm_10_5 @ imm_4_1 @ ''0''
       in case ISA_BRANCH T funct3 of
            None \<Rightarrow> Inl (InvalidFunct ''BRANCH'' ''funct3'')
          | Some m \<Rightarrow>
              let offset = decImm imm True;
                  src2 = decReg rs2 False;
                  src1 = decReg rs1 False;
                  f_opcode = Frag (Str m) opcode (fname F_opcode) False;
                  f_funct3 = Frag (Str m) funct3 (fname F_funct3) False;
                  f_rs1 = Frag (Str src1) rs1 (fname F_rs1) False;
                  f_rs2 = Frag (Str src2) rs2 (fname F_rs2) False;
                  f_imm_12 = Frag (num_tok offset) imm_12 (fname F_b_imm_12) False;
                  f_imm_11 = Frag (num_tok offset) imm_11 (fname F_b_imm_11) False;
                  f_imm_10_5 = Frag (num_tok offset) imm_10_5 (fname F_b_imm_10_5) False;
                  f_imm_4_1 = Frag (num_tok offset) imm_4_1 (fname F_b_imm_4_1) False;
                  f_imm = Frag (num_tok offset) imm ''imm'' False
              in Inr \<lparr>h_mne = Some m, h_isa = None,
                      h_asmFrags = [f_opcode, f_rs1, f_rs2, f_imm],
                      h_binFrags = [f_imm_10_5, f_rs2, f_rs1, f_funct3, f_imm_4_1, f_opcode]\<rparr>)"

definition decodeUType :: "tables \<Rightarrow> string \<Rightarrow> string \<Rightarrow> error + handled" where
  "decodeUType T opcode bin =
     bind_err (getBits bin (pos F_u_imm_31_12)) (\<lambda>imm.
     bind_err (getBits bin (pos F_rd)) (\<lambda>rd.
       let immediate = decImm imm True;
           dest = decReg rd False;
           m = (if opcode = OPCODE_AUIPC then ''auipc'' else ''lui'');
           f_opcode = Frag (Str m) opcode (fname F_opcode) False;
           f_imm = Frag (num_tok immediate) imm (fname F_u_imm_31_12) False;
           f_rd = Frag (Str dest) rd (fname F_rd) False
       in Inr \<lparr>h_mne = Some m, h_isa = None,
               h_asmFrags = [f_opcode, f_rd, f_imm],
               h_binFrags = [f_imm, f_rd, f_opcode]\<rparr>))"

definition decodeJAL :: "tables \<Rightarrow> string \<Rightarrow> string \<Rightarrow> error + handled" where
  "decodeJAL T opcode bin =
     bind_err (getBits bin (pos F_j_imm_20)) (\<lambda>imm_20.
     bind_err (getBits bin (pos F_j_imm_10_1)) (\<lambda>imm_10_1.
     bind_err (getBits bin (pos F_j_imm_11)) (\<lambda>imm_11.
     bind_err (getBits bin (pos F_j_imm_19_12)) (\<lambda>imm_19_12.
     bind_err (getBits bin (pos F_rd)) (\<lambda>rd.
       let imm = imm_20 @ imm_19_12 @ imm_11 @ imm_10_1 @ ''0'';
           m = ''jal'';
           offset = decImm imm True;
           dest = decReg rd False;
           f_opcode = Frag (Str m) opcode (fname F_opcode) False;
           f_rd = Frag (Str dest) rd (fname F_rd) False;
           f_imm_20 = Frag (num_tok offset) imm_20 (fname F_j_imm_20) False;
           f_imm_10_1 = Frag (num_tok offset) imm_10_1 (fname F_j_imm_10_1) False;
           f_imm_11 = Frag (num_tok offset) imm_11 (fname F_j_imm_11) False;
           f_imm_19_12 = Frag (num_tok offset) imm_19_12 (fname F_j_imm_19_12) False;
           f_imm = Frag (num_tok offset) imm ''imm'' False
       in Inr \<lparr>h_mne = Some m, h_isa = None,
               h_asmFrags = [f_opcode, f_rd, f_imm],
               h_binFrags = [f_imm_20, f_imm_10_1, f_imm_11, f_imm_19_12, f_rd, f_opcode]\<rparr>)))))"

definition decodeAMO :: "tables \<Rightarrow> string \<Rightarrow> string \<Rightarrow> error + handled" where
  "decodeAMO T opcode bin =
     bind_err (extractRFields bin) (\<lambda>fields.
       let funct5 = r_funct5 fields;
           aq = r_aq fields;
           rl = r_rl fields;
           rs2 = r_rs2 fields;
           rs1 = r_rs1 fields;
           funct3 = r_funct3 fields;
           rd = r_rd fields
       in case ISA_AMO T (funct5 @ funct3) of
            None \<Rightarrow> Inl (InvalidFunct ''AMO'' ''funct5 and funct3'')
          | Some m \<Rightarrow>
              let lr = (m = ''lr.w'' \<or> m = ''lr.d'');
                  dest = decReg rd False;
                  addr = decReg rs1 False;
                  src = (if lr then ''n/a'' else decReg rs2 False);
                  f_opcode = Frag (Str m) opcode (fname F_opcode) False;
                  f_rd = Frag (Str dest) rd (fname F_rd) False;
                  f_funct3 = Frag (Str m) funct3 (fname F_funct3) False;
                  f_rs1 = Frag (Str addr) rs1 (fname F_rs1) True;
                  f_rs2 = Frag (Str src) rs2 (fname F_rs2) False;
                  f_rl = Frag (Str m) rl (fname F_r_rl) False;
                  f_aq = Frag (Str m) aq (fname F_r_aq) False;
                  f_funct5 = Frag (Str m) funct5 (fname F_r_funct5) False
              in Inr \<lparr>h_mne = Some m, h_isa = None,
                      h_asmFrags = [f_opcode, f_rd] @ (if \<not> lr then [f_rs2] else []) @ [f_rs1],
                      h_binFrags = [f_funct5, f_aq, f_rl, f_rs2, f_rs1, f_funct3, f_rd,
                                    f_opcode]\<rparr>)"

definition decodeR4 :: "tables \<Rightarrow> string \<Rightarrow> string \<Rightarrow> error + handled" where
  "decodeR4 T opcode bin =
     bind_err (extractRFields bin) (\<lambda>fields.
       let rs3 = r_funct5 fields;
           fmt = r_fmt fields;
           rs2 = r_rs2 fields;
           rs1 = r_rs1 fields;
           rm = r_funct3 fields;
           rd = r_rd fields;
           mne = (if opcode = OPCODE_MADD then ISA_MADD T fmt
                  else if opcode = OPCODE_MSUB then ISA_MSUB T fmt
                  else if opcode = OPCODE_NMADD then ISA_NMADD T fmt
                  else if opcode = OPCODE_NMSUB then ISA_NMSUB T fmt
                  else None)
       in case mne of
            None \<Rightarrow> Inl (InvalidFunct ''fused multiply-add'' ''fmt'')
          | Some m \<Rightarrow>
              let src1 = decReg rs1 True;
                  src2 = decReg rs2 True;
                  src3 = decReg rs3 True;
                  dest = decReg rd True;
                  f_opcode = Frag (Str m) opcode (fname F_opcode) False;
                  f_fmt = Frag (Str m) fmt (fname F_r_fp_fmt) False;
                  f_rm = Frag (Str m) rm ''rm'' False;
                  f_rd = Frag (Str dest) rd (fname F_rd) False;
                  f_rs1 = Frag (Str src1) rs1 (fname F_rs1) False;
                  f_rs2 = Frag (Str src2) rs2 (fname F_rs2) False;
                  f_rs3 = Frag (Str src3) rs3 ''rs3'' False
              in Inr \<lparr>h_mne = Some m, h_isa = None,
                      h_asmFrags = [f_opcode, f_rd, f_rs1, f_rs2, f_rs3],
                      h_binFrags = [f_rs3, f_fmt, f_rs2, f_rs1, f_rm, f_rd, f_opcode]\<rparr>)"

subsection \<open>Rendering and the decoder\<close>

text \<open>The loop of \<open>renderAsm\<close> from index \<open>i\<close> on; \<open>prev\<close> is the fragment at
  \<open>i - 1\<close>. The test \<open>/^imm/\<close> on the name of its field is \<open>prefix ''imm''\<close>.\<close>

fun renderAsm_loop :: "(tok \<Rightarrow> tok) \<Rightarrow> bool \<Rightarrow> nat \<Rightarrow> frag \<Rightarrow> frag list \<Rightarrow> string" where
  "renderAsm_loop conv abi i prev [] = []"
| "renderAsm_loop conv abi i prev (f # fs) =
     (let a = tok_str (if abi then conv (asm f) else asm f);
          delim = (if i = 1 then '' ''
                   else if \<not> mem f \<or> \<not> prefix ''imm'' (field prev) then '', ''
                   else []);
          body = (if mem f then ''('' @ a @ '')'' else a)
      in delim @ body @ renderAsm_loop conv abi (i + 1) f fs)"

text \<open>\<open>renderAsm(asmFrags, abi)\<close>. Reading the token of a first fragment that does not
  exist, or trimming a result that is not a string, is a \<open>TypeError\<close>.\<close>

definition renderAsm :: "(tok \<Rightarrow> tok) \<Rightarrow> frag list \<Rightarrow> bool \<Rightarrow> error + string" where
  "renderAsm conv asmFrags abi =
     (case asmFrags of
        [] \<Rightarrow> Inl TypeError
      | f0 # fs \<Rightarrow>
          (case (asm f0, fs) of
             (Str s, _) \<Rightarrow> Inr (trim (s @ renderAsm_loop conv abi 1 f0 fs))
           | (t, []) \<Rightarrow> Inl TypeError
           | (t, _) \<Rightarrow> Inr (trim (tok_str t @ renderAsm_loop conv abi 1 f0 fs))))"

text \<open>The public fields of a \<open>Decoder\<close> after its constructor has returned.\<close>

record decoder =
  d_asm :: string
  d_isa :: string
  d_fmt :: string
  binFrags :: "frag list"
  asmFrags :: "frag list"

text \<open>The test \<open>/^RV64.$/\<close>: the four characters, then one that does not end a line.\<close>

definition is_RV64 :: "string \<Rightarrow> bool" where
  "is_RV64 isa =
     (length isa = 5 \<and> take 4 isa = ''RV64'' \<and> isa ! 4 \<noteq> CHR 0x0A \<and> isa ! 4 \<noteq> CHR 0x0D)"

text \<open>The \<open>switch\<close> of \<open>convertBinToAsm\<close> on the opcode.\<close>

definition dispatch :: "tables \<Rightarrow> config \<Rightarrow> string \<Rightarrow> string \<Rightarrow> error + handled" where
  "dispatch T config opcode bin =
     (if opcode = OPCODE_OP \<or> opcode = OPCODE_OP_32 then decodeOP T opcode bin
      else if opcode = OPCODE_OP_FP then decodeOP_FP T opcode bin
      else if opcode = OPCODE_AMO then decodeAMO T opcode bin
      else if opcode = OPCODE_JALR then decodeJALR T opcode bin
      else if opcode = OPCODE_LOAD \<or> opcode = OPCODE_LOAD_FP then decodeLOAD T opcode bin
      else if opcode = OPCODE_OP_IMM \<or> opcode = OPCODE_OP_IMM_32
        then decodeOP_IMM T config opcode bin
      else if opcode = OPCODE_MISC_MEM then decodeMISC_MEM T opcode bin
      else if opcode = OPCODE_SYSTEM then decodeSYSTEM T opcode bin
      else if opcode = OPCODE_STORE \<or> opcode = OPCODE_STORE_FP then decodeSTORE T opcode bin
      else if opcode = OPCODE_BRANCH then decodeBRANCH T opcode bin
      else if opcode = OPCODE_LUI \<or> opcode = OPCODE_AUIPC then decodeUType T opcode bin
      else if opcode = OPCODE_JAL then decodeJAL T opcode bin
      else if opcode = OPCODE_MADD \<or> opcode = OPCODE_MSUB \<or> opcode = OPCODE_NMADD
              \<or> opcode = OPCODE_NMSUB then decodeR4 T opcode bin
      else Inl (InvalidOpcode opcode))"

text \<open>\<open>convertBinToAsm\<close>. The test \<open>typeof this.#mne === undefined\<close> compares a string
  with \<open>undefined\<close> and never holds, so it has no branch here; an \<open>undefined\<close>
  mnemonic is looked up in \<open>ISA\<close> under the key \<open>undefined\<close>.\<close>

definition convertBinToAsm :: "tables \<Rightarrow> config \<Rightarrow> string \<Rightarrow> error + decoder" where
  "convertBinToAsm T config bin =
     bind_err (getBits bin (pos F_opcode)) (\<lambda>opcode.
     bind_err (dispatch T config opcode bin) (\<lambda>h.
       case ISA T (case h_mne h of None \<Rightarrow> ''undefined'' | Some m \<Rightarrow> m) of
         None \<Rightarrow> Inl TypeError
       | Some inst \<Rightarrow>
           let fmt = inst_fmt inst;
               isa = (case h_isa h of Some i \<Rightarrow> i | None \<Rightarrow> inst_isa inst)
           in if cfg_ISA config = RV32I \<and> is_RV64 isa then Inl (IsaMismatch isa)
              else bind_err (renderAsm (convertRegToAbi T) (h_asmFrags h) (cfg_ABI config))
                     (\<lambda>a. Inr \<lparr>d_asm = a, d_isa = isa, d_fmt = fmt,
                               binFrags = h_binFrags h, asmFrags = h_asmFrags h\<rparr>)))"

text \<open>The constructor \<open>new Decoder(bin, config)\<close>.\<close>

definition Decoder :: "tables \<Rightarrow> string \<Rightarrow> config \<Rightarrow> error + decoder" where
  "Decoder T bin config = convertBinToAsm T config bin"

subsection \<open>An instance of the tables\<close>

text \<open>
  Modelled from the spec: the tables of Constants.js and \<open>convertRegToAbi\<close> of
  Instruction.js are not among the sources. This instance holds the base instructions
  (RV32I and RV64I), Zifencei, Zicsr and the instructions of the extensions M, A, F and D
  that the spec's scenarios name, keyed as the spec's section 4.2 says and with the
  encodings of the RISC-V manual; the names of the registers and of the control and status
  registers are those of the spec's section 6. The theorems below hold for every table;
  the instance serves to run the decoder on concrete words.
\<close>

definition mk_inst :: "string \<Rightarrow> string \<Rightarrow> string option \<Rightarrow> string option \<Rightarrow> inst" where
  "mk_inst f i f3 r2 = \<lparr>inst_fmt = f, inst_isa = i, inst_funct3 = f3, inst_rs2 = r2\<rparr>"

definition rv_ISA :: "(string \<times> inst) list" where
  "rv_ISA =
    [(''lui'', mk_inst ''U-type'' ''RV32I'' None None),
     (''auipc'', mk_inst ''U-type'' ''RV32I'' None None),
     (''jal'', mk_inst ''J-type'' ''RV32I'' None None),
     (''jalr'', mk_inst ''I-type'' ''RV32I'' (Some ''000'') None),
     (''beq'', mk_inst ''B-type'' ''RV32I'' (Some ''000'') None),
     (''bne'', mk_inst ''B-type'' ''RV32I'' (Some ''001'') None),
     (''blt'', mk_inst ''B-type'' ''RV32I'' (Some ''100'') None),
     (''bge'', mk_inst ''B-type'' ''RV32I'' (Some ''101'') None),
     (''bltu'', mk_inst ''B-type'' ''RV32I'' (Some ''110'') None),
     (''bgeu'', mk_inst ''B-type'' ''RV32I'' (Some ''111'') None),
     (''lb'', mk_inst ''I-type'' ''RV32I'' (Some ''000'') None),
     (''lh'', mk_inst ''I-type'' ''RV32I'' (Some ''001'') None),
     (''lw'', mk_inst ''I-type'' ''RV32I'' (Some ''010'') None),
     (''ld'', mk_inst ''I-type'' ''RV64I'' (Some ''011'') None),
     (''lbu'', mk_inst ''I-type'' ''RV32I'' (Some ''100'') None),
     (''lhu'', mk_inst ''I-type'' ''RV32I'' (Some ''101'') None),
     (''lwu'', mk_inst ''I-type'' ''RV64I'' (Some ''110'') None),
     (''sb'', mk_inst ''S-type'' ''RV32I'' (Some ''000'') None),
     (''sh'', mk_inst ''S-type'' ''RV32I'' (Some ''001'') None),
     (''sw'', mk_inst ''S-type'' ''RV32I'' (Some ''010'') None),
     (''sd'', mk_inst ''S-type'' ''RV64I'' (Some ''011'') None),
     (''addi'', mk_inst ''I-type'' ''RV32I'' (Some ''000'') None),
     (''slti'', mk_inst ''I-type'' ''RV32I'' (Some ''010'') None),
     (''sltiu'', mk_inst ''I-type'' ''RV32I'' (Some ''011'') None),
     (''xori'', mk_inst ''I-type'' ''RV32I'' (Some ''100'') None),
     (''ori'', mk_inst ''I-type'' ''RV32I'' (Some ''110'') None),
     (''andi'', mk_inst ''I-type'' ''RV32I'' (Some ''111'') None),
     (''slli'', mk_inst ''I-type'' ''RV32I'' (Some ''001'') None),
     (''srli'', mk_inst ''I-type'' ''RV32I'' (Some ''101'') None),
     (''srai'', mk_inst ''I-type'' ''RV32I'' (Some ''101'') None),
     (''addiw'', mk_inst ''I-type'' ''RV64I'' (Some ''000'') None),
     (''slliw'', mk_inst ''I-type'' ''RV64I'' (Some ''001'') None),
     (''srliw'', mk_inst ''I-type'' ''RV64I'' (Some ''101'') None),
     (''sraiw'', mk_inst ''I-type'' ''RV64I'' (Some ''101'') None),
     (''add'', mk_inst ''R-type'' ''RV32I'' (Some ''000'') None),
     (''sub'', mk_inst ''R-type'' ''RV32I'' (Some ''000'') None),
     (''sll'', mk_inst ''R-type'' ''RV32I'' (Some ''001'') None),
     (''slt'', mk_inst ''R-type'' ''RV32I'' (Some ''010'') None),
     (''sltu'', mk_inst ''R-type'' ''RV32I'' (Some ''011'') None),
     (''xor'', mk_inst ''R-type'' ''RV32I'' (Some ''100'') None),
     (''srl'', mk_inst ''R-type'' ''RV32I'' (Some ''101'') None),
     (''sra'', mk_inst ''R-type'' ''RV32I'' (Some ''101'') None),
     (''or'', mk_inst ''R-type'' ''RV32I'' (Some ''110'') None),
     (''and'', mk_inst ''R-type'' ''RV32I'' (Some ''111'') None),
     (''addw'', mk_inst ''R-type'' ''RV64I'' (Some ''000'') None),
     (''subw'', mk_inst ''R-type'' ''RV64I'' (Some ''000'') None),
     (''sllw'', mk_inst ''R-type'' ''RV64I'' (Some ''001'') None),
     (''srlw'', mk_inst ''R-type'' ''RV64I'' (Some ''101'') None),
     (''sraw'', mk_inst ''R-type'' ''RV64I'' (Some ''101'') None),
     (''mul'', mk_inst ''R-type'' ''EXT_M'' (Some ''000'') None),
     (''fence'', mk_inst ''I-type'' ''RV32I'' (Some ''000'') None),
     (''fence.i'', mk_inst ''I-type'' ''EXT_Zifencei'' (Some ''001'') None),
     (''ecall'', mk_inst ''I-type'' ''RV32I'' (Some ''000'') None),
     (''ebreak'', mk_inst ''I-type'' ''RV32I'' (Some ''000'') None),
     (''csrrw'', mk_inst ''I-type'' ''EXT_Zicsr'' (Some ''001'') None),
     (''csrrs'', mk_inst ''I-type'' ''EXT_Zicsr'' (Some ''010'') None),
     (''csrrc'', mk_inst ''I-type'' ''EXT_Zicsr'' (Some ''011'') None),
     (''csrrwi'', mk_inst ''I-type'' ''EXT_Zicsr'' (Some ''101'') None),
     (''csrrsi'', mk_inst ''I-type'' ''EXT_Zicsr'' (Some ''110'') None),
     (''csrrci'', mk_inst ''I-type'' ''EXT_Zicsr'' (Some ''111'') None),
     (''lr.w'', mk_inst ''R-type'' ''EXT_A'' (Some ''010'') (Some ''00000'')),
     (''sc.w'', mk_inst ''R-type'' ''EXT_A'' (Some ''010'') None),
     (''amoswap.w'', mk_inst ''R-type'' ''EXT_A'' (Some ''010'') None),
     (''amoadd.w'', mk_inst ''R-type'' ''EXT_A'' (Some ''010'') None),
     (''flw'', mk_inst ''I-type'' ''EXT_F'' (Some ''010'') None),
     (''fsw'', mk_inst ''S-type'' ''EXT_F'' (Some ''010'') None),
     (''fld'', mk_inst ''I-type'' ''EXT_D'' (Some ''011'') None),
     (''fsd'', mk_inst ''S-type'' ''EXT_D'' (Some ''011'') None),
     (''fadd.s'', mk_inst ''R-type'' ''EXT_F'' None None),
     (''fsgnj.s'', mk_inst ''R-type'' ''EXT_F'' (Some ''000'') None),
     (''fsgnjn.s'', mk_inst ''R-type'' ''EXT_F'' (Some ''001'') None),
     (''fcvt.w.s'', mk_inst ''R-type'' ''EXT_F'' None (Some ''00000'')),
     (''fcvt.s.w'', mk_inst ''R-type'' ''EXT_F'' None (Some ''00000'')),
     (''fmadd.s'', mk_inst ''R4-type'' ''EXT_F'' None None),
     (''fmsub.s'', mk_inst ''R4-type'' ''EXT_F'' None None),
     (''fnmadd.s'', mk_inst ''R4-type'' ''EXT_F'' None None),
     (''fnmsub.s'', mk_inst ''R4-type'' ''EXT_F'' None None)]"

definition rv_CSR :: "(string \<times> int) list" where
  "rv_CSR =
    [(''cycle'', 0xC00), (''time'', 0xC01), (''instret'', 0xC02), (''mstatus'', 0x300),
     (''misa'', 0x301), (''mtvec'', 0x305), (''mepc'', 0x341), (''mcause'', 0x342)]"

definition rv_abi_x :: "string list" where
  "rv_abi_x =
    [''zero'', ''ra'', ''sp'', ''gp'', ''tp'', ''t0'', ''t1'', ''t2'', ''s0'', ''s1'',
     ''a0'', ''a1'', ''a2'', ''a3'', ''a4'', ''a5'', ''a6'', ''a7'',
     ''s2'', ''s3'', ''s4'', ''s5'', ''s6'', ''s7'', ''s8'', ''s9'', ''s10'', ''s11'',
     ''t3'', ''t4'', ''t5'', ''t6'']"

definition rv_abi_f :: "string list" where
  "rv_abi_f =
    [''ft0'', ''ft1'', ''ft2'', ''ft3'', ''ft4'', ''ft5'', ''ft6'', ''ft7'', ''fs0'', ''fs1'',
     ''fa0'', ''fa1'', ''fa2'', ''fa3'', ''fa4'', ''fa5'', ''fa6'', ''fa7'',
     ''fs2'', ''fs3'', ''fs4'', ''fs5'', ''fs6'', ''fs7'', ''fs8'', ''fs9'', ''fs10'', ''fs11'',
     ''ft8'', ''ft9'', ''ft10'', ''ft11'']"

definition rv_convertRegToAbi :: "tok \<Rightarrow> tok" where
  "rv_convertRegToAbi t =
     (case t of
        Str s \<Rightarrow>
          (case map_of (zip (map (\<lambda>n. CHR ''x'' # digits 10 (int n)) [0 ..< 32]) rv_abi_x
                        @ zip (map (\<lambda>n. CHR ''f'' # digits 10 (int n)) [0 ..< 32]) rv_abi_f) s of
             Some a \<Rightarrow> Str a
           | None \<Rightarrow> t)
      | _ \<Rightarrow> t)"

definition rv_ISA_OP :: "string \<Rightarrow> string option" where
  "rv_ISA_OP =
     map_of
       [(''0000000000'', ''add''), (''0100000000'', ''sub''), (''0000000001'', ''sll''),
       (''0000000010'', ''slt''), (''0000000011'', ''sltu''), (''0000000100'', ''xor''),
       (''0000000101'', ''srl''), (''0100000101'', ''sra''), (''0000000110'', ''or''),
       (''0000000111'', ''and''), (''0000001000'', ''mul'')]"

definition rv_ISA_OP_32 :: "string \<Rightarrow> string option" where
  "rv_ISA_OP_32 =
     map_of
       [(''0000000000'', ''addw''), (''0100000000'', ''subw''), (''0000000001'', ''sllw''),
       (''0000000101'', ''srlw''), (''0100000101'', ''sraw'')]"

definition rv_ISA_LOAD :: "string \<Rightarrow> string option" where
  "rv_ISA_LOAD =
     map_of
       [(''000'', ''lb''), (''001'', ''lh''), (''010'', ''lw''), (''011'', ''ld''),
       (''100'', ''lbu''), (''101'', ''lhu''), (''110'', ''lwu'')]"

definition rv_ISA_STORE :: "string \<Rightarrow> string option" where
  "rv_ISA_STORE =
     map_of
       [(''000'', ''sb''), (''001'', ''sh''), (''010'', ''sw''), (''011'', ''sd'')]"

definition rv_ISA_OP_IMM :: "string \<Rightarrow> entry option" where
  "rv_ISA_OP_IMM =
     map_of
       [(''000'', Mne ''addi''), (''001'', Mne ''slli''), (''010'', Mne ''slti''),
       (''011'', Mne ''sltiu''), (''100'', Mne ''xori''),
       (''101'', Sub (map_of [(''0'', ''srli''), (''1'', ''srai'')])),
       (''110'', Mne ''ori''), (''111'', Mne ''andi'')]"

definition rv_ISA_OP_IMM_32 :: "string \<Rightarrow> entry option" where
  "rv_ISA_OP_IMM_32 =
     map_of
       [(''000'', Mne ''addiw''), (''001'', Mne ''slliw''),
       (''101'', Sub (map_of [(''0'', ''srliw''), (''1'', ''sraiw'')]))]"

definition rv_ISA_BRANCH :: "string \<Rightarrow> string option" where
  "rv_ISA_BRANCH =
     map_of
       [(''000'', ''beq''), (''001'', ''bne''), (''100'', ''blt''), (''101'', ''bge''),
       (''110'', ''bltu''), (''111'', ''bgeu'')]"

definition rv_ISA_MISC_MEM :: "string \<Rightarrow> string option" where
  "rv_ISA_MISC_MEM =
     map_of [(''000'', ''fence''), (''001'', ''fence.i'')]"

definition rv_ISA_SYSTEM :: "string \<Rightarrow> entry option" where
  "rv_ISA_SYSTEM =
     map_of
       [(''000'', Sub (map_of [(''000000000000'', ''ecall''), (''000000000001'', ''ebreak'')])),
       (''001'', Mne ''csrrw''), (''010'', Mne ''csrrs''), (''011'', Mne ''csrrc''),
       (''101'', Mne ''csrrwi''), (''110'', Mne ''csrrsi''), (''111'', Mne ''csrrci'')]"

definition rv_ISA_AMO :: "string \<Rightarrow> string option" where
  "rv_ISA_AMO =
     map_of
       [(''00010010'', ''lr.w''), (''00011010'', ''sc.w''), (''00001010'', ''amoswap.w''),
       (''00000010'', ''amoadd.w'')]"

definition rv_ISA_LOAD_FP :: "string \<Rightarrow> string option" where
  "rv_ISA_LOAD_FP =
     map_of [(''010'', ''flw''), (''011'', ''fld'')]"

definition rv_ISA_STORE_FP :: "string \<Rightarrow> string option" where
  "rv_ISA_STORE_FP =
     map_of [(''010'', ''fsw''), (''011'', ''fsd'')]"

definition rv_ISA_OP_FP :: "string \<Rightarrow> (string \<Rightarrow> entry option) option" where
  "rv_ISA_OP_FP =
     map_of
       [(''00000'', map_of [(''00'', Mne ''fadd.s'')]),
       (''00100'', map_of [(''00'', Sub (map_of [(''000'', ''fsgnj.s''), (''001'', ''fsgnjn.s'')]))]),
       (''11000'', map_of [(''00'', Sub (map_of [(''00000'', ''fcvt.w.s'')]))]),
       (''11010'', map_of [(''00'', Sub (map_of [(''00000'', ''fcvt.s.w'')]))])]"

definition rv_ISA_MADD :: "string \<Rightarrow> string option" where
  "rv_ISA_MADD =
     map_of [(''00'', ''fmadd.s'')]"

definition rv_ISA_MSUB :: "string \<Rightarrow> string option" where
  "rv_ISA_MSUB =
     map_of [(''00'', ''fmsub.s'')]"

definition rv_ISA_NMADD :: "string \<Rightarrow> string option" where
  "rv_ISA_NMADD =
     map_of [(''00'', ''fnmadd.s'')]"

definition rv_ISA_NMSUB :: "string \<Rightarrow> string option" where
  "rv_ISA_NMSUB =
     map_of [(''00'', ''fnmsub.s'')]"

definition rv_tables :: tables where
  "rv_tables =
    \<lparr>ISA_OP = rv_ISA_OP,
     ISA_OP_32 = rv_ISA_OP_32,
     ISA_LOAD = rv_ISA_LOAD,
     ISA_STORE = rv_ISA_STORE,
     ISA_OP_IMM = rv_ISA_OP_IMM,
     ISA_OP_IMM_32 = rv_ISA_OP_IMM_32,
     ISA_BRANCH = rv_ISA_BRANCH,
     ISA_MISC_MEM = rv_ISA_MISC_MEM,
     ISA_SYSTEM = rv_ISA_SYSTEM,
     ISA_AMO = rv_ISA_AMO,
     ISA_LOAD_FP = rv_ISA_LOAD_FP,
     ISA_STORE_FP = rv_ISA_STORE_FP,
     ISA_OP_FP = rv_ISA_OP_FP,
     ISA_MADD = rv_ISA_MADD,
     ISA_MSUB = rv_ISA_MSUB,
     ISA_NMADD = rv_ISA_NMADD,
     ISA_NMSUB = rv_ISA_NMSUB,
     ISA = map_of rv_ISA,
     CSR = rv_CSR,
     convertRegToAbi = rv_convertRegToAbi\<rparr>"

text \<open>The default configuration: RV32I, numeric register names.\<close>

definition config_default :: config where
  "config_default = \<lparr>cfg_ISA = RV32I, cfg_ABI = False\<rparr>"

definition config_rv64 :: config where
  "config_rv64 = \<lparr>cfg_ISA = RV64I, cfg_ABI = False\<rparr>"

section \<open>Notions of the specification\<close>

text \<open>An encoded word: 32 binary digits, bit 31 first.\<close>

definition is_word :: "string \<Rightarrow> bool" where
  "is_word bin = (length bin = 32 \<and> list_all is_bit bin)"

text \<open>The bits \<open>hi\<close> down to \<open>lo\<close> of a word, bit 0 being the last character.\<close>

definition bits_of :: "string \<Rightarrow> nat \<Rightarrow> nat \<Rightarrow> string" where
  "bits_of bin hi lo = take (hi + 1 - lo) (drop (31 - hi) bin)"

text \<open>A binary text read as an unsigned number, and read in two's complement of the
  width of the text.\<close>

definition unsigned_value :: "string \<Rightarrow> int" where
  "unsigned_value s = bin_value s 0"

definition signed_value :: "string \<Rightarrow> int" where
  "signed_value s =
     (if unsigned_value s < 2 ^ (length s - 1) then unsigned_value s
      else unsigned_value s - 2 ^ length s)"

text \<open>The immediate of a branch: \<open>imm_12\<close>, \<open>imm_11\<close>, \<open>imm_10_5\<close>, \<open>imm_4_1\<close> and a
  closing zero.\<close>

definition branch_imm :: "string \<Rightarrow> string" where
  "branch_imm bin =
     bits_of bin 31 31 @ bits_of bin 7 7 @ bits_of bin 30 25 @ bits_of bin 11 8 @ ''0''"

text \<open>The letters of a fence mask: \<open>i\<close>, \<open>o\<close>, \<open>r\<close>, \<open>w\<close> for the bits that are set,
  from the most significant bit down.\<close>

definition fence_letters :: "string \<Rightarrow> string" where
  "fence_letters m =
     concat (map (\<lambda>(b, l). if b = CHR ''1'' then [l] else []) (zip m ''iorw''))"

text \<open>Three lowercase hexadecimal digits of an address below 4096.\<close>

definition hex3 :: "int \<Rightarrow> string" where
  "hex3 a =
     [digit_char (a div 256 mod 16), digit_char (a div 16 mod 16), digit_char (a mod 16)]"

text \<open>A fragment of a register operand: its field is one of the register fields, and
  its token is \<open>x\<close> or \<open>f\<close> followed by the decimal value of its five bits.\<close>

definition reg_field :: "string \<Rightarrow> bool" where
  "reg_field n = (n \<in> set [''rd'', ''rs1'', ''rs2'', ''rs3''])"

definition reg_frag_ok :: "frag \<Rightarrow> bool" where
  "reg_frag_ok f =
     (length (bits f) = 5 \<and> unsigned_value (bits f) \<le> 31
      \<and> (asm f = Str (CHR ''x'' # toString 10 (unsigned_value (bits f)))
         \<or> asm f = Str (CHR ''f'' # toString 10 (unsigned_value (bits f)))))"

text \<open>What every handler leaves behind: the opcode fragment with the mnemonic comes first
  in the assembly fragments, and the register operands after it are well formed.\<close>

definition handled_ok :: "handled \<Rightarrow> bool" where
  "handled_ok h =
     (case h_asmFrags h of
        [] \<Rightarrow> False
      | f # fs \<Rightarrow>
          asm f = mne_tok (h_mne h) \<and> field f = ''opcode''
          \<and> (h_mne h = None \<longrightarrow> fs \<noteq> [])
          \<and> list_all (\<lambda>g. reg_field (field g) \<longrightarrow> reg_frag_ok g) fs)"

text \<open>The assembly line in the words of the specification: an operand is its token, in
  parentheses when it is the base register of a memory operand; the first operand
  follows the mnemonic after a blank, a later one after a comma and a blank, except that
  a base register follows an immediate directly.\<close>

definition operand_text :: "(tok \<Rightarrow> tok) \<Rightarrow> bool \<Rightarrow> frag \<Rightarrow> string" where
  "operand_text conv abi f =
     (let a = tok_str (if abi then conv (asm f) else asm f)
      in if mem f then ''('' @ a @ '')'' else a)"

fun join_operands :: "(tok \<Rightarrow> tok) \<Rightarrow> bool \<Rightarrow> frag \<Rightarrow> frag list \<Rightarrow> string" where
  "join_operands conv abi prev [] = []"
| "join_operands conv abi prev (f # fs) =
     (if mem f \<and> prefix ''imm'' (field prev) then [] else '', '')
     @ operand_text conv abi f @ join_operands conv abi f fs"

definition asm_line :: "(tok \<Rightarrow> tok) \<Rightarrow> bool \<Rightarrow> string \<Rightarrow> frag list \<Rightarrow> string" where
  "asm_line conv abi m operands =
     trim (m @ (case operands of
                  [] \<Rightarrow> []
                | f # fs \<Rightarrow> '' '' @ operand_text conv abi f @ join_operands conv abi f fs))"

section \<open>Properties of the decoder\<close>

subsection \<open>Auxiliary facts\<close>

lemma bind_err_Inr [simp]: "bind_err (Inr x) f = f x"
  by (simp add: bind_err_def)

lemma bind_err_Inl [simp]: "bind_err (Inl e) f = Inl e"
  by (simp add: bind_err_def)

lemma getBits_32:
  assumes "length bin = 32" "0 \<le> w" "w \<le> h + 1" "h < 32"
  shows "getBits bin (h, w) = Inr (take (nat w) (drop (nat (31 - h)) bin))"
  using assms by (auto simp: getBits_def substring_def Let_def min_def max_def)

lemma bin_value_acc: "bin_value s acc = acc * 2 ^ length s + bin_value s 0"
proof (induction s arbitrary: acc)
  case Nil
  show ?case by simp
next
  case (Cons c cs)
  have "bin_value (c # cs) acc = bin_value cs (2 * acc + (if c = CHR ''1'' then 1 else 0))"
    by simp
  also have "\<dots> = (2 * acc + (if c = CHR ''1'' then 1 else 0)) * 2 ^ length cs + bin_value cs 0"
    by (rule Cons.IH)
  also have "\<dots> = acc * 2 ^ length (c # cs) + bin_value (c # cs) 0"
    using Cons.IH [of "if c = CHR ''1'' then 1 else 0"] by (simp add: algebra_simps)
  finally show ?case .
qed

lemma bin_value_less: "0 \<le> bin_value s 0 \<and> bin_value s 0 < 2 ^ length s"
proof (induction s)
  case Nil
  show ?case by simp
next
  case (Cons c cs)
  have "bin_value (c # cs) 0 = (if c = CHR ''1'' then 1 else 0) * 2 ^ length cs + bin_value cs 0"
    using bin_value_acc [of cs "if c = CHR ''1'' then 1 else 0"] by simp
  with Cons show ?case by (simp split: if_splits)
qed

lemma bin_value_Cons:
  "bin_value (c # cs) 0 = (if c = CHR ''1'' then 2 ^ length cs else 0) + bin_value cs 0"
  using bin_value_acc [of cs "if c = CHR ''1'' then 1 else 0"] by simp

lemma parseInt2_bits:
  assumes "list_all is_bit s" "s \<noteq> []"
  shows "parseInt2 s = Some (unsigned_value s)"
proof -
  obtain c cs where s: "s = c # cs" using assms(2) by (cases s) auto
  have c: "is_bit c" using assms(1) s by simp
  then have ns: "\<not> is_space c" "c \<noteq> CHR ''-''" "c \<noteq> CHR ''+''"
    by (auto simp: is_bit_def is_space_def)
  have tw: "takeWhile is_bit s = s"
    using assms(1) by (simp add: list_all_iff)
  show ?thesis
    using ns tw s by (simp add: parseInt2_def unsigned_value_def Let_def)
qed

lemma shl1_small: 
  assumes n: "n < 31"
  shows "shl1 n = 2 ^ n"
proof -
  have "(2::int) ^ n < 2 ^ 31" using n by (intro power_strict_increasing) auto
  moreover have "- ((2::int) ^ 31) \<le> 2 ^ n"
    by (rule order_trans [of _ 0]) simp_all
  ultimately have "signed_take_bit 31 ((2::int) ^ n) = 2 ^ n"
    by (intro signed_take_bit_int_eq_self)
  moreover have "sint ((2 :: 32 word) ^ n) = signed_take_bit 31 ((2::int) ^ n)"
    using sint_sbintrunc' [where 'a = 32, of "2 ^ n"] by simp
  ultimately show ?thesis using n by (simp add: shl1_def push_bit_of_1)
qed

lemma hd_bit_iff:
  assumes "s \<noteq> []"
  shows "hd s = CHR ''1'' \<longleftrightarrow> \<not> unsigned_value s < 2 ^ (length s - 1)"
proof -
  obtain c cs where s: "s = c # cs" using assms by (cases s) auto
  have "0 \<le> bin_value cs 0 \<and> bin_value cs 0 < 2 ^ length cs" by (rule bin_value_less)
  then show ?thesis
    by (simp add: s unsigned_value_def bin_value_Cons del: bin_value.simps)
qed

lemma decImm_unsigned:
  assumes "list_all is_bit s" "s \<noteq> []"
  shows "decImm s False = Some (unsigned_value s)"
  using assms by (simp add: decImm_def parseInt2_bits)

lemma decImm_signed:
  assumes "list_all is_bit s" "s \<noteq> []" "length s < 31"
  shows "decImm s True = Some (signed_value s)"
  using assms hd_bit_iff [of s]
  by (simp add: decImm_def parseInt2_bits signed_value_def shl1_small)

lemma is_word_take_drop: "is_word bin \<Longrightarrow> list_all is_bit (take n (drop k bin))"
  by (auto simp: is_word_def list_all_iff dest: in_set_takeD in_set_dropD)

lemmas OPCODE_defs =
  OPCODE_LOAD_def OPCODE_LOAD_FP_def OPCODE_MISC_MEM_def OPCODE_OP_IMM_def OPCODE_AUIPC_def
  OPCODE_OP_IMM_32_def OPCODE_STORE_def OPCODE_STORE_FP_def OPCODE_AMO_def OPCODE_OP_def
  OPCODE_LUI_def OPCODE_OP_32_def OPCODE_MADD_def OPCODE_MSUB_def OPCODE_NMSUB_def
  OPCODE_NMADD_def OPCODE_OP_FP_def OPCODE_BRANCH_def OPCODE_JALR_def OPCODE_JAL_def
  OPCODE_SYSTEM_def

lemma extractBFields_32:
  assumes "length bin = 32"
  shows "extractBFields bin =
     Inr \<lparr>b_imm_12 = take 1 bin, b_imm_10_5 = take 6 (drop 1 bin), b_rs2 = take 5 (drop 7 bin),
          b_rs1 = take 5 (drop 12 bin), b_funct3 = take 3 (drop 17 bin),
          b_imm_4_1 = take 4 (drop 20 bin), b_imm_11 = take 1 (drop 24 bin)\<rparr>"
  using assms by (simp add: extractBFields_def getBits_32)

lemma getBits_opcode_32:
  "length bin = 32 \<Longrightarrow> getBits bin (pos F_opcode) = Inr (drop 25 bin)"
  by (simp add: getBits_32)

lemma Decoder_InrE:
  assumes "Decoder T bin config = Inr d" "getBits bin (pos F_opcode) = Inr opcode"
  obtains h inst where "dispatch T config opcode bin = Inr h"
    and "ISA T (case h_mne h of None \<Rightarrow> ''undefined'' | Some m \<Rightarrow> m) = Some inst"
    and "d_fmt d = inst_fmt inst"
    and "d_isa d = (case h_isa h of Some i \<Rightarrow> i | None \<Rightarrow> inst_isa inst)"
    and "renderAsm (convertRegToAbi T) (h_asmFrags h) (cfg_ABI config) = Inr (d_asm d)"
    and "asmFrags d = h_asmFrags h"
    and "binFrags d = h_binFrags h"
proof -
  obtain h where h: "dispatch T config opcode bin = Inr h"
    using assms by (cases "dispatch T config opcode bin")
      (simp_all add: Decoder_def convertBinToAsm_def)
  obtain inst where i: "ISA T (case h_mne h of None \<Rightarrow> ''undefined'' | Some m \<Rightarrow> m) = Some inst"
    using assms h
    by (cases "ISA T (case h_mne h of None \<Rightarrow> ''undefined'' | Some m \<Rightarrow> m)")
      (simp_all add: Decoder_def convertBinToAsm_def)
  define isa where "isa = (case h_isa h of Some i \<Rightarrow> i | None \<Rightarrow> inst_isa inst)"
  define r where "r = renderAsm (convertRegToAbi T) (h_asmFrags h) (cfg_ABI config)"
  have eq: "(if cfg_ISA config = RV32I \<and> is_RV64 isa then Inl (IsaMismatch isa)
             else bind_err r
                    (\<lambda>a. Inr \<lparr>d_asm = a, d_isa = isa, d_fmt = inst_fmt inst,
                              binFrags = h_binFrags h, asmFrags = h_asmFrags h\<rparr>)) = Inr d"
    using assms h i unfolding Decoder_def convertBinToAsm_def Let_def isa_def r_def
    by (simp cong: if_cong split del: if_split)
  have nm: "\<not> (cfg_ISA config = RV32I \<and> is_RV64 isa)"
    using eq by (auto split: if_splits)
  with eq obtain a where a: "r = Inr a"
    and d: "d = \<lparr>d_asm = a, d_isa = isa, d_fmt = inst_fmt inst,
                 binFrags = h_binFrags h, asmFrags = h_asmFrags h\<rparr>"
    by (cases r) auto
  show ?thesis
    using h i a by (intro that [of h inst]) (simp_all add: d isa_def r_def)
qed

lemma getBits_opcode:
  "length bin = 32 \<Longrightarrow> getBits bin (pos F_opcode) = Inr (bits_of bin 6 0)"
  by (simp add: getBits_32 bits_of_def)

lemma Decoder_Inl:
  assumes "getBits bin (pos F_opcode) = Inr opcode" "dispatch T config opcode bin = Inl e"
  shows "Decoder T bin config = Inl e"
  using assms by (simp add: Decoder_def convertBinToAsm_def)

lemma extractRFields_32:
  assumes "length bin = 32"
  shows "extractRFields bin =
     Inr \<lparr>r_rs2 = take 5 (drop 7 bin), r_rs1 = take 5 (drop 12 bin),
          r_funct3 = take 3 (drop 17 bin), r_rd = take 5 (drop 20 bin),
          r_funct5 = take 5 bin, r_funct7 = take 7 bin, r_aq = take 1 (drop 5 bin),
          r_rl = take 1 (drop 6 bin), r_fmt = take 2 (drop 5 bin)\<rparr>"
  using assms by (simp add: extractRFields_def getBits_32)

lemma extractIFields_32:
  assumes "length bin = 32"
  shows "extractIFields bin =
     Inr \<lparr>i_imm = take 12 bin, i_rs1 = take 5 (drop 12 bin), i_funct3 = take 3 (drop 17 bin),
          i_rd = take 5 (drop 20 bin), i_shtyp = take 1 (drop 1 bin),
          i_shamt = take 5 (drop 7 bin), i_shamt_5 = take 1 (drop 6 bin),
          i_funct12 = take 12 bin, i_fm = take 4 bin, i_pred = take 4 (drop 4 bin),
          i_succ = take 4 (drop 8 bin)\<rparr>"
  using assms by (simp add: extractIFields_def getBits_32)

lemma extractSFields_32:
  assumes "length bin = 32"
  shows "extractSFields bin =
     Inr \<lparr>s_imm_11_5 = take 7 bin, s_rs2 = take 5 (drop 7 bin), s_rs1 = take 5 (drop 12 bin),
          s_funct3 = take 3 (drop 17 bin), s_imm_4_0 = take 5 (drop 20 bin)\<rparr>"
  using assms by (simp add: extractSFields_def getBits_32)

lemma word_head7:
  assumes "length bin = 32"
  obtains b0 b1 b2 b3 b4 b5 b6 rest where "bin = b0 # b1 # b2 # b3 # b4 # b5 # b6 # rest"
proof -
  from assms obtain b0 r0 where 0: "bin = b0 # r0" "length r0 = 31"
    by (cases bin) auto
  then obtain b1 r1 where 1: "r0 = b1 # r1" "length r1 = 30" by (cases r0) auto
  then obtain b2 r2 where 2: "r1 = b2 # r2" "length r2 = 29" by (cases r1) auto
  then obtain b3 r3 where 3: "r2 = b3 # r3" "length r3 = 28" by (cases r2) auto
  then obtain b4 r4 where 4: "r3 = b4 # r4" "length r4 = 27" by (cases r3) auto
  then obtain b5 r5 where 5: "r4 = b5 # r5" "length r5 = 26" by (cases r4) auto
  then obtain b6 r6 where 6: "r5 = b6 # r6" by (cases r5) auto
  show ?thesis using that 0 1 2 3 4 5 6 by simp
qed

lemma dispatch_OP: "dispatch T config OPCODE_OP bin = decodeOP T OPCODE_OP bin"
  by (simp add: dispatch_def OPCODE_defs)

lemma dispatch_OP_32: "dispatch T config OPCODE_OP_32 bin = decodeOP T OPCODE_OP_32 bin"
  by (simp add: dispatch_def OPCODE_defs)

lemma dispatch_OP_FP: "dispatch T config OPCODE_OP_FP bin = decodeOP_FP T OPCODE_OP_FP bin"
  by (simp add: dispatch_def OPCODE_defs)

lemma dispatch_AMO: "dispatch T config OPCODE_AMO bin = decodeAMO T OPCODE_AMO bin"
  by (simp add: dispatch_def OPCODE_defs)

lemma dispatch_JALR: "dispatch T config OPCODE_JALR bin = decodeJALR T OPCODE_JALR bin"
  by (simp add: dispatch_def OPCODE_defs)

lemma dispatch_LOAD: "dispatch T config OPCODE_LOAD bin = decodeLOAD T OPCODE_LOAD bin"
  by (simp add: dispatch_def OPCODE_defs)

lemma dispatch_LOAD_FP:
  "dispatch T config OPCODE_LOAD_FP bin = decodeLOAD T OPCODE_LOAD_FP bin"
  by (simp add: dispatch_def OPCODE_defs)

lemma dispatch_OP_IMM:
  "dispatch T config OPCODE_OP_IMM bin = decodeOP_IMM T config OPCODE_OP_IMM bin"
  by (simp add: dispatch_def OPCODE_defs)

lemma dispatch_OP_IMM_32:
  "dispatch T config OPCODE_OP_IMM_32 bin = decodeOP_IMM T config OPCODE_OP_IMM_32 bin"
  by (simp add: dispatch_def OPCODE_defs)

lemma dispatch_MISC_MEM:
  "dispatch T config OPCODE_MISC_MEM bin = decodeMISC_MEM T OPCODE_MISC_MEM bin"
  by (simp add: dispatch_def OPCODE_defs)

lemma dispatch_SYSTEM: "dispatch T config OPCODE_SYSTEM bin = decodeSYSTEM T OPCODE_SYSTEM bin"
  by (simp add: dispatch_def OPCODE_defs)

lemma dispatch_STORE: "dispatch T config OPCODE_STORE bin = decodeSTORE T OPCODE_STORE bin"
  by (simp add: dispatch_def OPCODE_defs)

lemma dispatch_STORE_FP:
  "dispatch T config OPCODE_STORE_FP bin = decodeSTORE T OPCODE_STORE_FP bin"
  by (simp add: dispatch_def OPCODE_defs)

lemma dispatch_BRANCH: "dispatch T config OPCODE_BRANCH bin = decodeBRANCH T OPCODE_BRANCH bin"
  by (simp add: dispatch_def OPCODE_defs)

lemma dispatch_LUI: "dispatch T config OPCODE_LUI bin = decodeUType T OPCODE_LUI bin"
  by (simp add: dispatch_def OPCODE_defs)

lemma dispatch_AUIPC: "dispatch T config OPCODE_AUIPC bin = decodeUType T OPCODE_AUIPC bin"
  by (simp add: dispatch_def OPCODE_defs)

lemma dispatch_JAL: "dispatch T config OPCODE_JAL bin = decodeJAL T OPCODE_JAL bin"
  by (simp add: dispatch_def OPCODE_defs)

lemma dispatch_MADD: "dispatch T config OPCODE_MADD bin = decodeR4 T OPCODE_MADD bin"
  by (simp add: dispatch_def OPCODE_defs)

lemma dispatch_MSUB: "dispatch T config OPCODE_MSUB bin = decodeR4 T OPCODE_MSUB bin"
  by (simp add: dispatch_def OPCODE_defs)

lemma dispatch_NMADD: "dispatch T config OPCODE_NMADD bin = decodeR4 T OPCODE_NMADD bin"
  by (simp add: dispatch_def OPCODE_defs)

lemma dispatch_NMSUB: "dispatch T config OPCODE_NMSUB bin = decodeR4 T OPCODE_NMSUB bin"
  by (simp add: dispatch_def OPCODE_defs)

subsection \<open>The shift branch of \<open>decodeOP_IMM\<close>\<close>

lemma decodeOP_IMM_shift_range:
  assumes len: "length bin = 32"
    and lk: "lookupOP_IMM T (opcode = OPCODE_OP_IMM_32) (take 3 (drop 17 bin))
               (take 1 (drop 1 bin)) = Inr (mne, True)"
    and s64: "opcode \<noteq> OPCODE_OP_IMM_32" "take 1 (drop 6 bin) = ''1''"
    and cfg: "cfg_ISA config = RV32I"
  shows "decodeOP_IMM T config opcode bin =
           Inl (ShiftOutOfRange ''OP-IMM''
                  (decImm (take 1 (drop 6 bin) @ take 5 (drop 7 bin)) False))"
  unfolding decodeOP_IMM_def extractIFields_32 [OF len]
  using lk s64 cfg by (simp add: Let_def)

lemma decodeOP_IMM_shift_6:
  assumes len: "length bin = 32"
    and lk: "lookupOP_IMM T (opcode = OPCODE_OP_IMM_32) (take 3 (drop 17 bin))
               (take 1 (drop 1 bin)) = Inr (mne, True)"
    and s64: "opcode \<noteq> OPCODE_OP_IMM_32" "cfg_ISA config = RV64I \<or> take 1 (drop 6 bin) = ''1''"
    and ok: "decodeOP_IMM T config opcode bin = Inr h"
  shows "h_isa h = Some ''RV64I'' \<and> h_mne h = mne
       \<and> h_asmFrags h =
           [Frag (mne_tok mne) opcode (fname F_opcode) False,
            Frag (Str (decReg (take 5 (drop 20 bin)) False)) (take 5 (drop 20 bin))
              (fname F_rd) False,
            Frag (Str (decReg (take 5 (drop 12 bin)) False)) (take 5 (drop 12 bin))
              (fname F_rs1) False,
            Frag (num_tok (decImm (take 1 (drop 6 bin) @ take 5 (drop 7 bin)) False))
              (take 1 (drop 6 bin) @ take 5 (drop 7 bin)) (fname F_i_shamt_5_0) False]"
proof -
  have c: "cfg_ISA config \<noteq> RV32I"
    using lk s64 ok unfolding decodeOP_IMM_def extractIFields_32 [OF len]
    by (auto simp add: Let_def split: if_splits)
  have b: "\<not> (''0'' @ take 1 (drop 1 bin) @ ''0000'' \<noteq> substring (take 12 bin) 0 6)"
    using lk s64 c ok unfolding decodeOP_IMM_def extractIFields_32 [OF len]
    by (auto simp add: Let_def split: if_splits)
  show ?thesis
    using lk s64 c b ok unfolding decodeOP_IMM_def extractIFields_32 [OF len]
    by (auto simp add: Let_def split: if_splits)
qed

lemma decodeOP_IMM_shift_5:
  assumes len: "length bin = 32"
    and lk: "lookupOP_IMM T (opcode = OPCODE_OP_IMM_32) (take 3 (drop 17 bin))
               (take 1 (drop 1 bin)) = Inr (mne, True)"
    and s64: "\<not> (opcode \<noteq> OPCODE_OP_IMM_32
                \<and> (cfg_ISA config = RV64I \<or> take 1 (drop 6 bin) = ''1''))"
    and ok: "decodeOP_IMM T config opcode bin = Inr h"
  shows "h_isa h = None \<and> h_mne h = mne
       \<and> h_asmFrags h =
           [Frag (mne_tok mne) opcode (fname F_opcode) False,
            Frag (Str (decReg (take 5 (drop 20 bin)) False)) (take 5 (drop 20 bin))
              (fname F_rd) False,
            Frag (Str (decReg (take 5 (drop 12 bin)) False)) (take 5 (drop 12 bin))
              (fname F_rs1) False,
            Frag (num_tok (decImm (take 5 (drop 7 bin)) False))
              (take 5 (drop 7 bin)) (fname F_i_shamt) False]"
proof -
  have b: "\<not> (''0'' @ take 1 (drop 1 bin) @ ''0000'' @ ''0'' \<noteq> substring (take 12 bin) 0 7)"
    using lk s64 ok unfolding decodeOP_IMM_def extractIFields_32 [OF len]
    by (auto simp add: Let_def split: if_splits)
  show ?thesis
    using lk s64 b ok unfolding decodeOP_IMM_def extractIFields_32 [OF len]
    by (auto simp add: Let_def split: if_splits)
qed

lemma decodeOP_IMM_32_shamt_5:
  assumes len: "length bin = 32"
    and lk: "lookupOP_IMM T True (take 3 (drop 17 bin)) (take 1 (drop 1 bin)) = Inr (mne, True)"
    and b25: "take 1 (drop 6 bin) = ''1''"
  shows "decodeOP_IMM T config OPCODE_OP_IMM_32 bin = Inl (BadShtyp ''OP-IMM-32'')"
proof -
  from len obtain b0 b1 b2 b3 b4 b5 b6 rest
    where bin: "bin = b0 # b1 # b2 # b3 # b4 # b5 # b6 # rest"
    by (rule word_head7)
  have ne: "''0'' @ take 1 (drop 1 bin) @ ''0000'' @ ''0'' \<noteq> substring (take 12 bin) 0 7"
    using b25 by (simp add: bin substring_def)
  show ?thesis
    unfolding decodeOP_IMM_def extractIFields_32 [OF len]
    using lk ne by (simp add: Let_def)
qed

subsection \<open>Register numbers, CSR names and fence masks\<close>

lemma decReg_bits:
  assumes "list_all is_bit s" "s \<noteq> []"
  shows "decReg s fl = (if fl then ''f'' else ''x'') @ toString 10 (unsigned_value s)"
  using assms by (simp add: decReg_def parseInt2_bits num_str_def)

lemma unsigned_value_range: "0 \<le> unsigned_value s \<and> unsigned_value s < 2 ^ length s"
  using bin_value_less [of s] by (simp add: unsigned_value_def)

lemma digit_char_0: "digit_char 0 = CHR ''0''"
  by (simp add: digit_char_def)

lemma digits16_1: "0 \<le> n \<Longrightarrow> n < 16 \<Longrightarrow> digits 16 n = [digit_char n]"
  by (subst digits.simps) simp

lemma digits16_2:
  assumes "16 \<le> n" "n < 256"
  shows "digits 16 n = [digit_char (n div 16), digit_char (n mod 16)]"
proof -
  have "0 \<le> n div 16" "n div 16 < 16" using assms by auto
  then have "digits 16 (n div 16) = [digit_char (n div 16)]" by (rule digits16_1)
  then show ?thesis using assms by (subst digits.simps) simp
qed

lemma digits16_3:
  assumes "256 \<le> n" "n < 4096"
  shows "digits 16 n = [digit_char (n div 256), digit_char (n div 16 mod 16), digit_char (n mod 16)]"
proof -
  have "16 \<le> n div 16" "n div 16 < 256" using assms by auto
  then have "digits 16 (n div 16)
               = [digit_char (n div 16 div 16), digit_char (n div 16 mod 16)]"
    by (rule digits16_2)
  moreover have "n div 16 div 16 = n div 256"
    by (simp add: div_mult2_eq [symmetric])
  ultimately show ?thesis using assms by (subst digits.simps) simp
qed

lemma padStart_hex3:
  assumes "0 \<le> v" "v < 4096"
  shows "padStart (toString 16 v) 3 CHR ''0'' = hex3 v"
proof -
  consider "v < 16" | "16 \<le> v" "v < 256" | "256 \<le> v" by linarith
  then show ?thesis
  proof cases
    case 1
    then show ?thesis
      using assms digits16_1 [of v]
      by (simp add: toString_def padStart_def hex3_def digit_char_0 numeral_3_eq_3)
  next
    case 2
    then show ?thesis
      using assms digits16_2 [of v]
      by (simp add: toString_def padStart_def hex3_def digit_char_0)
  next
    case 3
    then have "v div 256 mod 16 = v div 256" using assms by simp
    then show ?thesis
      using 3 assms digits16_3 [of v]
      by (simp add: toString_def padStart_def hex3_def)
  qed
qed

lemma decCSR_bits:
  assumes "list_all is_bit s" "length s = 12"
  shows "decCSR C s =
           (case find (\<lambda>e. snd e = unsigned_value s) C of
              Some e \<Rightarrow> fst e
            | None \<Rightarrow> ''0x'' @ hex3 (unsigned_value s))"
proof -
  have ne: "s \<noteq> []" using assms(2) by auto
  have r: "0 \<le> unsigned_value s" "unsigned_value s < 4096"
    using unsigned_value_range [of s] assms(2) by simp_all
  have f: "(\<lambda>e. Some (snd e) = Some (unsigned_value s)) = (\<lambda>e. snd e = unsigned_value s)"
    by simp
  show ?thesis
    by (simp add: decCSR_def parseInt2_bits [OF assms(1) ne] Let_def f padStart_hex3 [OF r]
             split: option.split)
qed

lemma digit_char_hex:
  assumes "0 \<le> k" "k < 16"
  shows "digit_char k \<in> set ''0123456789abcdef''"
proof -
  have "nat k < length ''0123456789abcdef''" using assms by simp
  then show ?thesis unfolding digit_char_def by (rule nth_mem)
qed

lemma hex3_digits:
  "length (hex3 a) = 3 \<and> list_all (\<lambda>c. c \<in> set ''0123456789abcdef'') (hex3 a)"
proof -
  have "\<And>k::int. digit_char (k mod 16) \<in> set ''0123456789abcdef''"
    by (rule digit_char_hex) simp_all
  then show ?thesis
    unfolding hex3_def by simp
qed

lemma decMem_letters:
  assumes "length s = 4"
  shows "decMem_loop s [''i'', ''o'', ''r'', ''w''] = fence_letters s"
proof -
  from assms obtain a r0 where 0: "s = a # r0" "length r0 = 3" by (cases s) auto
  then obtain b r1 where 1: "r0 = b # r1" "length r1 = 2" by (cases r0) auto
  then obtain c r2 where 2: "r1 = c # r2" "length r2 = 1" by (cases r1) auto
  then obtain d r3 where 3: "r2 = d # r3" "r3 = []" by (cases r2) auto
  show ?thesis
    by (simp add: 0 1 2 3 fence_letters_def)
qed

lemma fence_letters_empty:
  assumes "list_all is_bit s" "length s = 4"
  shows "fence_letters s = [] \<longleftrightarrow> s = ''0000''"
proof -
  from assms(2) obtain a r0 where 0: "s = a # r0" "length r0 = 3" by (cases s) auto
  then obtain b r1 where 1: "r0 = b # r1" "length r1 = 2" by (cases r0) auto
  then obtain c r2 where 2: "r1 = c # r2" "length r2 = 1" by (cases r1) auto
  then obtain d r3 where 3: "r2 = d # r3" "r3 = []" by (cases r2) auto
  show ?thesis
    using assms(1) by (auto simp add: 0 1 2 3 fence_letters_def is_bit_def)
qed

lemma decMem_bits:
  assumes "list_all is_bit s" "length s = 4"
  shows "decMem s = (if s = ''0000'' then Inl InvalidFence else Inr (fence_letters s))"
  using fence_letters_empty [OF assms]
  by (simp add: decMem_def decMem_letters [OF assms(2)] Let_def)

subsection \<open>What every handler leaves behind\<close>

lemma Frag_sel [simp]:
  "asm (Frag a b f m) = a" "bits (Frag a b f m) = b" "field (Frag a b f m) = f"
  "mem (Frag a b f m) = m"
  by (simp_all add: Frag_def)

lemma reg_frag_ok_bits:
  assumes "list_all is_bit s" "length s = 5"
  shows "reg_frag_ok (Frag (Str (decReg s fl)) s n b)"
proof -
  have ne: "s \<noteq> []" using assms(2) by auto
  have "unsigned_value s < 32"
    using unsigned_value_range [of s] assms(2) by simp
  then show ?thesis
    using assms(2) decReg_bits [OF assms(1) ne, of fl]
    by (simp add: reg_frag_ok_def)
qed

lemma reg_frag_ok_drop:
  assumes "is_word bin" "k + 5 \<le> 32"
  shows "reg_frag_ok (Frag (Str (decReg (take 5 (drop k bin)) fl)) (take 5 (drop k bin)) n b)"
proof -
  have "length (take 5 (drop k bin)) = 5"
    using assms by (simp add: is_word_def)
  then show ?thesis
    using is_word_take_drop [OF assms(1), of 5 k] by (intro reg_frag_ok_bits)
qed

lemma reg_frag_ok_take:
  assumes "is_word bin"
  shows "reg_frag_ok (Frag (Str (decReg (take 5 bin) fl)) (take 5 bin) n b)"
  using reg_frag_ok_drop [OF assms, of 0] by simp

lemma not_reg_field [simp]:
  "\<not> reg_field ''opcode''" "\<not> reg_field ''imm''" "\<not> reg_field ''imm[11:0]''"
  "\<not> reg_field ''imm[4:0]''" "\<not> reg_field ''imm[31:12]''" "\<not> reg_field ''csr''"
  "\<not> reg_field ''pred''" "\<not> reg_field ''succ''" "\<not> reg_field ''shamt[5:0]''"
  "\<not> reg_field ''shamt[4:0]''"
  by (simp_all add: reg_field_def)

lemma decodeOP_ok:
  assumes "is_word bin" "decodeOP T opcode bin = Inr h"
  shows "handled_ok h"
proof -
  have len: "length bin = 32" using assms(1) by (simp add: is_word_def)
  show ?thesis
    using assms(2) unfolding decodeOP_def extractRFields_32 [OF len]
    by (auto simp add: Let_def handled_ok_def mne_tok_def reg_frag_ok_drop [OF assms(1)]
             split: option.splits if_splits)
qed

lemma decodeOP_FP_ok:
  assumes "is_word bin" "decodeOP_FP T opcode bin = Inr h"
  shows "handled_ok h"
proof -
  have len: "length bin = 32" using assms(1) by (simp add: is_word_def)
  show ?thesis
    using assms(2) unfolding decodeOP_FP_def extractRFields_32 [OF len]
    by (auto simp add: Let_def handled_ok_def mne_tok_def reg_frag_ok_drop [OF assms(1)]
             split: option.splits if_splits entry.splits)
qed

lemma decodeAMO_ok:
  assumes "is_word bin" "decodeAMO T opcode bin = Inr h"
  shows "handled_ok h"
proof -
  have len: "length bin = 32" using assms(1) by (simp add: is_word_def)
  show ?thesis
    using assms(2) unfolding decodeAMO_def extractRFields_32 [OF len]
    by (auto simp add: Let_def handled_ok_def mne_tok_def reg_frag_ok_drop [OF assms(1)]
             split: option.splits if_splits)
qed

lemma decodeR4_ok:
  assumes "is_word bin" "decodeR4 T opcode bin = Inr h"
  shows "handled_ok h"
proof -
  have len: "length bin = 32" using assms(1) by (simp add: is_word_def)
  show ?thesis
    using assms(2) unfolding decodeR4_def extractRFields_32 [OF len]
    by (auto simp add: Let_def handled_ok_def mne_tok_def reg_frag_ok_drop [OF assms(1)]
               reg_frag_ok_take [OF assms(1)]
             split: option.splits if_splits)
qed

lemma decodeJALR_ok:
  assumes "is_word bin" "decodeJALR T opcode bin = Inr h"
  shows "handled_ok h"
proof -
  have len: "length bin = 32" using assms(1) by (simp add: is_word_def)
  show ?thesis
    using assms(2) unfolding decodeJALR_def extractIFields_32 [OF len]
    by (auto simp add: Let_def handled_ok_def mne_tok_def reg_frag_ok_drop [OF assms(1)])
qed

lemma decodeLOAD_ok:
  assumes "is_word bin" "decodeLOAD T opcode bin = Inr h"
  shows "handled_ok h"
proof -
  have len: "length bin = 32" using assms(1) by (simp add: is_word_def)
  show ?thesis
    using assms(2) unfolding decodeLOAD_def extractIFields_32 [OF len]
    by (auto simp add: Let_def handled_ok_def mne_tok_def reg_frag_ok_drop [OF assms(1)]
             split: option.splits if_splits)
qed

lemma decodeOP_IMM_ok:
  assumes "is_word bin" "decodeOP_IMM T config opcode bin = Inr h"
  shows "handled_ok h"
proof -
  have len: "length bin = 32" using assms(1) by (simp add: is_word_def)
  obtain mne shift where lk: "lookupOP_IMM T (opcode = OPCODE_OP_IMM_32) (take 3 (drop 17 bin))
                                (take 1 (drop 1 bin)) = Inr (mne, shift)"
    using assms(2) unfolding decodeOP_IMM_def extractIFields_32 [OF len]
    by (cases "lookupOP_IMM T (opcode = OPCODE_OP_IMM_32) (take 3 (drop 17 bin))
                 (take 1 (drop 1 bin))") (auto simp add: Let_def)
  show ?thesis
  proof (cases shift)
    case False
    then show ?thesis
      using lk assms(2) unfolding decodeOP_IMM_def extractIFields_32 [OF len]
      by (auto simp add: Let_def handled_ok_def reg_frag_ok_drop [OF assms(1)])
  next
    case True
    have lk': "lookupOP_IMM T (opcode = OPCODE_OP_IMM_32) (take 3 (drop 17 bin))
                 (take 1 (drop 1 bin)) = Inr (mne, True)"
      using lk True by simp
    show ?thesis
    proof (cases "opcode \<noteq> OPCODE_OP_IMM_32
                    \<and> (cfg_ISA config = RV64I \<or> take 1 (drop 6 bin) = ''1'')")
      case True
      then show ?thesis
        using decodeOP_IMM_shift_6 [OF len lk' _ _ assms(2)]
        by (simp add: handled_ok_def reg_frag_ok_drop [OF assms(1)])
    next
      case False
      then show ?thesis
        using decodeOP_IMM_shift_5 [OF len lk' _ assms(2)]
        by (simp add: handled_ok_def reg_frag_ok_drop [OF assms(1)])
    qed
  qed
qed

lemma decodeMISC_MEM_ok:
  assumes "is_word bin" "decodeMISC_MEM T opcode bin = Inr h"
  shows "handled_ok h"
proof -
  have len: "length bin = 32" using assms(1) by (simp add: is_word_def)
  show ?thesis
    using assms(2) unfolding decodeMISC_MEM_def extractIFields_32 [OF len]
    by (auto simp add: Let_def handled_ok_def mne_tok_def bind_err_def
             split: option.splits if_splits sum.splits)
qed

lemma decodeSYSTEM_ok:
  assumes "is_word bin" "decodeSYSTEM T opcode bin = Inr h"
  shows "handled_ok h"
proof -
  have len: "length bin = 32" using assms(1) by (simp add: is_word_def)
  show ?thesis
    using assms(2) unfolding decodeSYSTEM_def extractIFields_32 [OF len]
    by (auto simp add: Let_def handled_ok_def mne_tok_def reg_frag_ok_drop [OF assms(1)]
             split: option.splits if_splits entry.splits)
qed

lemma decodeSTORE_ok:
  assumes "is_word bin" "decodeSTORE T opcode bin = Inr h"
  shows "handled_ok h"
proof -
  have len: "length bin = 32" using assms(1) by (simp add: is_word_def)
  show ?thesis
    using assms(2) unfolding decodeSTORE_def extractSFields_32 [OF len]
    by (auto simp add: Let_def handled_ok_def mne_tok_def reg_frag_ok_drop [OF assms(1)]
             split: option.splits if_splits)
qed

lemma decodeBRANCH_ok:
  assumes "is_word bin" "decodeBRANCH T opcode bin = Inr h"
  shows "handled_ok h"
proof -
  have len: "length bin = 32" using assms(1) by (simp add: is_word_def)
  show ?thesis
    using assms(2) unfolding decodeBRANCH_def extractBFields_32 [OF len]
    by (auto simp add: Let_def handled_ok_def mne_tok_def reg_frag_ok_drop [OF assms(1)]
             split: option.splits if_splits)
qed

lemma decodeUType_ok:
  assumes "is_word bin" "decodeUType T opcode bin = Inr h"
  shows "handled_ok h"
proof -
  have len: "length bin = 32" using assms(1) by (simp add: is_word_def)
  show ?thesis
    using assms(2) unfolding decodeUType_def
    by (auto simp add: getBits_32 [OF len] Let_def handled_ok_def mne_tok_def
               reg_frag_ok_drop [OF assms(1)])
qed

lemma decodeJAL_ok:
  assumes "is_word bin" "decodeJAL T opcode bin = Inr h"
  shows "handled_ok h"
proof -
  have len: "length bin = 32" using assms(1) by (simp add: is_word_def)
  show ?thesis
    using assms(2) unfolding decodeJAL_def
    by (auto simp add: getBits_32 [OF len] Let_def handled_ok_def mne_tok_def
               reg_frag_ok_drop [OF assms(1)])
qed

lemma dispatch_ok:
  assumes "is_word bin" "dispatch T config opcode bin = Inr h"
  shows "handled_ok h"
  using assms(2) unfolding dispatch_def
  by (auto split: if_splits
           intro: decodeOP_ok [OF assms(1)] decodeOP_FP_ok [OF assms(1)]
             decodeAMO_ok [OF assms(1)] decodeR4_ok [OF assms(1)] decodeJALR_ok [OF assms(1)]
             decodeLOAD_ok [OF assms(1)] decodeOP_IMM_ok [OF assms(1)]
             decodeMISC_MEM_ok [OF assms(1)] decodeSYSTEM_ok [OF assms(1)]
             decodeSTORE_ok [OF assms(1)] decodeBRANCH_ok [OF assms(1)]
             decodeUType_ok [OF assms(1)] decodeJAL_ok [OF assms(1)])

subsection \<open>The loop of \<open>renderAsm\<close> and the assembly line\<close>

lemma renderAsm_loop_join:
  "1 < i \<Longrightarrow> renderAsm_loop conv abi i prev fs = join_operands conv abi prev fs"
proof (induction fs arbitrary: i prev)
  case Nil
  show ?case by simp
next
  case (Cons f fs)
  have "renderAsm_loop conv abi (i + 1) f fs = join_operands conv abi f fs"
    using Cons.prems by (intro Cons.IH) simp
  then show ?case
    using Cons.prems by (auto simp add: Let_def operand_text_def)
qed

lemma renderAsm_loop_first:
  "renderAsm_loop conv abi 1 f0 fs =
     (case fs of [] \<Rightarrow> []
      | f # gs \<Rightarrow> '' '' @ operand_text conv abi f @ join_operands conv abi f gs)"
proof (cases fs)
  case Nil
  then show ?thesis by simp
next
  case (Cons f gs)
  have "renderAsm_loop conv abi (1 + 1) f gs = join_operands conv abi f gs"
    by (rule renderAsm_loop_join) simp
  then show ?thesis
    by (simp add: Cons Let_def operand_text_def)
qed

lemma renderAsm_line:
  assumes "asm f = mne_tok mne" "mne = None \<longrightarrow> fs \<noteq> []"
  shows "renderAsm conv (f # fs) abi = Inr (asm_line conv abi (tok_str (asm f)) fs)"
proof (cases mne)
  case None
  then obtain g gs where "fs = g # gs" using assms(2) by (cases fs) auto
  then show ?thesis
    using assms(1) None
    by (simp add: renderAsm_def asm_line_def mne_tok_def
               renderAsm_loop_first [unfolded One_nat_def]
             del: renderAsm_loop.simps)
next
  case (Some m)
  then show ?thesis
    using assms(1)
    by (simp add: renderAsm_def asm_line_def mne_tok_def tok_str_def
               renderAsm_loop_first [unfolded One_nat_def]
             del: renderAsm_loop.simps)
qed

lemma prefix_trim:
  assumes "m \<noteq> []" "\<not> is_space (hd m)" "\<not> is_space (last m)"
  shows "prefix m (trim (m @ r))"
proof -
  have 1: "dropWhile is_space (m @ r) = m @ r"
    using assms(1,2) by (cases m) auto
  have 2: "dropWhile is_space (rev m) = rev m"
    using assms(1,3) by (cases "rev m") (auto simp: last_rev [symmetric] hd_rev)
  have "dropWhile is_space (rev r @ rev m)
          = (if \<forall>x \<in> set (rev r). is_space x then rev m
             else dropWhile is_space (rev r) @ rev m)"
    using 2 by (simp add: dropWhile_append)
  then have "trim (m @ r)
          = (if \<forall>x \<in> set (rev r). is_space x then m
             else m @ rev (dropWhile is_space (rev r)))"
    by (simp add: trim_def 1)
  then show ?thesis by simp
qed

subsection \<open>The bits of the binary fragments, handler by handler\<close>

lemma word_explode:
  assumes "length (bin :: string) = 32"
  obtains b31 b30 b29 b28 b27 b26 b25 b24 b23 b22 b21 b20 b19 b18 b17 b16
          b15 b14 b13 b12 b11 b10 b9 b8 b7 b6 b5 b4 b3 b2 b1 b0
  where "bin = [b31, b30, b29, b28, b27, b26, b25, b24, b23, b22, b21, b20, b19, b18, b17, b16,
                b15, b14, b13, b12, b11, b10, b9, b8, b7, b6, b5, b4, b3, b2, b1, b0]"
  using assms by (auto simp: eval_nat_numeral length_Suc_conv)

lemma decodeOP_bins:
  assumes len: "length bin = 32" and op: "opcode = drop 25 bin"
    and ok: "decodeOP T opcode bin = Inr h"
  shows "concat (map bits (h_binFrags h)) = bin"
proof -
  from len obtain b31 b30 b29 b28 b27 b26 b25 b24 b23 b22 b21 b20 b19 b18 b17 b16
          b15 b14 b13 b12 b11 b10 b9 b8 b7 b6 b5 b4 b3 b2 b1 b0
    where b: "bin = [b31, b30, b29, b28, b27, b26, b25, b24, b23, b22, b21, b20, b19, b18, b17,
                     b16, b15, b14, b13, b12, b11, b10, b9, b8, b7, b6, b5, b4, b3, b2, b1, b0]"
    by (rule word_explode)
  show ?thesis
    using ok unfolding decodeOP_def extractRFields_32 [OF len] op
    by (auto simp add: Let_def b split: option.splits if_splits)
qed

lemma decodeOP_FP_bins:
  assumes len: "length bin = 32" and op: "opcode = drop 25 bin"
    and ok: "decodeOP_FP T opcode bin = Inr h"
  shows "concat (map bits (h_binFrags h)) = bin"
proof -
  from len obtain b31 b30 b29 b28 b27 b26 b25 b24 b23 b22 b21 b20 b19 b18 b17 b16
          b15 b14 b13 b12 b11 b10 b9 b8 b7 b6 b5 b4 b3 b2 b1 b0
    where b: "bin = [b31, b30, b29, b28, b27, b26, b25, b24, b23, b22, b21, b20, b19, b18, b17,
                     b16, b15, b14, b13, b12, b11, b10, b9, b8, b7, b6, b5, b4, b3, b2, b1, b0]"
    by (rule word_explode)
  show ?thesis
    using ok unfolding decodeOP_FP_def extractRFields_32 [OF len] op
    by (auto simp add: Let_def b split: option.splits if_splits entry.splits)
qed

lemma decodeAMO_bins:
  assumes len: "length bin = 32" and op: "opcode = drop 25 bin"
    and ok: "decodeAMO T opcode bin = Inr h"
  shows "concat (map bits (h_binFrags h)) = bin"
proof -
  from len obtain b31 b30 b29 b28 b27 b26 b25 b24 b23 b22 b21 b20 b19 b18 b17 b16
          b15 b14 b13 b12 b11 b10 b9 b8 b7 b6 b5 b4 b3 b2 b1 b0
    where b: "bin = [b31, b30, b29, b28, b27, b26, b25, b24, b23, b22, b21, b20, b19, b18, b17,
                     b16, b15, b14, b13, b12, b11, b10, b9, b8, b7, b6, b5, b4, b3, b2, b1, b0]"
    by (rule word_explode)
  show ?thesis
    using ok unfolding decodeAMO_def extractRFields_32 [OF len] op
    by (auto simp add: Let_def b split: option.splits if_splits)
qed

lemma decodeR4_bins:
  assumes len: "length bin = 32" and op: "opcode = drop 25 bin"
    and ok: "decodeR4 T opcode bin = Inr h"
  shows "concat (map bits (h_binFrags h)) = bin"
proof -
  from len obtain b31 b30 b29 b28 b27 b26 b25 b24 b23 b22 b21 b20 b19 b18 b17 b16
          b15 b14 b13 b12 b11 b10 b9 b8 b7 b6 b5 b4 b3 b2 b1 b0
    where b: "bin = [b31, b30, b29, b28, b27, b26, b25, b24, b23, b22, b21, b20, b19, b18, b17,
                     b16, b15, b14, b13, b12, b11, b10, b9, b8, b7, b6, b5, b4, b3, b2, b1, b0]"
    by (rule word_explode)
  show ?thesis
    using ok unfolding decodeR4_def extractRFields_32 [OF len] op
    by (auto simp add: Let_def b split: option.splits if_splits)
qed

lemma decodeJALR_bins:
  assumes len: "length bin = 32" and op: "opcode = drop 25 bin"
    and ok: "decodeJALR T opcode bin = Inr h"
  shows "concat (map bits (h_binFrags h)) = bin"
proof -
  from len obtain b31 b30 b29 b28 b27 b26 b25 b24 b23 b22 b21 b20 b19 b18 b17 b16
          b15 b14 b13 b12 b11 b10 b9 b8 b7 b6 b5 b4 b3 b2 b1 b0
    where b: "bin = [b31, b30, b29, b28, b27, b26, b25, b24, b23, b22, b21, b20, b19, b18, b17,
                     b16, b15, b14, b13, b12, b11, b10, b9, b8, b7, b6, b5, b4, b3, b2, b1, b0]"
    by (rule word_explode)
  show ?thesis
    using ok unfolding decodeJALR_def extractIFields_32 [OF len] op
    by (auto simp add: Let_def b split: option.splits if_splits)
qed

lemma decodeLOAD_bins:
  assumes len: "length bin = 32" and op: "opcode = drop 25 bin"
    and ok: "decodeLOAD T opcode bin = Inr h"
  shows "concat (map bits (h_binFrags h)) = bin"
proof -
  from len obtain b31 b30 b29 b28 b27 b26 b25 b24 b23 b22 b21 b20 b19 b18 b17 b16
          b15 b14 b13 b12 b11 b10 b9 b8 b7 b6 b5 b4 b3 b2 b1 b0
    where b: "bin = [b31, b30, b29, b28, b27, b26, b25, b24, b23, b22, b21, b20, b19, b18, b17,
                     b16, b15, b14, b13, b12, b11, b10, b9, b8, b7, b6, b5, b4, b3, b2, b1, b0]"
    by (rule word_explode)
  show ?thesis
    using ok unfolding decodeLOAD_def extractIFields_32 [OF len] op
    by (auto simp add: Let_def b split: option.splits if_splits)
qed

lemma decodeMISC_MEM_bins:
  assumes len: "length bin = 32" and op: "opcode = drop 25 bin"
    and ok: "decodeMISC_MEM T opcode bin = Inr h"
  shows "concat (map bits (h_binFrags h)) = bin"
proof -
  from len obtain b31 b30 b29 b28 b27 b26 b25 b24 b23 b22 b21 b20 b19 b18 b17 b16
          b15 b14 b13 b12 b11 b10 b9 b8 b7 b6 b5 b4 b3 b2 b1 b0
    where b: "bin = [b31, b30, b29, b28, b27, b26, b25, b24, b23, b22, b21, b20, b19, b18, b17,
                     b16, b15, b14, b13, b12, b11, b10, b9, b8, b7, b6, b5, b4, b3, b2, b1, b0]"
    by (rule word_explode)
  show ?thesis
    using ok unfolding decodeMISC_MEM_def extractIFields_32 [OF len] op
    by (auto simp add: Let_def b bind_err_def split: option.splits if_splits sum.splits)
qed

lemma decodeSYSTEM_bins:
  assumes len: "length bin = 32" and op: "opcode = drop 25 bin"
    and ok: "decodeSYSTEM T opcode bin = Inr h"
  shows "concat (map bits (h_binFrags h)) = bin"
proof -
  from len obtain b31 b30 b29 b28 b27 b26 b25 b24 b23 b22 b21 b20 b19 b18 b17 b16
          b15 b14 b13 b12 b11 b10 b9 b8 b7 b6 b5 b4 b3 b2 b1 b0
    where b: "bin = [b31, b30, b29, b28, b27, b26, b25, b24, b23, b22, b21, b20, b19, b18, b17,
                     b16, b15, b14, b13, b12, b11, b10, b9, b8, b7, b6, b5, b4, b3, b2, b1, b0]"
    by (rule word_explode)
  show ?thesis
    using ok unfolding decodeSYSTEM_def extractIFields_32 [OF len] op
    by (auto simp add: Let_def b split: option.splits if_splits entry.splits)
qed

lemma decodeSTORE_bins:
  assumes len: "length bin = 32" and op: "opcode = drop 25 bin"
    and ok: "decodeSTORE T opcode bin = Inr h"
  shows "concat (map bits (h_binFrags h)) = bin"
proof -
  from len obtain b31 b30 b29 b28 b27 b26 b25 b24 b23 b22 b21 b20 b19 b18 b17 b16
          b15 b14 b13 b12 b11 b10 b9 b8 b7 b6 b5 b4 b3 b2 b1 b0
    where b: "bin = [b31, b30, b29, b28, b27, b26, b25, b24, b23, b22, b21, b20, b19, b18, b17,
                     b16, b15, b14, b13, b12, b11, b10, b9, b8, b7, b6, b5, b4, b3, b2, b1, b0]"
    by (rule word_explode)
  show ?thesis
    using ok unfolding decodeSTORE_def extractSFields_32 [OF len] op
    by (auto simp add: Let_def b split: option.splits if_splits)
qed

lemma decodeUType_bins:
  assumes len: "length bin = 32" and op: "opcode = drop 25 bin"
    and ok: "decodeUType T opcode bin = Inr h"
  shows "concat (map bits (h_binFrags h)) = bin"
proof -
  from len obtain b31 b30 b29 b28 b27 b26 b25 b24 b23 b22 b21 b20 b19 b18 b17 b16
          b15 b14 b13 b12 b11 b10 b9 b8 b7 b6 b5 b4 b3 b2 b1 b0
    where b: "bin = [b31, b30, b29, b28, b27, b26, b25, b24, b23, b22, b21, b20, b19, b18, b17,
                     b16, b15, b14, b13, b12, b11, b10, b9, b8, b7, b6, b5, b4, b3, b2, b1, b0]"
    by (rule word_explode)
  show ?thesis
    using ok unfolding decodeUType_def op
    by (auto simp add: Let_def b getBits_def substring_def split: option.splits if_splits)
qed

lemma decodeJAL_bins:
  assumes len: "length bin = 32" and op: "opcode = drop 25 bin"
    and ok: "decodeJAL T opcode bin = Inr h"
  shows "concat (map bits (h_binFrags h)) = bin"
proof -
  from len obtain b31 b30 b29 b28 b27 b26 b25 b24 b23 b22 b21 b20 b19 b18 b17 b16
          b15 b14 b13 b12 b11 b10 b9 b8 b7 b6 b5 b4 b3 b2 b1 b0
    where b: "bin = [b31, b30, b29, b28, b27, b26, b25, b24, b23, b22, b21, b20, b19, b18, b17,
                     b16, b15, b14, b13, b12, b11, b10, b9, b8, b7, b6, b5, b4, b3, b2, b1, b0]"
    by (rule word_explode)
  show ?thesis
    using ok unfolding decodeJAL_def op
    by (auto simp add: Let_def b getBits_def substring_def split: option.splits if_splits)
qed

lemma decodeOP_IMM_bins:
  assumes len: "length bin = 32" and op: "opcode = drop 25 bin"
    and ok: "decodeOP_IMM T config opcode bin = Inr h"
  shows "concat (map bits (h_binFrags h)) = bin"
proof -
  from len obtain b31 b30 b29 b28 b27 b26 b25 b24 b23 b22 b21 b20 b19 b18 b17 b16
          b15 b14 b13 b12 b11 b10 b9 b8 b7 b6 b5 b4 b3 b2 b1 b0
    where b: "bin = [b31, b30, b29, b28, b27, b26, b25, b24, b23, b22, b21, b20, b19, b18, b17,
                     b16, b15, b14, b13, b12, b11, b10, b9, b8, b7, b6, b5, b4, b3, b2, b1, b0]"
    by (rule word_explode)
  show ?thesis
    using ok unfolding decodeOP_IMM_def extractIFields_32 [OF len] op
    by (auto simp add: Let_def b lookupOP_IMM_def substring_def bind_err_def split: option.splits if_splits entry.splits sum.splits prod.splits)
qed

lemma dispatch_bins:
  assumes "length bin = 32" "opcode = drop 25 bin" "opcode \<noteq> OPCODE_BRANCH"
    and "dispatch T config opcode bin = Inr h"
  shows "concat (map bits (h_binFrags h)) = bin"
  using assms(3,4) unfolding dispatch_def
  by (auto split: if_splits
           intro: decodeOP_bins [OF assms(1,2)] decodeOP_FP_bins [OF assms(1,2)]
             decodeAMO_bins [OF assms(1,2)] decodeR4_bins [OF assms(1,2)]
             decodeJALR_bins [OF assms(1,2)] decodeLOAD_bins [OF assms(1,2)]
             decodeOP_IMM_bins [OF assms(1,2)] decodeMISC_MEM_bins [OF assms(1,2)]
             decodeSYSTEM_bins [OF assms(1,2)] decodeSTORE_bins [OF assms(1,2)]
             decodeUType_bins [OF assms(1,2)] decodeJAL_bins [OF assms(1,2)])

section \<open>The claims\<close>

subsection \<open>The binary fragments\<close>

text \<open>
  Claim C1 asks that the bits of the binary fragments, put together in their order, give
  back the 32 bits of the word, for a branch in particular. \<open>decodeBRANCH\<close> builds the
  fragments of \<open>imm[12]\<close> and \<open>imm[11]\<close> and leaves them out of the list it pushes. For the
  word 0xfe000ee3, which is \<open>beq x0, x0, -4\<close>, the binary fragments hold 30 bits: bits 31
  and 7 are in none of them.
\<close>

theorem branch_binFrags_evaluated:
  "(case Decoder rv_tables ''11111110000000000000111011100011'' config_default of
      Inl e \<Rightarrow> False
    | Inr d \<Rightarrow>
        d_asm d = ''beq x0, x0, -4''
        \<and> map field (binFrags d)
            = [''imm[10:5]'', ''rs2'', ''rs1'', ''funct3'', ''imm[4:1]'', ''opcode'']
        \<and> map bits (binFrags d) = [''111111'', ''00000'', ''00000'', ''000'', ''1110'', ''1100011'']
        \<and> length (concat (map bits (binFrags d))) = 30
        \<and> concat (map bits (binFrags d)) \<noteq> ''11111110000000000000111011100011'')"
  by code_simp

text \<open>The same for every branch: the binary fragments of a successful decode are bits 30
  to 8 and bits 6 to 0 of the word.\<close>

lemma branch_binFrags_bits:
  assumes "is_word bin"
    and "bits_of bin 6 0 = OPCODE_BRANCH"
    and "Decoder T bin config = Inr d"
  shows "concat (map bits (binFrags d)) = bits_of bin 30 8 @ bits_of bin 6 0
       \<and> length (concat (map bits (binFrags d))) = 30"
proof -
  have len: "length bin = 32" using assms(1) by (simp add: is_word_def)
  have opc: "getBits bin (pos F_opcode) = Inr OPCODE_BRANCH"
    using getBits_opcode [OF len] assms(2) by simp
  from assms(3) opc obtain h inst where h: "dispatch T config OPCODE_BRANCH bin = Inr h"
    and "ISA T (case h_mne h of None \<Rightarrow> ''undefined'' | Some m \<Rightarrow> m) = Some inst"
    and "d_fmt d = inst_fmt inst"
    and "d_isa d = (case h_isa h of Some i \<Rightarrow> i | None \<Rightarrow> inst_isa inst)"
    and "renderAsm (convertRegToAbi T) (h_asmFrags h) (cfg_ABI config) = Inr (d_asm d)"
    and "asmFrags d = h_asmFrags h"
    and b: "binFrags d = h_binFrags h"
    by (rule Decoder_InrE)
  from len obtain b31 b30 b29 b28 b27 b26 b25 b24 b23 b22 b21 b20 b19 b18 b17 b16
          b15 b14 b13 b12 b11 b10 b9 b8 b7 b6 b5 b4 b3 b2 b1 b0
    where e: "bin = [b31, b30, b29, b28, b27, b26, b25, b24, b23, b22, b21, b20, b19, b18, b17,
                     b16, b15, b14, b13, b12, b11, b10, b9, b8, b7, b6, b5, b4, b3, b2, b1, b0]"
    by (rule word_explode)
  have op: "OPCODE_BRANCH = drop 25 bin"
    using assms(2) len by (simp add: bits_of_def)
  have "concat (map bits (h_binFrags h)) = take 23 (drop 1 bin) @ drop 25 bin"
    using h [unfolded dispatch_BRANCH] unfolding decodeBRANCH_def extractBFields_32 [OF len] op
    by (auto simp add: Let_def e split: option.splits)
  then show ?thesis
    using len unfolding b by (simp add: bits_of_def)
qed

text \<open>Every other handler pushes fragments for all the bits: in a successful decode of a
  word whose opcode is not BRANCH, the bits of the binary fragments, in their order, are
  the word.\<close>

lemma binFrags_partition_other:
  assumes "is_word bin"
    and "bits_of bin 6 0 \<noteq> OPCODE_BRANCH"
    and "Decoder T bin config = Inr d"
  shows "concat (map bits (binFrags d)) = bin"
proof -
  have len: "length bin = 32" using assms(1) by (simp add: is_word_def)
  have opc: "getBits bin (pos F_opcode) = Inr (bits_of bin 6 0)"
    by (rule getBits_opcode [OF len])
  from assms(3) opc obtain h inst where h: "dispatch T config (bits_of bin 6 0) bin = Inr h"
    and "ISA T (case h_mne h of None \<Rightarrow> ''undefined'' | Some m \<Rightarrow> m) = Some inst"
    and "d_fmt d = inst_fmt inst"
    and "d_isa d = (case h_isa h of Some i \<Rightarrow> i | None \<Rightarrow> inst_isa inst)"
    and "renderAsm (convertRegToAbi T) (h_asmFrags h) (cfg_ABI config) = Inr (d_asm d)"
    and "asmFrags d = h_asmFrags h"
    and b: "binFrags d = h_binFrags h"
    by (rule Decoder_InrE)
  have op: "bits_of bin 6 0 = drop 25 bin"
    using len by (simp add: bits_of_def)
  show ?thesis
    unfolding b by (rule dispatch_bins [OF len op assms(2) h])
qed

subsection \<open>The immediate of LUI and AUIPC\<close>

text \<open>
  Claim C2, as amended. For every word with the opcode LUI or AUIPC that decodes
  successfully, the immediate is the last of three assembly fragments; its bits are the
  raw field \<open>imm[31:12]\<close>, not shifted, and its token is the number those 20 bits denote
  in two's complement: the unsigned value of the field when bit 31 is 0, and that value
  less \<open>2 ^ 20\<close> when bit 31 is 1.
\<close>

theorem utype_immediate:
  assumes "is_word bin"
    and "bits_of bin 6 0 = OPCODE_LUI \<or> bits_of bin 6 0 = OPCODE_AUIPC"
    and "Decoder T bin config = Inr d"
  shows "\<exists>f_opcode f_rd f_imm.
           asmFrags d = [f_opcode, f_rd, f_imm]
           \<and> bits f_imm = bits_of bin 31 12
           \<and> asm f_imm = Num (signed_value (bits_of bin 31 12))
           \<and> signed_value (bits_of bin 31 12)
               = (if bits_of bin 31 31 = ''0'' then unsigned_value (bits_of bin 31 12)
                  else unsigned_value (bits_of bin 31 12) - 2 ^ 20)"
proof -
  have len: "length bin = 32" using assms(1) by (simp add: is_word_def)
  define opcode where "opcode = bits_of bin 6 0"
  have opc: "getBits bin (pos F_opcode) = Inr opcode"
    using getBits_opcode [OF len] by (simp add: opcode_def)
  from assms(3) opc obtain h inst where h: "dispatch T config opcode bin = Inr h"
    and "ISA T (case h_mne h of None \<Rightarrow> ''undefined'' | Some m \<Rightarrow> m) = Some inst"
    and "d_fmt d = inst_fmt inst"
    and "d_isa d = (case h_isa h of Some i \<Rightarrow> i | None \<Rightarrow> inst_isa inst)"
    and "renderAsm (convertRegToAbi T) (h_asmFrags h) (cfg_ABI config) = Inr (d_asm d)"
    and a: "asmFrags d = h_asmFrags h"
    and "binFrags d = h_binFrags h"
    by (rule Decoder_InrE)
  have "opcode = OPCODE_LUI \<or> opcode = OPCODE_AUIPC"
    using assms(2) by (simp only: opcode_def)
  then have disp: "dispatch T config opcode bin = decodeUType T opcode bin"
    using dispatch_LUI dispatch_AUIPC by metis
  have imm: "bits_of bin 31 12 = take 20 bin"
    by (simp add: bits_of_def)
  have bits: "list_all is_bit (take 20 bin)"
    using is_word_take_drop [OF assms(1), of 20 0] by simp
  have l20: "length (take 20 bin) = 20"
    using len by simp
  have dec: "decImm (take 20 bin) True = Some (signed_value (take 20 bin))"
    using bits l20 by (intro decImm_signed) auto
  have fr: "h_asmFrags h =
          [Frag (Str (if opcode = OPCODE_AUIPC then ''auipc'' else ''lui'')) opcode
             (fname F_opcode) False,
           Frag (Str (decReg (take 5 (drop 20 bin)) False)) (take 5 (drop 20 bin))
             (fname F_rd) False,
           Frag (num_tok (decImm (take 20 bin) True)) (take 20 bin) (fname F_u_imm_31_12) False]"
    using h unfolding disp
    by (auto simp add: decodeUType_def getBits_32 [OF len] Let_def)
  obtain b rest where br: "bin = b # rest"
    using len by (cases bin) auto
  have "is_bit b" using assms(1) br by (simp add: is_word_def)
  then have b01: "b = CHR ''0'' \<or> b = CHR ''1''" by (simp add: is_bit_def)
  have hd1: "hd (take 20 bin) = b" "bits_of bin 31 31 = [b]"
    using br by (simp_all add: bits_of_def)
  have ne: "take 20 bin \<noteq> []" using l20 by auto
  have hb: "hd (take 20 bin) = CHR ''1'' \<longleftrightarrow> \<not> unsigned_value (take 20 bin) < 2 ^ 19"
    using hd_bit_iff [OF ne] by (simp only: l20) simp
  have sv: "signed_value (take 20 bin)
               = (if bits_of bin 31 31 = ''0'' then unsigned_value (take 20 bin)
                  else unsigned_value (take 20 bin) - 2 ^ 20)"
  proof (cases "b = CHR ''1''")
    case True
    then show ?thesis using hb hd1 by (simp add: signed_value_def len)
  next
    case False
    then have "b = CHR ''0''" using b01 by simp
    then show ?thesis using hb hd1 by (simp add: signed_value_def len)
  qed
  show ?thesis
    using fr dec sv unfolding a imm by (simp add: Frag_def num_tok_def)
qed

theorem utype_immediate_witness:
  "is_word ''10000000000000000000000010110111''
   \<and> bits_of ''10000000000000000000000010110111'' 6 0 = OPCODE_LUI
   \<and> (\<exists>d. Decoder rv_tables ''10000000000000000000000010110111'' config_default = Inr d
          \<and> d_asm d = ''lui x1, -524288''
          \<and> asm (asmFrags d ! 2) = Num (- 524288))"
proof -
  let ?w = "''10000000000000000000000010110111''"
  have w: "is_word ?w"
    by code_simp
  have op: "bits_of ?w 6 0 = OPCODE_LUI"
    by code_simp
  have "map_sum id d_asm (Decoder rv_tables ?w config_default) = Inr ''lui x1, -524288''"
    by code_simp
  then obtain d where d: "Decoder rv_tables ?w config_default = Inr d"
    and a: "d_asm d = ''lui x1, -524288''"
    by (cases "Decoder rv_tables ?w config_default") auto
  have v: "signed_value (bits_of ?w 31 12) = - 524288"
    by code_simp
  from utype_immediate [OF w disjI1 [OF op] d]
  obtain f_opcode f_rd f_imm where "asmFrags d = [f_opcode, f_rd, f_imm]"
    and "asm f_imm = Num (signed_value (bits_of ?w 31 12))"
    by blast
  then have "asm (asmFrags d ! 2) = Num (- 524288)"
    unfolding v by simp
  with w op d a show ?thesis by blast
qed

text \<open>The claim as stated asks for the unsigned value of the field. In 0x800000b7, which is
  \<open>lui x1\<close> with bit 31 set, the field is 524288 and the token is -524288.\<close>

theorem utype_unsigned_counterexample:
  "(case Decoder rv_tables ''10000000000000000000000010110111'' config_default of
      Inl e \<Rightarrow> False
    | Inr d \<Rightarrow>
        asm (asmFrags d ! 2) = Num (- 524288)
        \<and> unsigned_value (bits (asmFrags d ! 2)) = 524288
        \<and> bits (asmFrags d ! 2) = bits_of ''10000000000000000000000010110111'' 31 12
        \<and> d_asm d = ''lui x1, -524288'')"
  by code_simp

subsection \<open>Shifts by an immediate\<close>

text \<open>
  Claim C3. Take a word with the opcode OP-IMM that the first part of the handler finds
  to be a shift. The shift amount is the last of four assembly fragments. It is read from
  the six bits 25 to 20 exactly when the configured instruction set is RV64I or bit 25 is
  1, and from the five bits 24 to 20 otherwise. A shift amount of six bits under RV32I
  fails with the error of a shift out of range; a successful decode with a shift amount
  of six bits reports the instruction set RV64I.
\<close>

theorem op_imm_shift_width:
  assumes "is_word bin"
    and "bits_of bin 6 0 = OPCODE_OP_IMM"
    and "lookupOP_IMM T False (bits_of bin 14 12) (bits_of bin 30 30) = Inr (mne, True)"
  shows "((cfg_ISA config = RV64I \<or> bits_of bin 25 25 = ''1'') \<and> cfg_ISA config = RV32I \<longrightarrow>
            Decoder T bin config
              = Inl (ShiftOutOfRange ''OP-IMM'' (Some (unsigned_value (bits_of bin 25 20)))))
       \<and> (\<forall>d. Decoder T bin config = Inr d \<longrightarrow>
            (\<exists>f_opcode f_rd f_rs1 f_imm.
               asmFrags d = [f_opcode, f_rd, f_rs1, f_imm]
               \<and> (length (bits f_imm) = 6
                    \<longleftrightarrow> (cfg_ISA config = RV64I \<or> bits_of bin 25 25 = ''1''))
               \<and> (if cfg_ISA config = RV64I \<or> bits_of bin 25 25 = ''1''
                  then bits f_imm = bits_of bin 25 20
                       \<and> asm f_imm = Num (unsigned_value (bits_of bin 25 20))
                       \<and> d_isa d = ''RV64I''
                  else bits f_imm = bits_of bin 24 20
                       \<and> asm f_imm = Num (unsigned_value (bits_of bin 24 20)))))"
proof -
  have len: "length bin = 32" using assms(1) by (simp add: is_word_def)
  have opc: "getBits bin (pos F_opcode) = Inr OPCODE_OP_IMM"
    using getBits_opcode [OF len] assms(2) by simp
  have ne: "OPCODE_OP_IMM \<noteq> OPCODE_OP_IMM_32"
    by (simp add: OPCODE_defs)
  have lk: "lookupOP_IMM T (OPCODE_OP_IMM = OPCODE_OP_IMM_32) (take 3 (drop 17 bin))
              (take 1 (drop 1 bin)) = Inr (mne, True)"
    using assms(3) ne by (simp add: bits_of_def)
  have b25: "bits_of bin 25 25 = take 1 (drop 6 bin)"
    and b5: "bits_of bin 24 20 = take 5 (drop 7 bin)"
    by (simp_all add: bits_of_def)
  have "take (1 + 5) (drop 6 bin) = take 1 (drop 6 bin) @ take 5 (drop 1 (drop 6 bin))"
    by (rule take_add)
  then have b6: "bits_of bin 25 20 = take 1 (drop 6 bin) @ take 5 (drop 7 bin)"
    by (simp add: bits_of_def)
  have l6: "length (bits_of bin 25 20) = 6" and l5: "length (bits_of bin 24 20) = 5"
    using len by (simp_all add: bits_of_def)
  have d6: "decImm (bits_of bin 25 20) False = Some (unsigned_value (bits_of bin 25 20))"
    using is_word_take_drop [OF assms(1), of 6 6] l6
    by (intro decImm_unsigned) (auto simp: bits_of_def)
  have d5: "decImm (bits_of bin 24 20) False = Some (unsigned_value (bits_of bin 24 20))"
    using is_word_take_drop [OF assms(1), of 5 7] l5
    by (intro decImm_unsigned) (auto simp: bits_of_def)
  show ?thesis
  proof (intro conjI allI impI)
    assume a: "(cfg_ISA config = RV64I \<or> bits_of bin 25 25 = ''1'') \<and> cfg_ISA config = RV32I"
    then have bit: "take 1 (drop 6 bin) = ''1''" and cfg: "cfg_ISA config = RV32I"
      by (auto simp: b25)
    have "decodeOP_IMM T config OPCODE_OP_IMM bin =
            Inl (ShiftOutOfRange ''OP-IMM'' (decImm (bits_of bin 25 20) False))"
      unfolding b6 by (rule decodeOP_IMM_shift_range [OF len lk ne bit cfg])
    then show "Decoder T bin config
                 = Inl (ShiftOutOfRange ''OP-IMM'' (Some (unsigned_value (bits_of bin 25 20))))"
      using Decoder_Inl [OF opc] by (simp add: dispatch_OP_IMM d6)
  next
    fix d
    assume ok: "Decoder T bin config = Inr d"
    from ok opc obtain h inst where h: "dispatch T config OPCODE_OP_IMM bin = Inr h"
      and "ISA T (case h_mne h of None \<Rightarrow> ''undefined'' | Some m \<Rightarrow> m) = Some inst"
      and "d_fmt d = inst_fmt inst"
      and isa: "d_isa d = (case h_isa h of Some i \<Rightarrow> i | None \<Rightarrow> inst_isa inst)"
      and "renderAsm (convertRegToAbi T) (h_asmFrags h) (cfg_ABI config) = Inr (d_asm d)"
      and a: "asmFrags d = h_asmFrags h"
      and "binFrags d = h_binFrags h"
      by (rule Decoder_InrE)
    note h = h [unfolded dispatch_OP_IMM]
    show "\<exists>f_opcode f_rd f_rs1 f_imm.
               asmFrags d = [f_opcode, f_rd, f_rs1, f_imm]
               \<and> (length (bits f_imm) = 6
                    \<longleftrightarrow> (cfg_ISA config = RV64I \<or> bits_of bin 25 25 = ''1''))
               \<and> (if cfg_ISA config = RV64I \<or> bits_of bin 25 25 = ''1''
                  then bits f_imm = bits_of bin 25 20
                       \<and> asm f_imm = Num (unsigned_value (bits_of bin 25 20))
                       \<and> d_isa d = ''RV64I''
                  else bits f_imm = bits_of bin 24 20
                       \<and> asm f_imm = Num (unsigned_value (bits_of bin 24 20)))"
    proof (cases "cfg_ISA config = RV64I \<or> bits_of bin 25 25 = ''1''")
      case True
      then have c: "cfg_ISA config = RV64I \<or> take 1 (drop 6 bin) = ''1''"
        by (simp add: b25)
      from decodeOP_IMM_shift_6 [OF len lk ne c h]
      have "h_isa h = Some ''RV64I''"
        and "h_asmFrags h =
           [Frag (mne_tok mne) OPCODE_OP_IMM (fname F_opcode) False,
            Frag (Str (decReg (take 5 (drop 20 bin)) False)) (take 5 (drop 20 bin))
              (fname F_rd) False,
            Frag (Str (decReg (take 5 (drop 12 bin)) False)) (take 5 (drop 12 bin))
              (fname F_rs1) False,
            Frag (num_tok (decImm (bits_of bin 25 20) False))
              (bits_of bin 25 20) (fname F_i_shamt_5_0) False]"
        unfolding b6 by simp_all
      then show ?thesis
        using True l6 isa unfolding a by (simp add: Frag_def num_tok_def d6)
    next
      case False
      then have c: "\<not> (OPCODE_OP_IMM \<noteq> OPCODE_OP_IMM_32
                       \<and> (cfg_ISA config = RV64I \<or> take 1 (drop 6 bin) = ''1''))"
        by (simp add: b25)
      from decodeOP_IMM_shift_5 [OF len lk c h]
      have "h_asmFrags h =
           [Frag (mne_tok mne) OPCODE_OP_IMM (fname F_opcode) False,
            Frag (Str (decReg (take 5 (drop 20 bin)) False)) (take 5 (drop 20 bin))
              (fname F_rd) False,
            Frag (Str (decReg (take 5 (drop 12 bin)) False)) (take 5 (drop 12 bin))
              (fname F_rs1) False,
            Frag (num_tok (decImm (bits_of bin 24 20) False))
              (bits_of bin 24 20) (fname F_i_shamt) False]"
        unfolding b5 by simp
      then show ?thesis
        using False l5 unfolding a by (simp add: Frag_def num_tok_def d5)
    qed
  qed
qed

text \<open>In the instance of the tables the shifts are \<open>funct3 = 001\<close> (\<open>slli\<close>, \<open>slliw\<close>) and
  \<open>funct3 = 101\<close> (\<open>srli\<close>, \<open>srai\<close>, \<open>srliw\<close>, \<open>sraiw\<close>), for both opcodes.\<close>

lemma shift_words_instance:
  "map (\<lambda>f3. map_sum (\<lambda>e. ()) id (lookupOP_IMM rv_tables False f3 ''1''))
     [''000'', ''001'', ''010'', ''011'', ''100'', ''101'', ''110'', ''111'']
   = [Inr (Some ''addi'', False), Inr (Some ''slli'', True), Inr (Some ''slti'', False),
      Inr (Some ''sltiu'', False), Inr (Some ''xori'', False), Inr (Some ''srai'', True),
      Inr (Some ''ori'', False), Inr (Some ''andi'', False)]
   \<and> map (\<lambda>f3. map_sum (\<lambda>e. ()) id (lookupOP_IMM rv_tables True f3 ''0''))
     [''000'', ''001'', ''010'', ''011'', ''100'', ''101'', ''110'', ''111'']
   = [Inr (Some ''addiw'', False), Inr (Some ''slliw'', True), Inl (), Inl (), Inl (),
      Inr (Some ''srliw'', True), Inl (), Inl ()]"
  by code_simp

text \<open>The word 0x02809093 is \<open>slli x1, x1, 40\<close>, with bit 25 set: it decodes under RV64I
  and is out of range under RV32I. The word 0x01f09093, \<open>slli x1, x1, 31\<close>, has a shift
  amount of five bits under RV32I.\<close>

theorem op_imm_shift_width_witness:
  "is_word ''00000010100000001001000010010011''
   \<and> bits_of ''00000010100000001001000010010011'' 6 0 = OPCODE_OP_IMM
   \<and> lookupOP_IMM rv_tables False (bits_of ''00000010100000001001000010010011'' 14 12)
        (bits_of ''00000010100000001001000010010011'' 30 30) = Inr (Some ''slli'', True)
   \<and> bits_of ''00000010100000001001000010010011'' 25 25 = ''1''
   \<and> Decoder rv_tables ''00000010100000001001000010010011'' config_default
        = Inl (ShiftOutOfRange ''OP-IMM'' (Some 40))
   \<and> (\<exists>d. Decoder rv_tables ''00000010100000001001000010010011'' config_rv64 = Inr d
          \<and> d_asm d = ''slli x1, x1, 40'' \<and> d_isa d = ''RV64I''
          \<and> bits (asmFrags d ! 3) = ''101000'' \<and> asm (asmFrags d ! 3) = Num 40)
   \<and> is_word ''00000001111100001001000010010011''
   \<and> bits_of ''00000001111100001001000010010011'' 25 25 = ''0''
   \<and> (\<exists>d. Decoder rv_tables ''00000001111100001001000010010011'' config_default = Inr d
          \<and> d_asm d = ''slli x1, x1, 31'' \<and> d_isa d = ''RV32I''
          \<and> bits (asmFrags d ! 3) = ''11111'' \<and> asm (asmFrags d ! 3) = Num 31)"
proof -
  let ?w = "''00000010100000001001000010010011''"
  let ?v = "''00000001111100001001000010010011''"
  have w: "is_word ?w" and v: "is_word ?v"
    by code_simp+
  have opw: "bits_of ?w 6 0 = OPCODE_OP_IMM" and opv: "bits_of ?v 6 0 = OPCODE_OP_IMM"
    by code_simp+
  have lkw: "lookupOP_IMM rv_tables False (bits_of ?w 14 12) (bits_of ?w 30 30)
               = Inr (Some ''slli'', True)"
    and lkv: "lookupOP_IMM rv_tables False (bits_of ?v 14 12) (bits_of ?v 30 30)
               = Inr (Some ''slli'', True)"
    by code_simp+
  have bw: "bits_of ?w 25 25 = ''1''" and bv: "bits_of ?v 25 25 = ''0''"
    by code_simp+
  have vw: "unsigned_value (bits_of ?w 25 20) = 40" "bits_of ?w 25 20 = ''101000''"
    and vv: "unsigned_value (bits_of ?v 24 20) = 31" "bits_of ?v 24 20 = ''11111''"
    by code_simp+
  have c32: "cfg_ISA config_default = RV32I" and c64: "cfg_ISA config_rv64 = RV64I"
    by (simp_all add: config_default_def config_rv64_def)
  note t32 = op_imm_shift_width [OF w opw lkw, of config_default]
  have "(cfg_ISA config_default = RV64I \<or> bits_of ?w 25 25 = ''1'')
          \<and> cfg_ISA config_default = RV32I"
    using bw c32 by simp
  with t32 have e: "Decoder rv_tables ?w config_default
                      = Inl (ShiftOutOfRange ''OP-IMM'' (Some 40))"
    unfolding vw(1) by blast
  have "map_sum id d_asm (Decoder rv_tables ?w config_rv64) = Inr ''slli x1, x1, 40''"
    by code_simp
  then obtain d where d: "Decoder rv_tables ?w config_rv64 = Inr d"
    and a: "d_asm d = ''slli x1, x1, 40''"
    by (cases "Decoder rv_tables ?w config_rv64") auto
  from op_imm_shift_width [OF w opw lkw, of config_rv64] d c64
  obtain f_opcode f_rd f_rs1 f_imm where "asmFrags d = [f_opcode, f_rd, f_rs1, f_imm]"
    and "bits f_imm = bits_of ?w 25 20" "asm f_imm = Num (unsigned_value (bits_of ?w 25 20))"
    and i64: "d_isa d = ''RV64I''"
    by auto
  then have f: "bits (asmFrags d ! 3) = ''101000''" "asm (asmFrags d ! 3) = Num 40"
    using vw by simp_all
  have "map_sum id (\<lambda>d. (d_asm d, d_isa d)) (Decoder rv_tables ?v config_default)
          = Inr (''slli x1, x1, 31'', ''RV32I'')"
    by code_simp
  then obtain d' where d': "Decoder rv_tables ?v config_default = Inr d'"
    and a': "d_asm d' = ''slli x1, x1, 31''" "d_isa d' = ''RV32I''"
    by (cases "Decoder rv_tables ?v config_default") auto
  have n5: "\<not> (cfg_ISA config_default = RV64I \<or> bits_of ?v 25 25 = ''1'')"
    using bv c32 by simp
  from op_imm_shift_width [OF v opv lkv, of config_default] d'
  obtain g_opcode g_rd g_rs1 g_imm where "asmFrags d' = [g_opcode, g_rd, g_rs1, g_imm]"
    and "if cfg_ISA config_default = RV64I \<or> bits_of ?v 25 25 = ''1''
         then bits g_imm = bits_of ?v 25 20
              \<and> asm g_imm = Num (unsigned_value (bits_of ?v 25 20)) \<and> d_isa d' = ''RV64I''
         else bits g_imm = bits_of ?v 24 20
              \<and> asm g_imm = Num (unsigned_value (bits_of ?v 24 20))"
    by blast
  with n5 have f': "bits (asmFrags d' ! 3) = ''11111''" "asm (asmFrags d' ! 3) = Num 31"
    using vv by simp_all
  show ?thesis
    using w opw lkw bw e d a i64 f v bv d' a' f' by blast
qed

text \<open>
  Claim C4. Take a word with the opcode OP-IMM-32 that the first part of the handler
  finds to be a shift (\<open>slliw\<close>, \<open>srliw\<close>, \<open>sraiw\<close>). When it decodes, the shift amount
  is read from the five bits 24 to 20 only. When bit 25 is 1 it does not decode: the
  comparison of the upper seven bits with the pattern of the shift type rejects it.
\<close>

theorem op_imm_32_shift:
  assumes "is_word bin"
    and "bits_of bin 6 0 = OPCODE_OP_IMM_32"
    and "lookupOP_IMM T True (bits_of bin 14 12) (bits_of bin 30 30) = Inr (mne, True)"
  shows "(bits_of bin 25 25 = ''1'' \<longrightarrow> Decoder T bin config = Inl (BadShtyp ''OP-IMM-32''))
       \<and> (\<forall>d. Decoder T bin config = Inr d \<longrightarrow>
            (\<exists>f_opcode f_rd f_rs1 f_imm.
               asmFrags d = [f_opcode, f_rd, f_rs1, f_imm]
               \<and> bits f_imm = bits_of bin 24 20
               \<and> asm f_imm = Num (unsigned_value (bits_of bin 24 20))))"
proof -
  have len: "length bin = 32" using assms(1) by (simp add: is_word_def)
  have opc: "getBits bin (pos F_opcode) = Inr OPCODE_OP_IMM_32"
    using getBits_opcode [OF len] assms(2) by simp
  have lk: "lookupOP_IMM T True (take 3 (drop 17 bin)) (take 1 (drop 1 bin)) = Inr (mne, True)"
    using assms(3) by (simp add: bits_of_def)
  then have lk': "lookupOP_IMM T (OPCODE_OP_IMM_32 = OPCODE_OP_IMM_32) (take 3 (drop 17 bin))
                    (take 1 (drop 1 bin)) = Inr (mne, True)"
    by simp
  have b25: "bits_of bin 25 25 = take 1 (drop 6 bin)"
    and b5: "bits_of bin 24 20 = take 5 (drop 7 bin)"
    by (simp_all add: bits_of_def)
  have l5: "length (bits_of bin 24 20) = 5"
    using len by (simp add: bits_of_def)
  have d5: "decImm (bits_of bin 24 20) False = Some (unsigned_value (bits_of bin 24 20))"
    using is_word_take_drop [OF assms(1), of 5 7] l5
    by (intro decImm_unsigned) (auto simp: bits_of_def)
  show ?thesis
  proof (intro conjI allI impI)
    assume "bits_of bin 25 25 = ''1''"
    then have bit: "take 1 (drop 6 bin) = ''1''" by (simp add: b25)
    show "Decoder T bin config = Inl (BadShtyp ''OP-IMM-32'')"
      using Decoder_Inl [OF opc] decodeOP_IMM_32_shamt_5 [OF len lk bit]
      by (simp add: dispatch_OP_IMM_32)
  next
    fix d
    assume ok: "Decoder T bin config = Inr d"
    from ok opc obtain h inst where h: "dispatch T config OPCODE_OP_IMM_32 bin = Inr h"
      and "ISA T (case h_mne h of None \<Rightarrow> ''undefined'' | Some m \<Rightarrow> m) = Some inst"
      and "d_fmt d = inst_fmt inst"
      and "d_isa d = (case h_isa h of Some i \<Rightarrow> i | None \<Rightarrow> inst_isa inst)"
      and "renderAsm (convertRegToAbi T) (h_asmFrags h) (cfg_ABI config) = Inr (d_asm d)"
      and a: "asmFrags d = h_asmFrags h"
      and "binFrags d = h_binFrags h"
      by (rule Decoder_InrE)
    note h = h [unfolded dispatch_OP_IMM_32]
    have c: "\<not> (OPCODE_OP_IMM_32 \<noteq> OPCODE_OP_IMM_32
                 \<and> (cfg_ISA config = RV64I \<or> take 1 (drop 6 bin) = ''1''))"
      by simp
    from decodeOP_IMM_shift_5 [OF len lk' c h]
    have "h_asmFrags h =
           [Frag (mne_tok mne) OPCODE_OP_IMM_32 (fname F_opcode) False,
            Frag (Str (decReg (take 5 (drop 20 bin)) False)) (take 5 (drop 20 bin))
              (fname F_rd) False,
            Frag (Str (decReg (take 5 (drop 12 bin)) False)) (take 5 (drop 12 bin))
              (fname F_rs1) False,
            Frag (num_tok (decImm (bits_of bin 24 20) False))
              (bits_of bin 24 20) (fname F_i_shamt) False]"
      unfolding b5 by simp
    then show "\<exists>f_opcode f_rd f_rs1 f_imm.
               asmFrags d = [f_opcode, f_rd, f_rs1, f_imm]
               \<and> bits f_imm = bits_of bin 24 20
               \<and> asm f_imm = Num (unsigned_value (bits_of bin 24 20))"
      unfolding a by (simp add: Frag_def num_tok_def d5)
  qed
qed

text \<open>The word 0x0050909b is \<open>slliw x1, x1, 5\<close>; 0x0250909b is the same word with bit 25
  set.\<close>

theorem op_imm_32_shift_witness:
  "is_word ''00000000010100001001000010011011''
   \<and> bits_of ''00000000010100001001000010011011'' 6 0 = OPCODE_OP_IMM_32
   \<and> lookupOP_IMM rv_tables True (bits_of ''00000000010100001001000010011011'' 14 12)
        (bits_of ''00000000010100001001000010011011'' 30 30) = Inr (Some ''slliw'', True)
   \<and> (\<exists>d. Decoder rv_tables ''00000000010100001001000010011011'' config_rv64 = Inr d
          \<and> d_asm d = ''slliw x1, x1, 5''
          \<and> bits (asmFrags d ! 3) = ''00101'' \<and> asm (asmFrags d ! 3) = Num 5)
   \<and> is_word ''00000010010100001001000010011011''
   \<and> bits_of ''00000010010100001001000010011011'' 6 0 = OPCODE_OP_IMM_32
   \<and> lookupOP_IMM rv_tables True (bits_of ''00000010010100001001000010011011'' 14 12)
        (bits_of ''00000010010100001001000010011011'' 30 30) = Inr (Some ''slliw'', True)
   \<and> bits_of ''00000010010100001001000010011011'' 25 25 = ''1''
   \<and> Decoder rv_tables ''00000010010100001001000010011011'' config_rv64
        = Inl (BadShtyp ''OP-IMM-32'')"
proof -
  let ?w = "''00000000010100001001000010011011''"
  let ?v = "''00000010010100001001000010011011''"
  have w: "is_word ?w" and v: "is_word ?v"
    by code_simp+
  have opw: "bits_of ?w 6 0 = OPCODE_OP_IMM_32" and opv: "bits_of ?v 6 0 = OPCODE_OP_IMM_32"
    by code_simp+
  have lkw: "lookupOP_IMM rv_tables True (bits_of ?w 14 12) (bits_of ?w 30 30)
               = Inr (Some ''slliw'', True)"
    and lkv: "lookupOP_IMM rv_tables True (bits_of ?v 14 12) (bits_of ?v 30 30)
               = Inr (Some ''slliw'', True)"
    by code_simp+
  have bv: "bits_of ?v 25 25 = ''1''"
    by code_simp
  have vw: "unsigned_value (bits_of ?w 24 20) = 5" "bits_of ?w 24 20 = ''00101''"
    by code_simp+
  from op_imm_32_shift [OF v opv lkv, of config_rv64] bv
  have e: "Decoder rv_tables ?v config_rv64 = Inl (BadShtyp ''OP-IMM-32'')"
    by blast
  have "map_sum id d_asm (Decoder rv_tables ?w config_rv64) = Inr ''slliw x1, x1, 5''"
    by code_simp
  then obtain d where d: "Decoder rv_tables ?w config_rv64 = Inr d"
    and a: "d_asm d = ''slliw x1, x1, 5''"
    by (cases "Decoder rv_tables ?w config_rv64") auto
  from op_imm_32_shift [OF w opw lkw, of config_rv64] d
  obtain f_opcode f_rd f_rs1 f_imm where "asmFrags d = [f_opcode, f_rd, f_rs1, f_imm]"
    and "bits f_imm = bits_of ?w 24 20" "asm f_imm = Num (unsigned_value (bits_of ?w 24 20))"
    by blast
  then have f: "bits (asmFrags d ! 3) = ''00101''" "asm (asmFrags d ! 3) = Num 5"
    using vw by simp_all
  show ?thesis
    using w opw lkw d a f v opv lkv bv e by blast
qed

subsection \<open>Bit slices\<close>

text \<open>
  Claim C5, as amended. On a word of 32 characters, \<open>getBits\<close> fails, with its
  position error, exactly when the width is negative or the high bit is 32 or more.
  When the slice lies inside the word (\<open>0 \<le> width \<le> high + 1\<close> and \<open>high < 32\<close>) it
  returns the \<open>width\<close> characters of the bits \<open>high\<close> down to \<open>high - width + 1\<close>, the
  empty text for the width 0. When the slice would begin below bit 0 it returns the bits
  \<open>high\<close> down to 0.
\<close>

theorem getBits_slice:
  assumes "length bin = 32"
  shows "(\<forall>e. getBits bin (high, width) = Inl e
              \<longleftrightarrow> (e = PositionError \<and> (width < 0 \<or> 32 \<le> high)))
       \<and> (0 \<le> width \<and> width \<le> high + 1 \<and> high < 32 \<longrightarrow>
            (\<exists>s. getBits bin (high, width) = Inr s \<and> length s = nat width
                 \<and> (\<forall>i < nat width. s ! i = bin ! (nat (31 - high) + i))))
       \<and> (0 \<le> high \<and> high < 32 \<and> high + 1 < width \<longrightarrow>
            getBits bin (high, width) = Inr (drop (nat (31 - high)) bin))"
proof (intro conjI allI impI)
  fix e
  show "getBits bin (high, width) = Inl e \<longleftrightarrow> (e = PositionError \<and> (width < 0 \<or> 32 \<le> high))"
    using assms by (auto simp: getBits_def Let_def)
next
  assume a: "0 \<le> width \<and> width \<le> high + 1 \<and> high < 32"
  then have g: "getBits bin (high, width) = Inr (take (nat width) (drop (nat (31 - high)) bin))"
    using assms by (intro getBits_32) auto
  have l: "length (take (nat width) (drop (nat (31 - high)) bin)) = nat width"
    using a assms by auto
  show "\<exists>s. getBits bin (high, width) = Inr s \<and> length s = nat width
           \<and> (\<forall>i < nat width. s ! i = bin ! (nat (31 - high) + i))"
    using g l a assms by (intro exI [of _ "take (nat width) (drop (nat (31 - high)) bin)"]) auto
next
  assume "0 \<le> high \<and> high < 32 \<and> high + 1 < width"
  then show "getBits bin (high, width) = Inr (drop (nat (31 - high)) bin)"
    using assms by (auto simp: getBits_def substring_def Let_def min_def max_def)
qed

theorem getBits_slice_witness:
  "length ''00000000110001011000010100110011'' = 32
   \<and> (0 \<le> (5::int) \<and> (5::int) \<le> 11 + 1 \<and> (11::int) < 32)
   \<and> (\<exists>s. getBits ''00000000110001011000010100110011'' (11, 5) = Inr s \<and> length s = nat 5
          \<and> (\<forall>i < nat 5. s ! i = ''00000000110001011000010100110011'' ! (nat (31 - 11) + i)))
   \<and> getBits ''00000000110001011000010100110011'' (11, 5) = Inr ''01010''"
proof -
  let ?w = "''00000000110001011000010100110011''"
  have len: "length ?w = 32" by simp
  have rng: "0 \<le> (5::int) \<and> (5::int) \<le> 11 + 1 \<and> (11::int) < 32" by simp
  have "0 \<le> (5::int) \<and> (5::int) \<le> 11 + 1 \<and> (11::int) < 32 \<longrightarrow>
          (\<exists>s. getBits ?w (11, 5) = Inr s \<and> length s = nat 5
               \<and> (\<forall>i < nat 5. s ! i = ?w ! (nat (31 - 11) + i)))"
    by (rule conjunct1 [OF conjunct2 [OF getBits_slice [OF len, of 11 5]]])
  then have ex: "\<exists>s. getBits ?w (11, 5) = Inr s \<and> length s = nat 5
                  \<and> (\<forall>i < nat 5. s ! i = ?w ! (nat (31 - 11) + i))"
    using rng by (rule mp)
  have ev: "getBits ?w (11, 5) = Inr ''01010''"
    by (simp add: getBits_def substring_def)
  show ?thesis
    by (rule conjI [OF len conjI [OF rng conjI [OF ex ev]]])
qed

text \<open>The claim as stated asks for an error when the width is 0 and when the slice begins
  below bit 0; the code returns a text in both cases.\<close>

theorem getBits_malformed_counterexample:
  "getBits ''00000000110001011000010100110011'' (6, 0) = Inr []
   \<and> getBits ''00000000110001011000010100110011'' (3, 7) = Inr ''0011''"
  by (simp add: getBits_def substring_def)

subsection \<open>Branch offsets\<close>

text \<open>
  Claim C6. For every word with the opcode BRANCH that decodes successfully, the offset
  operand is the last of four assembly fragments; its bits are \<open>imm_12\<close>, \<open>imm_11\<close>,
  \<open>imm_10_5\<close>, \<open>imm_4_1\<close> and a closing zero, 13 bits in all, and its token is the
  number those bits denote in two's complement. The word 0xfe000ee3 gives the offset -4.
\<close>

theorem branch_offset:
  assumes "is_word bin"
    and "bits_of bin 6 0 = OPCODE_BRANCH"
    and "Decoder T bin config = Inr d"
  shows "\<exists>f_opcode f_rs1 f_rs2 f_imm.
           asmFrags d = [f_opcode, f_rs1, f_rs2, f_imm]
           \<and> bits f_imm = branch_imm bin \<and> length (branch_imm bin) = 13
           \<and> asm f_imm = Num (signed_value (branch_imm bin))"
proof -
  have len: "length bin = 32" using assms(1) by (simp add: is_word_def)
  have opc: "getBits bin (pos F_opcode) = Inr OPCODE_BRANCH"
    using assms(2) getBits_32 [OF len, of 7 6] by (simp add: bits_of_def)
  from assms(3) opc obtain h inst where h: "dispatch T config OPCODE_BRANCH bin = Inr h"
    and "ISA T (case h_mne h of None \<Rightarrow> ''undefined'' | Some m \<Rightarrow> m) = Some inst"
    and "d_fmt d = inst_fmt inst"
    and "d_isa d = (case h_isa h of Some i \<Rightarrow> i | None \<Rightarrow> inst_isa inst)"
    and "renderAsm (convertRegToAbi T) (h_asmFrags h) (cfg_ABI config) = Inr (d_asm d)"
    and a: "asmFrags d = h_asmFrags h"
    and "binFrags d = h_binFrags h"
    by (rule Decoder_InrE)
  note disp = dispatch_BRANCH [of T config bin]
  have imm: "branch_imm bin
               = take 1 bin @ take 1 (drop 24 bin) @ take 6 (drop 1 bin) @ take 4 (drop 20 bin) @ ''0''"
    by (simp add: branch_imm_def bits_of_def)
  have bits: "list_all is_bit (branch_imm bin)"
    unfolding imm using is_word_take_drop [OF assms(1)] is_word_take_drop [OF assms(1), of _ 0]
    by (simp add: is_bit_def)
  have l13: "length (branch_imm bin) = 13"
    unfolding imm using len by simp
  have dec: "decImm (branch_imm bin) True = Some (signed_value (branch_imm bin))"
    using bits l13 by (intro decImm_signed) auto
  obtain m where m: "ISA_BRANCH T (take 3 (drop 17 bin)) = Some m"
    using h unfolding disp
    by (cases "ISA_BRANCH T (take 3 (drop 17 bin))")
       (simp_all add: decodeBRANCH_def extractBFields_32 [OF len] Let_def)
  have "h_asmFrags h =
          [Frag (Str m) OPCODE_BRANCH (fname F_opcode) False,
           Frag (Str (decReg (take 5 (drop 12 bin)) False)) (take 5 (drop 12 bin)) (fname F_rs1) False,
           Frag (Str (decReg (take 5 (drop 7 bin)) False)) (take 5 (drop 7 bin)) (fname F_rs2) False,
           Frag (num_tok (decImm (branch_imm bin) True)) (branch_imm bin) ''imm'' False]"
    using h unfolding disp
    by (auto simp add: decodeBRANCH_def extractBFields_32 [OF len] Let_def m imm)
  then show ?thesis
    using dec l13 unfolding a by (simp add: Frag_def num_tok_def)
qed


theorem branch_offset_witness:
  "is_word ''11111110000000000000111011100011''
   \<and> bits_of ''11111110000000000000111011100011'' 6 0 = OPCODE_BRANCH
   \<and> (\<exists>d. Decoder rv_tables ''11111110000000000000111011100011'' config_default = Inr d
          \<and> d_asm d = ''beq x0, x0, -4''
          \<and> asm (asmFrags d ! 3) = Num (- 4))"
proof -
  let ?w = "''11111110000000000000111011100011''"
  have w: "is_word ?w"
    by (simp add: is_word_def is_bit_def)
  have op: "bits_of ?w 6 0 = OPCODE_BRANCH"
    by (simp add: bits_of_def OPCODE_BRANCH_def)
  have "map_sum id d_asm (Decoder rv_tables ?w config_default) = Inr ''beq x0, x0, -4''"
    by code_simp
  then obtain d where d: "Decoder rv_tables ?w config_default = Inr d"
    and a: "d_asm d = ''beq x0, x0, -4''"
    by (cases "Decoder rv_tables ?w config_default") auto
  have v: "signed_value (branch_imm ?w) = - 4"
    by code_simp
  from branch_offset [OF w op d] v have "asm (asmFrags d ! 3) = Num (- 4)"
    by auto
  with w op d a show ?thesis by blast
qed

subsection \<open>Control and status registers\<close>

text \<open>
  Claim C7. The Zicsr family are the words with the opcode SYSTEM whose \<open>funct3\<close> the
  table maps to a mnemonic (the trap family, at \<open>funct3 = 000\<close>, is mapped to a further
  table). For every such word that decodes successfully the operands are \<open>rd\<close>, \<open>csr\<close>
  and the source. The source is the integer register \<open>x\<close> with the number of bits 19 to
  15 when bit 14, the first bit of \<open>funct3\<close>, is 0, and the unsigned number of these five
  bits when it is 1. The \<open>csr\<close> operand is a name that the table lists for the value of
  bits 31 to 20 when there is one, and otherwise \<open>0x\<close> followed by the three lowercase
  hexadecimal digits of that value.
\<close>

theorem zicsr_operands:
  assumes "is_word bin"
    and "bits_of bin 6 0 = OPCODE_SYSTEM"
    and "ISA_SYSTEM T (bits_of bin 14 12) = Some (Mne m)"
    and "Decoder T bin config = Inr d"
  shows "\<exists>f_opcode f_rd f_csr f_src.
           asmFrags d = [f_opcode, f_rd, f_csr, f_src]
           \<and> bits f_csr = bits_of bin 31 20 \<and> bits f_src = bits_of bin 19 15
           \<and> (if bits_of bin 14 14 = ''0''
              then asm f_src = Str (CHR ''x'' # toString 10 (unsigned_value (bits_of bin 19 15)))
              else asm f_src = Num (unsigned_value (bits_of bin 19 15)))
           \<and> 0 \<le> unsigned_value (bits_of bin 19 15) \<and> unsigned_value (bits_of bin 19 15) \<le> 31
           \<and> (if unsigned_value (bits_of bin 31 20) \<in> snd ` set (CSR T)
              then \<exists>n. asm f_csr = Str n \<and> (n, unsigned_value (bits_of bin 31 20)) \<in> set (CSR T)
              else asm f_csr = Str (''0x'' @ hex3 (unsigned_value (bits_of bin 31 20))))
           \<and> length (hex3 (unsigned_value (bits_of bin 31 20))) = 3
           \<and> list_all (\<lambda>c. c \<in> set ''0123456789abcdef'')
                 (hex3 (unsigned_value (bits_of bin 31 20)))"
proof -
  have len: "length bin = 32" using assms(1) by (simp add: is_word_def)
  have opc: "getBits bin (pos F_opcode) = Inr OPCODE_SYSTEM"
    using getBits_opcode [OF len] assms(2) by simp
  from assms(4) opc obtain h inst where h: "dispatch T config OPCODE_SYSTEM bin = Inr h"
    and "ISA T (case h_mne h of None \<Rightarrow> ''undefined'' | Some m \<Rightarrow> m) = Some inst"
    and "d_fmt d = inst_fmt inst"
    and "d_isa d = (case h_isa h of Some i \<Rightarrow> i | None \<Rightarrow> inst_isa inst)"
    and "renderAsm (convertRegToAbi T) (h_asmFrags h) (cfg_ABI config) = Inr (d_asm d)"
    and a: "asmFrags d = h_asmFrags h"
    and "binFrags d = h_binFrags h"
    by (rule Decoder_InrE)
  note h = h [unfolded dispatch_SYSTEM]
  have b: "bits_of bin 31 20 = take 12 bin" "bits_of bin 19 15 = take 5 (drop 12 bin)"
    "bits_of bin 14 12 = take 3 (drop 17 bin)" "bits_of bin 14 14 = take 1 (drop 17 bin)"
    by (simp_all add: bits_of_def)
  have tm: "ISA_SYSTEM T (take 3 (drop 17 bin)) = Some (Mne m)"
    using assms(3) by (simp only: b)
  define csr where "csr = take 12 bin"
  define rs1 where "rs1 = take 5 (drop 12 bin)"
  define funct3 where "funct3 = take 3 (drop 17 bin)"
  define rd where "rd = take 5 (drop 20 bin)"
  have fr: "h_asmFrags h =
          [Frag (Str m) OPCODE_SYSTEM (fname F_opcode) False,
           Frag (Str (decReg rd False)) rd (fname F_rd) False,
           Frag (Str (decCSR (CSR T) csr)) csr (fname F_i_csr) False,
           Frag (if char_is funct3 0 CHR ''0'' then Str (decReg rs1 False)
                 else num_tok (decImm rs1 False)) rs1
             (if char_is funct3 0 CHR ''0'' then fname F_rs1 else fname F_i_imm_4_0) False]"
    using tm h unfolding decodeSYSTEM_def extractIFields_32 [OF len]
    by (auto simp add: Let_def csr_def rs1_def funct3_def rd_def)
  have lc: "list_all is_bit csr" "length csr = 12"
    using is_word_take_drop [OF assms(1), of 12 0] len by (simp_all add: csr_def)
  have lr: "list_all is_bit rs1" "length rs1 = 5"
    using is_word_take_drop [OF assms(1), of 5 12] len by (simp_all add: rs1_def)
  have ne: "rs1 \<noteq> []" using lr(2) by auto
  have rng: "0 \<le> unsigned_value rs1" "unsigned_value rs1 \<le> 31"
    using unsigned_value_range [of rs1] lr(2) by simp_all
  have reg: "decReg rs1 False = CHR ''x'' # toString 10 (unsigned_value rs1)"
    using decReg_bits [OF lr(1) ne, of False] by simp
  have imm: "decImm rs1 False = Some (unsigned_value rs1)"
    by (rule decImm_unsigned [OF lr(1) ne])
  from len obtain c0 rest where c0: "drop 17 bin = c0 # rest"
    by (cases "drop 17 bin") auto
  have f0: "char_is funct3 0 CHR ''0'' \<longleftrightarrow> bits_of bin 14 14 = ''0''"
    by (simp add: char_is_def funct3_def b c0)
  have cs: "if unsigned_value csr \<in> snd ` set (CSR T)
            then \<exists>n. decCSR (CSR T) csr = n \<and> (n, unsigned_value csr) \<in> set (CSR T)
            else decCSR (CSR T) csr = ''0x'' @ hex3 (unsigned_value csr)"
  proof (cases "find (\<lambda>e. snd e = unsigned_value csr) (CSR T)")
    case None
    then have "unsigned_value csr \<notin> snd ` set (CSR T)"
      by (auto simp: find_None_iff)
    then show ?thesis
      using None by (simp add: decCSR_bits [OF lc])
  next
    case (Some e)
    then have e: "e \<in> set (CSR T)" "snd e = unsigned_value csr"
      by (auto simp: find_Some_iff)
    obtain n v where nv: "e = (n, v)" by (cases e)
    have "(fst e, unsigned_value csr) \<in> set (CSR T)"
      using e by (simp add: nv)
    moreover have "unsigned_value csr \<in> snd ` set (CSR T)"
      using e by (metis image_eqI)
    ultimately have "(fst e, unsigned_value csr) \<in> set (CSR T)"
      "unsigned_value csr \<in> snd ` set (CSR T)"
      by simp_all
    then show ?thesis
      using Some by (simp add: decCSR_bits [OF lc])
  qed
  show ?thesis
    unfolding a fr b
    using cs rng reg imm f0 hex3_digits [of "unsigned_value csr"]
    by (auto simp add: Frag_def num_tok_def csr_def [symmetric] rs1_def [symmetric] b
             split: if_splits)
qed

text \<open>In the instance of the tables the Zicsr family is every \<open>funct3\<close> that is not zero,
  but for 100, which has no entry; \<open>funct3 = 000\<close> is the trap family.\<close>

lemma zicsr_family_instance:
  "map (\<lambda>f3. case ISA_SYSTEM rv_tables f3 of
               Some (Mne m) \<Rightarrow> m | Some (Sub t) \<Rightarrow> ''(table)'' | None \<Rightarrow> ''(none)'')
     [''000'', ''001'', ''010'', ''011'', ''100'', ''101'', ''110'', ''111'']
   = [''(table)'', ''csrrw'', ''csrrs'', ''csrrc'', ''(none)'', ''csrrwi'', ''csrrsi'', ''csrrci'']"
  by (simp add: rv_tables_def rv_ISA_SYSTEM_def)

text \<open>The word 0x30529073 is \<open>csrrw x0, mtvec, x5\<close>; the word 0x7c02d0f3 is
  \<open>csrrwi x1, 0x7c0, 5\<close>, whose address has no name.\<close>

theorem zicsr_operands_witness:
  "is_word ''00110000010100101001000001110011''
   \<and> bits_of ''00110000010100101001000001110011'' 6 0 = OPCODE_SYSTEM
   \<and> ISA_SYSTEM rv_tables (bits_of ''00110000010100101001000001110011'' 14 12)
        = Some (Mne ''csrrw'')
   \<and> (\<exists>d. Decoder rv_tables ''00110000010100101001000001110011'' config_default = Inr d
          \<and> d_asm d = ''csrrw x0, mtvec, x5''
          \<and> asm (asmFrags d ! 2) = Str ''mtvec'' \<and> asm (asmFrags d ! 3) = Str ''x5'')
   \<and> is_word ''01111100000000101101000011110011''
   \<and> bits_of ''01111100000000101101000011110011'' 6 0 = OPCODE_SYSTEM
   \<and> ISA_SYSTEM rv_tables (bits_of ''01111100000000101101000011110011'' 14 12)
        = Some (Mne ''csrrwi'')
   \<and> (\<exists>d. Decoder rv_tables ''01111100000000101101000011110011'' config_default = Inr d
          \<and> d_asm d = ''csrrwi x1, 0x7c0, 5''
          \<and> asm (asmFrags d ! 2) = Str ''0x7c0'' \<and> asm (asmFrags d ! 3) = Num 5)"
proof -
  let ?w = "''00110000010100101001000001110011''"
  let ?v = "''01111100000000101101000011110011''"
  have w: "is_word ?w" and v: "is_word ?v"
    by code_simp+
  have opw: "bits_of ?w 6 0 = OPCODE_SYSTEM" and opv: "bits_of ?v 6 0 = OPCODE_SYSTEM"
    by code_simp+
  have f3: "bits_of ?w 14 12 = ''001''" "bits_of ?v 14 12 = ''101''"
    by code_simp+
  have tw: "ISA_SYSTEM rv_tables (bits_of ?w 14 12) = Some (Mne ''csrrw'')"
    and tv: "ISA_SYSTEM rv_tables (bits_of ?v 14 12) = Some (Mne ''csrrwi'')"
    unfolding f3 by (simp_all add: rv_tables_def rv_ISA_SYSTEM_def)
  have vw: "bits_of ?w 14 14 = ''0''" "unsigned_value (bits_of ?w 31 20) = 773"
    "toString 10 (unsigned_value (bits_of ?w 19 15)) = ''5''"
    and vv: "bits_of ?v 14 14 = ''1''" "unsigned_value (bits_of ?v 31 20) = 1984"
    "unsigned_value (bits_of ?v 19 15) = 5" "hex3 1984 = ''7c0''"
    by code_simp+
  have cw: "773 \<in> snd ` set (CSR rv_tables)"
    "\<And>n. (n, 773) \<in> set (CSR rv_tables) \<Longrightarrow> n = ''mtvec''"
    and cv: "1984 \<notin> snd ` set (CSR rv_tables)"
    by (auto simp add: rv_tables_def rv_CSR_def)
  have "map_sum id d_asm (Decoder rv_tables ?w config_default) = Inr ''csrrw x0, mtvec, x5''"
    by code_simp
  then obtain d where d: "Decoder rv_tables ?w config_default = Inr d"
    and a: "d_asm d = ''csrrw x0, mtvec, x5''"
    by (cases "Decoder rv_tables ?w config_default") auto
  from zicsr_operands [OF w opw tw d]
  obtain f_opcode f_rd f_csr f_src where fr: "asmFrags d = [f_opcode, f_rd, f_csr, f_src]"
    and src: "if bits_of ?w 14 14 = ''0''
         then asm f_src = Str (CHR ''x'' # toString 10 (unsigned_value (bits_of ?w 19 15)))
         else asm f_src = Num (unsigned_value (bits_of ?w 19 15))"
    and csr: "if unsigned_value (bits_of ?w 31 20) \<in> snd ` set (CSR rv_tables)
         then \<exists>n. asm f_csr = Str n
                  \<and> (n, unsigned_value (bits_of ?w 31 20)) \<in> set (CSR rv_tables)
         else asm f_csr = Str (''0x'' @ hex3 (unsigned_value (bits_of ?w 31 20)))"
    by blast
  have "asm f_src = Str ''x5''"
    using src unfolding vw by simp
  moreover have "asm f_csr = Str ''mtvec''"
    using csr cw unfolding vw by auto
  ultimately have f: "asm (asmFrags d ! 2) = Str ''mtvec''" "asm (asmFrags d ! 3) = Str ''x5''"
    by (simp_all add: fr)
  have "map_sum id d_asm (Decoder rv_tables ?v config_default) = Inr ''csrrwi x1, 0x7c0, 5''"
    by code_simp
  then obtain d' where d': "Decoder rv_tables ?v config_default = Inr d'"
    and a': "d_asm d' = ''csrrwi x1, 0x7c0, 5''"
    by (cases "Decoder rv_tables ?v config_default") auto
  from zicsr_operands [OF v opv tv d']
  obtain g_opcode g_rd g_csr g_src where gr: "asmFrags d' = [g_opcode, g_rd, g_csr, g_src]"
    and src': "if bits_of ?v 14 14 = ''0''
         then asm g_src = Str (CHR ''x'' # toString 10 (unsigned_value (bits_of ?v 19 15)))
         else asm g_src = Num (unsigned_value (bits_of ?v 19 15))"
    and csr': "if unsigned_value (bits_of ?v 31 20) \<in> snd ` set (CSR rv_tables)
         then \<exists>n. asm g_csr = Str n
                  \<and> (n, unsigned_value (bits_of ?v 31 20)) \<in> set (CSR rv_tables)
         else asm g_csr = Str (''0x'' @ hex3 (unsigned_value (bits_of ?v 31 20)))"
    by blast
  have "asm g_src = Num 5"
    using src' unfolding vv by simp
  moreover have "asm g_csr = Str ''0x7c0''"
    using csr' cv unfolding vv by simp
  ultimately have f': "asm (asmFrags d' ! 2) = Str ''0x7c0''" "asm (asmFrags d' ! 3) = Num 5"
    by (simp_all add: gr)
  show ?thesis
    using w opw tw d a f v opv tv d' a' f' by blast
qed

subsection \<open>Fence masks\<close>

text \<open>
  Claim C8, as amended. A fence word is a word with the opcode MISC-MEM whose \<open>funct3\<close>
  the table maps to \<open>fence\<close>. When it decodes, its operands are the two masks, bits 27
  to 24 and bits 23 to 20, each written as the letters \<open>i\<close>, \<open>o\<close>, \<open>r\<close>, \<open>w\<close> of its set
  bits from the most significant bit down. When the fields \<open>rd\<close> and \<open>rs1\<close> are zero and
  one of the masks is all zero, decoding fails with the error of an invalid fence. When
  \<open>rd\<close> or \<open>rs1\<close> is not zero, decoding fails with the error of a reserved field that is
  not zero, whatever the masks are.
\<close>

theorem fence_masks:
  assumes "is_word bin"
    and "bits_of bin 6 0 = OPCODE_MISC_MEM"
    and "ISA_MISC_MEM T (bits_of bin 14 12) = Some ''fence''"
  shows "(\<forall>d. Decoder T bin config = Inr d \<longrightarrow>
            (\<exists>f_opcode f_pred f_succ.
               asmFrags d = [f_opcode, f_pred, f_succ]
               \<and> bits f_pred = bits_of bin 27 24 \<and> bits f_succ = bits_of bin 23 20
               \<and> asm f_pred = Str (fence_letters (bits_of bin 27 24))
               \<and> asm f_succ = Str (fence_letters (bits_of bin 23 20))))
       \<and> (bits_of bin 11 7 = ''00000'' \<and> bits_of bin 19 15 = ''00000''
            \<and> (bits_of bin 27 24 = ''0000'' \<or> bits_of bin 23 20 = ''0000'') \<longrightarrow>
            Decoder T bin config = Inl InvalidFence)
       \<and> (\<not> (bits_of bin 11 7 = ''00000'' \<and> bits_of bin 19 15 = ''00000'') \<longrightarrow>
            Decoder T bin config = Inl NonZeroReserved)"
proof -
  have len: "length bin = 32" using assms(1) by (simp add: is_word_def)
  have opc: "getBits bin (pos F_opcode) = Inr OPCODE_MISC_MEM"
    using getBits_opcode [OF len] assms(2) by simp
  define pred where "pred = take 4 (drop 4 bin)"
  define succ where "succ = take 4 (drop 8 bin)"
  define rd where "rd = take 5 (drop 20 bin)"
  define rs1 where "rs1 = take 5 (drop 12 bin)"
  have b: "bits_of bin 27 24 = pred" "bits_of bin 23 20 = succ" "bits_of bin 11 7 = rd"
    "bits_of bin 19 15 = rs1" "bits_of bin 14 12 = take 3 (drop 17 bin)"
    by (simp_all add: bits_of_def pred_def succ_def rd_def rs1_def)
  have tm: "ISA_MISC_MEM T (take 3 (drop 17 bin)) = Some ''fence''"
    using assms(3) by (simp only: b)
  have lp: "list_all is_bit pred" "length pred = 4"
    using is_word_take_drop [OF assms(1), of 4 4] len by (simp_all add: pred_def)
  have ls: "list_all is_bit succ" "length succ = 4"
    using is_word_take_drop [OF assms(1), of 4 8] len by (simp_all add: succ_def)
  have dm: "decodeMISC_MEM T OPCODE_MISC_MEM bin =
          (if rd \<noteq> ''00000'' \<or> rs1 \<noteq> ''00000'' then Inl NonZeroReserved
           else bind_err (decMem pred) (\<lambda>predecessor.
                bind_err (decMem succ) (\<lambda>successor.
                  Inr \<lparr>h_mne = Some ''fence'', h_isa = None,
                       h_asmFrags =
                         [Frag (Str ''fence'') OPCODE_MISC_MEM (fname F_opcode) False,
                          Frag (Str predecessor) pred (fname F_i_pred) False,
                          Frag (Str successor) succ (fname F_i_succ) False],
                       h_binFrags =
                         [Frag (Str ''fence'') (take 4 bin) (fname F_i_fm) False,
                          Frag (Str predecessor) pred (fname F_i_pred) False,
                          Frag (Str successor) succ (fname F_i_succ) False,
                          Frag (Str ''fence'') rs1 (fname F_rs1) False,
                          Frag (Str ''fence'') (take 3 (drop 17 bin)) (fname F_funct3) False,
                          Frag (Str ''fence'') rd (fname F_rd) False,
                          Frag (Str ''fence'') OPCODE_MISC_MEM (fname F_opcode) False]\<rparr>)))"
    unfolding decodeMISC_MEM_def extractIFields_32 [OF len]
    by (simp add: tm Let_def pred_def succ_def rd_def rs1_def)
  show ?thesis
    unfolding b
  proof (intro conjI allI impI)
    fix d
    assume ok: "Decoder T bin config = Inr d"
    from ok opc obtain h inst where h: "dispatch T config OPCODE_MISC_MEM bin = Inr h"
      and "ISA T (case h_mne h of None \<Rightarrow> ''undefined'' | Some m \<Rightarrow> m) = Some inst"
      and "d_fmt d = inst_fmt inst"
      and "d_isa d = (case h_isa h of Some i \<Rightarrow> i | None \<Rightarrow> inst_isa inst)"
      and "renderAsm (convertRegToAbi T) (h_asmFrags h) (cfg_ABI config) = Inr (d_asm d)"
      and a: "asmFrags d = h_asmFrags h"
      and "binFrags d = h_binFrags h"
      by (rule Decoder_InrE)
    have "h_asmFrags h =
            [Frag (Str ''fence'') OPCODE_MISC_MEM (fname F_opcode) False,
             Frag (Str (fence_letters pred)) pred (fname F_i_pred) False,
             Frag (Str (fence_letters succ)) succ (fname F_i_succ) False]"
      using h unfolding dispatch_MISC_MEM dm decMem_bits [OF lp] decMem_bits [OF ls]
      by (auto split: if_splits)
    then show "\<exists>f_opcode f_pred f_succ.
               asmFrags d = [f_opcode, f_pred, f_succ]
               \<and> bits f_pred = pred \<and> bits f_succ = succ
               \<and> asm f_pred = Str (fence_letters pred)
               \<and> asm f_succ = Str (fence_letters succ)"
      unfolding a by (simp add: Frag_def)
  next
    assume "rd = ''00000'' \<and> rs1 = ''00000'' \<and> (pred = ''0000'' \<or> succ = ''0000'')"
    then have "decodeMISC_MEM T OPCODE_MISC_MEM bin = Inl InvalidFence"
      unfolding dm decMem_bits [OF lp] decMem_bits [OF ls] by auto
    then show "Decoder T bin config = Inl InvalidFence"
      using Decoder_Inl [OF opc] by (simp add: dispatch_MISC_MEM)
  next
    assume "\<not> (rd = ''00000'' \<and> rs1 = ''00000'')"
    then have "decodeMISC_MEM T OPCODE_MISC_MEM bin = Inl NonZeroReserved"
      unfolding dm by auto
    then show "Decoder T bin config = Inl NonZeroReserved"
      using Decoder_Inl [OF opc] by (simp add: dispatch_MISC_MEM)
  qed
qed

text \<open>The word 0x0ff0000f is \<open>fence iorw, iorw\<close> and 0x0120000f is \<open>fence w, r\<close>; the word
  0x0000000f has empty masks, and 0x0000008f has empty masks and \<open>rd = 1\<close>.\<close>

theorem fence_masks_witness:
  "is_word ''00000001001000000000000000001111''
   \<and> bits_of ''00000001001000000000000000001111'' 6 0 = OPCODE_MISC_MEM
   \<and> ISA_MISC_MEM rv_tables (bits_of ''00000001001000000000000000001111'' 14 12) = Some ''fence''
   \<and> (\<exists>d. Decoder rv_tables ''00000001001000000000000000001111'' config_default = Inr d
          \<and> d_asm d = ''fence w, r''
          \<and> asm (asmFrags d ! 1) = Str ''w'' \<and> asm (asmFrags d ! 2) = Str ''r'')
   \<and> is_word ''00000000000000000000000000001111''
   \<and> bits_of ''00000000000000000000000000001111'' 6 0 = OPCODE_MISC_MEM
   \<and> ISA_MISC_MEM rv_tables (bits_of ''00000000000000000000000000001111'' 14 12) = Some ''fence''
   \<and> bits_of ''00000000000000000000000000001111'' 11 7 = ''00000''
   \<and> bits_of ''00000000000000000000000000001111'' 19 15 = ''00000''
   \<and> bits_of ''00000000000000000000000000001111'' 27 24 = ''0000''
   \<and> Decoder rv_tables ''00000000000000000000000000001111'' config_default = Inl InvalidFence
   \<and> is_word ''00000000000000000000000010001111''
   \<and> bits_of ''00000000000000000000000010001111'' 6 0 = OPCODE_MISC_MEM
   \<and> ISA_MISC_MEM rv_tables (bits_of ''00000000000000000000000010001111'' 14 12) = Some ''fence''
   \<and> bits_of ''00000000000000000000000010001111'' 11 7 = ''00001''
   \<and> Decoder rv_tables ''00000000000000000000000010001111'' config_default = Inl NonZeroReserved"
proof -
  let ?w = "''00000001001000000000000000001111''"
  let ?v = "''00000000000000000000000000001111''"
  let ?u = "''00000000000000000000000010001111''"
  have w: "is_word ?w" and v: "is_word ?v" and u: "is_word ?u"
    by code_simp+
  have opw: "bits_of ?w 6 0 = OPCODE_MISC_MEM" and opv: "bits_of ?v 6 0 = OPCODE_MISC_MEM"
    and opu: "bits_of ?u 6 0 = OPCODE_MISC_MEM"
    by code_simp+
  have tw: "ISA_MISC_MEM rv_tables (bits_of ?w 14 12) = Some ''fence''"
    and tv: "ISA_MISC_MEM rv_tables (bits_of ?v 14 12) = Some ''fence''"
    and tu: "ISA_MISC_MEM rv_tables (bits_of ?u 14 12) = Some ''fence''"
    by code_simp+
  have lw: "fence_letters (bits_of ?w 27 24) = ''w''" "fence_letters (bits_of ?w 23 20) = ''r''"
    by code_simp+
  have bv: "bits_of ?v 11 7 = ''00000''" "bits_of ?v 19 15 = ''00000''"
    "bits_of ?v 27 24 = ''0000''"
    and bu: "bits_of ?u 11 7 = ''00001''"
    by code_simp+
  have "map_sum id d_asm (Decoder rv_tables ?w config_default) = Inr ''fence w, r''"
    by code_simp
  then obtain d where d: "Decoder rv_tables ?w config_default = Inr d"
    and a: "d_asm d = ''fence w, r''"
    by (cases "Decoder rv_tables ?w config_default") auto
  from fence_masks [OF w opw tw, of config_default] d
  obtain f_opcode f_pred f_succ where "asmFrags d = [f_opcode, f_pred, f_succ]"
    and "asm f_pred = Str (fence_letters (bits_of ?w 27 24))"
    and "asm f_succ = Str (fence_letters (bits_of ?w 23 20))"
    by blast
  then have f: "asm (asmFrags d ! 1) = Str ''w''" "asm (asmFrags d ! 2) = Str ''r''"
    unfolding lw by simp_all
  have ev: "Decoder rv_tables ?v config_default = Inl InvalidFence"
    using fence_masks [OF v opv tv, of config_default] bv by blast
  have "\<not> (bits_of ?u 11 7 = ''00000'' \<and> bits_of ?u 19 15 = ''00000'')"
    unfolding bu by simp
  then have eu: "Decoder rv_tables ?u config_default = Inl NonZeroReserved"
    using fence_masks [OF u opu tu, of config_default] by blast
  show ?thesis
    using w opw tw d a f v opv tv bv ev u opu tu bu eu by blast
qed

text \<open>The claim as stated asks for the error of an invalid fence whenever a mask is all
  zero. The fence word 0x0000008f has both masks all zero and \<open>rd = 1\<close>: the test of the
  registers comes first and decoding fails with its error.\<close>

theorem fence_invalid_counterexample:
  "ISA_MISC_MEM rv_tables (bits_of ''00000000000000000000000010001111'' 14 12) = Some ''fence''
   \<and> bits_of ''00000000000000000000000010001111'' 6 0 = OPCODE_MISC_MEM
   \<and> bits_of ''00000000000000000000000010001111'' 27 24 = ''0000''
   \<and> bits_of ''00000000000000000000000010001111'' 23 20 = ''0000''
   \<and> Decoder rv_tables ''00000000000000000000000010001111'' config_default = Inl NonZeroReserved"
  by code_simp

subsection \<open>Register operands\<close>

text \<open>
  Claim C9. \<open>decReg\<close> has no failing path: on every field of five binary digits it
  returns the letter \<open>x\<close>, or \<open>f\<close> for a float register, followed by the decimal value of
  the field, which lies between 0 and 31. In every successful decode, every assembly
  fragment whose field is a register field (\<open>rd\<close>, \<open>rs1\<close>, \<open>rs2\<close>, \<open>rs3\<close>) has five bits and
  carries such a token for the value of its bits. The tokens of the fragments are
  numeric names whether ABI names are switched on or off, since \<open>renderAsm\<close> converts
  only the text it prints.
\<close>

theorem register_rendering:
  "(list_all is_bit reg \<and> length reg = 5 \<longrightarrow>
      decReg reg fl = (if fl then ''f'' else ''x'') @ toString 10 (unsigned_value reg)
      \<and> 0 \<le> unsigned_value reg \<and> unsigned_value reg \<le> 31)
   \<and> (is_word bin \<and> Decoder T bin config = Inr d \<longrightarrow>
        (\<forall>f \<in> set (asmFrags d). reg_field (field f) \<longrightarrow> reg_frag_ok f))"
proof -
  have A: "list_all is_bit reg \<and> length reg = 5 \<longrightarrow>
      decReg reg fl = (if fl then ''f'' else ''x'') @ toString 10 (unsigned_value reg)
      \<and> 0 \<le> unsigned_value reg \<and> unsigned_value reg \<le> 31"
  proof
    assume a: "list_all is_bit reg \<and> length reg = 5"
    then have ne: "reg \<noteq> []" by auto
    have "unsigned_value reg < 32" "0 \<le> unsigned_value reg"
      using unsigned_value_range [of reg] a by simp_all
    then show "decReg reg fl = (if fl then ''f'' else ''x'') @ toString 10 (unsigned_value reg)
        \<and> 0 \<le> unsigned_value reg \<and> unsigned_value reg \<le> 31"
      using decReg_bits [of reg fl] a ne by simp
  qed
  have B: "is_word bin \<and> Decoder T bin config = Inr d \<longrightarrow>
        (\<forall>f \<in> set (asmFrags d). reg_field (field f) \<longrightarrow> reg_frag_ok f)"
  proof
    assume a: "is_word bin \<and> Decoder T bin config = Inr d"
    then have w: "is_word bin" and ok: "Decoder T bin config = Inr d" by simp_all
    have len: "length bin = 32" using w by (simp add: is_word_def)
    have opc: "getBits bin (pos F_opcode) = Inr (bits_of bin 6 0)"
      by (rule getBits_opcode [OF len])
    from ok opc obtain h inst where h: "dispatch T config (bits_of bin 6 0) bin = Inr h"
      and "ISA T (case h_mne h of None \<Rightarrow> ''undefined'' | Some m \<Rightarrow> m) = Some inst"
      and "d_fmt d = inst_fmt inst"
      and "d_isa d = (case h_isa h of Some i \<Rightarrow> i | None \<Rightarrow> inst_isa inst)"
      and "renderAsm (convertRegToAbi T) (h_asmFrags h) (cfg_ABI config) = Inr (d_asm d)"
      and fr: "asmFrags d = h_asmFrags h"
      and "binFrags d = h_binFrags h"
      by (rule Decoder_InrE)
    have "handled_ok h" by (rule dispatch_ok [OF w h])
    then obtain f fs where "h_asmFrags h = f # fs" "field f = ''opcode''"
      "list_all (\<lambda>g. reg_field (field g) \<longrightarrow> reg_frag_ok g) fs"
      by (cases "h_asmFrags h") (auto simp: handled_ok_def)
    then show "\<forall>f \<in> set (asmFrags d). reg_field (field f) \<longrightarrow> reg_frag_ok f"
      unfolding fr by (auto simp: list_all_iff)
  qed
  show ?thesis by (rule conjI [OF A B])
qed

text \<open>The word 0x00c58533 is \<open>add x10, x11, x12\<close>.\<close>

theorem register_rendering_witness:
  "list_all is_bit ''01010'' \<and> length ''01010'' = 5
   \<and> decReg ''01010'' False = ''x10'' \<and> decReg ''01010'' True = ''f10''
   \<and> is_word ''00000000110001011000010100110011''
   \<and> (\<exists>d. Decoder rv_tables ''00000000110001011000010100110011'' config_default = Inr d
          \<and> d_asm d = ''add x10, x11, x12''
          \<and> map asm (asmFrags d) = [Str ''add'', Str ''x10'', Str ''x11'', Str ''x12'']
          \<and> reg_field (field (asmFrags d ! 1)) \<and> reg_frag_ok (asmFrags d ! 1)
          \<and> reg_field (field (asmFrags d ! 2)) \<and> reg_frag_ok (asmFrags d ! 2)
          \<and> reg_field (field (asmFrags d ! 3)) \<and> reg_frag_ok (asmFrags d ! 3))"
proof -
  let ?w = "''00000000110001011000010100110011''"
  have r1: "list_all is_bit ''01010''" and r2: "length ''01010'' = 5"
    by code_simp+
  note r = conjI [OF r1 r2]
  have v: "toString 10 (unsigned_value ''01010'') = ''10''"
    by code_simp
  have w: "is_word ?w"
    by code_simp
  have "map_sum id (\<lambda>d. (d_asm d, map asm (asmFrags d), map field (asmFrags d)))
          (Decoder rv_tables ?w config_default)
        = Inr (''add x10, x11, x12'', [Str ''add'', Str ''x10'', Str ''x11'', Str ''x12''],
               [''opcode'', ''rd'', ''rs1'', ''rs2''])"
    by code_simp
  then obtain d where d: "Decoder rv_tables ?w config_default = Inr d"
    and a: "d_asm d = ''add x10, x11, x12''"
    and t: "map asm (asmFrags d) = [Str ''add'', Str ''x10'', Str ''x11'', Str ''x12'']"
    and f: "map field (asmFrags d) = [''opcode'', ''rd'', ''rs1'', ''rs2'']"
    by (cases "Decoder rv_tables ?w config_default") auto
  note th = register_rendering [of "''01010''" _ ?w rv_tables config_default d]
  have x: "decReg ''01010'' False = ''x10''"
    using th [of False] r v by simp
  have y: "decReg ''01010'' True = ''f10''"
    using th [of True] r v by simp
  have all: "\<forall>f \<in> set (asmFrags d). reg_field (field f) \<longrightarrow> reg_frag_ok f"
    using th [of False] w d by blast
  obtain f0 f1 f2 f3 where fs: "asmFrags d = [f0, f1, f2, f3]"
    using f by (auto simp: map_eq_Cons_conv)
  have rf: "reg_field (field f1)" "reg_field (field f2)" "reg_field (field f3)"
    using f unfolding fs by (simp_all add: reg_field_def)
  then have "reg_frag_ok f1" "reg_frag_ok f2" "reg_frag_ok f3"
    using all unfolding fs by simp_all
  with rf have g: "reg_field (field (asmFrags d ! 1)) \<and> reg_frag_ok (asmFrags d ! 1)
          \<and> reg_field (field (asmFrags d ! 2)) \<and> reg_frag_ok (asmFrags d ! 2)
          \<and> reg_field (field (asmFrags d ! 3)) \<and> reg_frag_ok (asmFrags d ! 3)"
    unfolding fs by simp
  have "Decoder rv_tables ?w config_default = Inr d
          \<and> d_asm d = ''add x10, x11, x12''
          \<and> map asm (asmFrags d) = [Str ''add'', Str ''x10'', Str ''x11'', Str ''x12'']
          \<and> reg_field (field (asmFrags d ! 1)) \<and> reg_frag_ok (asmFrags d ! 1)
          \<and> reg_field (field (asmFrags d ! 2)) \<and> reg_frag_ok (asmFrags d ! 2)
          \<and> reg_field (field (asmFrags d ! 3)) \<and> reg_frag_ok (asmFrags d ! 3)"
    by (rule conjI [OF d conjI [OF a conjI [OF t g]]])
  then have ex: "\<exists>d. Decoder rv_tables ?w config_default = Inr d
          \<and> d_asm d = ''add x10, x11, x12''
          \<and> map asm (asmFrags d) = [Str ''add'', Str ''x10'', Str ''x11'', Str ''x12'']
          \<and> reg_field (field (asmFrags d ! 1)) \<and> reg_frag_ok (asmFrags d ! 1)
          \<and> reg_field (field (asmFrags d ! 2)) \<and> reg_frag_ok (asmFrags d ! 2)
          \<and> reg_field (field (asmFrags d ! 3)) \<and> reg_frag_ok (asmFrags d ! 3)"
    by (rule exI)
  show ?thesis
    by (rule conjI [OF r1 conjI [OF r2 conjI [OF x conjI [OF y conjI [OF w ex]]]]])
qed

subsection \<open>The assembly line\<close>

text \<open>
  Claim C10. In every successful decode the assembly fragments are not empty; the first
  is the opcode fragment, and its token is the mnemonic \<open>m\<close>, the key under which the
  table \<open>ISA\<close> gave the format (a mnemonic left \<open>undefined\<close> is looked up, and printed,
  as that word). The rendered line is the mnemonic and the operands joined as the
  specification says, with surrounding white space removed: a blank before the first
  operand, a comma and a blank before a later one, a base register of a memory operand
  in parentheses, and no separator before it when the fragment before it is an
  immediate field. So the line begins with the mnemonic, a mnemonic being a word without
  white space at either end.
\<close>

theorem asm_begins_with_mnemonic:
  assumes "is_word bin" and "Decoder T bin config = Inr d"
  shows "\<exists>m inst f_opcode operands.
           asmFrags d = f_opcode # operands
           \<and> field f_opcode = ''opcode''
           \<and> (asm f_opcode = Str m \<or> (asm f_opcode = Undef \<and> m = ''undefined''))
           \<and> ISA T m = Some inst \<and> d_fmt d = inst_fmt inst
           \<and> d_asm d = asm_line (convertRegToAbi T) (cfg_ABI config) m operands
           \<and> (m \<noteq> [] \<and> \<not> is_space (hd m) \<and> \<not> is_space (last m) \<longrightarrow> prefix m (d_asm d))"
proof -
  have len: "length bin = 32" using assms(1) by (simp add: is_word_def)
  have opc: "getBits bin (pos F_opcode) = Inr (bits_of bin 6 0)"
    by (rule getBits_opcode [OF len])
  from assms(2) opc obtain h inst where h: "dispatch T config (bits_of bin 6 0) bin = Inr h"
    and i: "ISA T (case h_mne h of None \<Rightarrow> ''undefined'' | Some m \<Rightarrow> m) = Some inst"
    and fm: "d_fmt d = inst_fmt inst"
    and "d_isa d = (case h_isa h of Some i \<Rightarrow> i | None \<Rightarrow> inst_isa inst)"
    and r: "renderAsm (convertRegToAbi T) (h_asmFrags h) (cfg_ABI config) = Inr (d_asm d)"
    and fr: "asmFrags d = h_asmFrags h"
    and "binFrags d = h_binFrags h"
    by (rule Decoder_InrE)
  define m where "m = (case h_mne h of None \<Rightarrow> ''undefined'' | Some m \<Rightarrow> m)"
  have "handled_ok h" by (rule dispatch_ok [OF assms(1) h])
  then obtain f fs where ffs: "h_asmFrags h = f # fs" and fo: "field f = ''opcode''"
    and tk: "asm f = mne_tok (h_mne h)" and ne: "h_mne h = None \<longrightarrow> fs \<noteq> []"
    by (cases "h_asmFrags h") (auto simp: handled_ok_def)
  have ts: "tok_str (asm f) = m"
    unfolding tk m_def by (simp add: mne_tok_def tok_str_def split: option.splits)
  have tk': "asm f = Str m \<or> (asm f = Undef \<and> m = ''undefined'')"
    unfolding tk m_def by (simp add: mne_tok_def split: option.splits)
  have line: "d_asm d = asm_line (convertRegToAbi T) (cfg_ABI config) m fs"
    using r renderAsm_line [OF tk ne, of "convertRegToAbi T" "cfg_ABI config"]
    unfolding ffs ts by simp
  have pre: "m \<noteq> [] \<and> \<not> is_space (hd m) \<and> \<not> is_space (last m) \<longrightarrow> prefix m (d_asm d)"
    unfolding line asm_line_def by (auto intro: prefix_trim)
  show ?thesis
    using ffs fo tk' i fm line pre unfolding fr m_def [symmetric] by blast
qed

text \<open>The word 0xffc12283 is \<open>lw x5, -4(x2)\<close>; the word 0x100022af is \<open>lr.w x5, (x0)\<close>,
  whose base register follows a register and so keeps its comma.\<close>

theorem asm_begins_with_mnemonic_witness:
  "is_word ''11111111110000010010001010000011''
   \<and> (\<exists>d. Decoder rv_tables ''11111111110000010010001010000011'' config_default = Inr d
          \<and> d_asm d = ''lw x5, -4(x2)''
          \<and> asm (hd (asmFrags d)) = Str ''lw''
          \<and> d_asm d = asm_line (convertRegToAbi rv_tables) (cfg_ABI config_default) ''lw''
                         (tl (asmFrags d))
          \<and> prefix ''lw'' (d_asm d))
   \<and> is_word ''00010000000000000010001010101111''
   \<and> (\<exists>d. Decoder rv_tables ''00010000000000000010001010101111'' config_default = Inr d
          \<and> d_asm d = ''lr.w x5, (x0)''
          \<and> asm (hd (asmFrags d)) = Str ''lr.w''
          \<and> prefix ''lr.w'' (d_asm d))"
proof -
  let ?w = "''11111111110000010010001010000011''"
  let ?v = "''00010000000000000010001010101111''"
  have w: "is_word ?w" and v: "is_word ?v"
    by code_simp+
  have sp: "''lw'' \<noteq> [] \<and> \<not> is_space (hd ''lw'') \<and> \<not> is_space (last ''lw'')"
    "''lr.w'' \<noteq> [] \<and> \<not> is_space (hd ''lr.w'') \<and> \<not> is_space (last ''lr.w'')"
    by code_simp+
  have "map_sum id (\<lambda>d. (d_asm d, asm (hd (asmFrags d))))
          (Decoder rv_tables ?w config_default) = Inr (''lw x5, -4(x2)'', Str ''lw'')"
    by code_simp
  then obtain d where d: "Decoder rv_tables ?w config_default = Inr d"
    and a: "d_asm d = ''lw x5, -4(x2)''" and t: "asm (hd (asmFrags d)) = Str ''lw''"
    by (cases "Decoder rv_tables ?w config_default") auto
  from asm_begins_with_mnemonic [OF w d]
  obtain m and inst :: inst and f_opcode operands
    where fr: "asmFrags d = f_opcode # operands"
    and tk: "asm f_opcode = Str m \<or> (asm f_opcode = Undef \<and> m = ''undefined'')"
    and line: "d_asm d = asm_line (convertRegToAbi rv_tables) (cfg_ABI config_default) m operands"
    and pre: "m \<noteq> [] \<and> \<not> is_space (hd m) \<and> \<not> is_space (last m) \<longrightarrow> prefix m (d_asm d)"
    by blast
  have m: "m = ''lw''" using tk t unfolding fr by auto
  have l: "d_asm d = asm_line (convertRegToAbi rv_tables) (cfg_ABI config_default) ''lw''
                       (tl (asmFrags d))"
    using line unfolding m fr by simp
  have p: "prefix ''lw'' (d_asm d)"
    using pre sp(1) unfolding m by blast
  have "map_sum id (\<lambda>d. (d_asm d, asm (hd (asmFrags d))))
          (Decoder rv_tables ?v config_default) = Inr (''lr.w x5, (x0)'', Str ''lr.w'')"
    by code_simp
  then obtain d' where d': "Decoder rv_tables ?v config_default = Inr d'"
    and a': "d_asm d' = ''lr.w x5, (x0)''" and t': "asm (hd (asmFrags d')) = Str ''lr.w''"
    by (cases "Decoder rv_tables ?v config_default") auto
  from asm_begins_with_mnemonic [OF v d']
  obtain m' and inst' :: inst and g_opcode operands'
    where fr': "asmFrags d' = g_opcode # operands'"
    and tk': "asm g_opcode = Str m' \<or> (asm g_opcode = Undef \<and> m' = ''undefined'')"
    and pre': "m' \<noteq> [] \<and> \<not> is_space (hd m') \<and> \<not> is_space (last m')
                 \<longrightarrow> prefix m' (d_asm d')"
    by blast
  have m': "m' = ''lr.w''" using tk' t' unfolding fr' by auto
  have p': "prefix ''lr.w'' (d_asm d')"
    using pre' sp(2) unfolding m' by blast
  show ?thesis
    using w d a t l p v d' a' t' p' by blast
qed

end
